theory Spec2Isabelle
  imports Complex_Main "HOL-Library.Word"
begin


section \<open>Persistence boundary (src/db.ts)\<close>

text \<open>
  A stored recording: the object-store value \<open>{date, blob}\<close> with the key injected at the
  key path \<open>id\<close>. Dates are milliseconds since the epoch, blobs are opaque byte strings.
\<close>

record recording =
  id_rec :: nat
  date :: nat
  blob :: string

text \<open>
  The object store \<open>recordings\<close>, created with \<open>{keyPath: 'id', autoIncrement: true}\<close>:
  a key generator (starting at 1) and the rows, held in ascending key order as the
  store's index holds them.
\<close>

record object_store =
  keygen :: nat
  rows :: "recording list"

text \<open>
  The module state: whether the module variable \<open>db\<close> holds a connection
  (\<open>initDB\<close> has succeeded), and the persistent store behind it.
\<close>

record db_state =
  db :: bool
  disk :: object_store

datatype reject_reason = Message string | RequestError

definition empty_store :: object_store where
  "empty_store = \<lparr>keygen = 1, rows = []\<rparr>"

definition closed_db :: "object_store \<Rightarrow> db_state" where
  "closed_db s = \<lparr>db = False, disk = s\<rparr>"

text \<open>\<open>initDB\<close>: \<open>request.onsuccess\<close> stores the connection, \<open>request.onerror\<close> rejects.\<close>

definition initDB :: "bool \<Rightarrow> db_state \<Rightarrow> (reject_reason + bool) \<times> db_state" where
  "initDB opened st = (if opened then (Inr True, st\<lparr>db := True\<rparr>) else (Inl RequestError, st))"

text \<open>
  \<open>store.add(value)\<close> on an auto-increment store: the key is the generator's current
  number, the generator is incremented, and the row enters the store at its key's place.
\<close>

definition store_add :: "nat \<Rightarrow> string \<Rightarrow> object_store \<Rightarrow> object_store" where
  "store_add now b s =
     \<lparr>keygen = Suc (keygen s),
      rows = insort_key id_rec \<lparr>id_rec = keygen s, date = now, blob = b\<rparr> (rows s)\<rparr>"

definition store_delete :: "nat \<Rightarrow> object_store \<Rightarrow> object_store" where
  "store_delete k s = s\<lparr>rows := filter (\<lambda>r. id_rec r \<noteq> k) (rows s)\<rparr>"

text \<open>
  \<open>store.openCursor(null, 'prev')\<close>: the cursor starts at the greatest key and each
  \<open>cursor.continue()\<close> steps to the next smaller one; every visited value is pushed
  onto \<open>recordings\<close>, and the exhausted cursor resolves the promise with the array.
\<close>

function cursor_prev :: "recording list \<Rightarrow> recording list \<Rightarrow> recording list" where
  "cursor_prev rs recordings =
     (if rs = [] then recordings
      else cursor_prev (butlast rs) (recordings @ [last rs]))"
  by pat_completeness auto
termination
  by (relation "measure (\<lambda>(rs, recordings). length rs)") auto

declare cursor_prev.simps [simp del]

text \<open>
  The three exported operations. The first argument is the outcome of the IndexedDB
  request (\<open>onsuccess\<close> or \<open>onerror\<close>), which the environment decides; \<open>now\<close> is the
  value of \<open>new Date()\<close>.
\<close>

definition addRecording ::
  "bool \<Rightarrow> nat \<Rightarrow> string \<Rightarrow> db_state \<Rightarrow> (reject_reason + unit) \<times> db_state" where
  "addRecording ok now b st =
     (if \<not> db st then (Inl (Message ''Database not initialized.''), st)
      else if ok then (Inr (), st\<lparr>disk := store_add now b (disk st)\<rparr>)
      else (Inl RequestError, st))"

definition getAllRecordings ::
  "bool \<Rightarrow> db_state \<Rightarrow> (reject_reason + recording list) \<times> db_state" where
  "getAllRecordings ok st =
     (if \<not> db st then (Inl (Message ''Database not initialized.''), st)
      else if ok then (Inr (cursor_prev (rows (disk st)) []), st)
      else (Inl RequestError, st))"

definition deleteRecording ::
  "bool \<Rightarrow> nat \<Rightarrow> db_state \<Rightarrow> (reject_reason + unit) \<times> db_state" where
  "deleteRecording ok k st =
     (if \<not> db st then (Inl (Message ''Database not initialized.''), st)
      else if ok then (Inr (), st\<lparr>disk := store_delete k (disk st)\<rparr>)
      else (Inl RequestError, st))"

text \<open>A recorder's use of the boundary: a sequence of appends and deletes.\<close>

datatype db_op = Append bool nat string | Delete bool nat

fun apply_op :: "db_state \<Rightarrow> db_op \<Rightarrow> db_state" where
  "apply_op st (Append ok now b) = snd (addRecording ok now b st)"
| "apply_op st (Delete ok k) = snd (deleteRecording ok k st)"

definition run_ops :: "db_op list \<Rightarrow> db_state \<Rightarrow> db_state" where
  "run_ops ops st = foldl apply_op st ops"

text \<open>
  The boundary as the specification words it: \<open>append\<close> hands out the next identifier and
  the listing is a sequence ordered newest-first; \<open>delete\<close> removes the entry of that
  identifier. The pair is the number of identifiers handed out and the listing.
\<close>

fun spec_apply :: "nat \<times> recording list \<Rightarrow> db_op \<Rightarrow> nat \<times> recording list" where
  "spec_apply (n, xs) (Append ok now b) =
     (if ok then (Suc n, \<lparr>id_rec = Suc n, date = now, blob = b\<rparr> # xs) else (n, xs))"
| "spec_apply (n, xs) (Delete ok k) =
     (if ok then (n, filter (\<lambda>r. id_rec r \<noteq> k) xs) else (n, xs))"

definition newest_first :: "db_op list \<Rightarrow> recording list" where
  "newest_first ops = snd (foldl spec_apply (0, []) ops)"

definition opened_empty :: db_state where
  "opened_empty = \<lparr>db = True, disk = empty_store\<rparr>"

section \<open>Drive curve (src/App.tsx, connectNodes and the drive effect)\<close>

text \<open>
  Both places that build the waveshaping table run the same loop over a fresh
  \<open>Float32Array(256)\<close>: \<open>x = (i * 2) / 256 - 1\<close> and
  \<open>curve[i] = ((3 + k) * x * 20 * deg) / (Math.PI + k * Math.abs(x))\<close> with
  \<open>k = drive * 50\<close> and \<open>deg = Math.PI / 180\<close>. Numbers are modelled as reals.
\<close>

definition grid_x :: "nat \<Rightarrow> real" where
  "grid_x i = (real i * 2) / 256 - 1"

definition shape :: "real \<Rightarrow> real \<Rightarrow> real" where
  "shape drive x =
     (let k = drive * 50; deg = pi / 180
      in ((3 + k) * x * 20 * deg) / (pi + k * \<bar>x\<bar>))"

definition drive_sample :: "real \<Rightarrow> nat \<Rightarrow> real" where
  "drive_sample drive i = shape drive (grid_x i)"

function curve_loop :: "real \<Rightarrow> nat \<Rightarrow> real list \<Rightarrow> real list" where
  "curve_loop drive i curve =
     (if i < 256 then curve_loop drive (Suc i) (curve[i := drive_sample drive i]) else curve)"
  by pat_completeness auto
termination
  by (relation "measure (\<lambda>(drive, i, curve). 256 - i)") auto

declare curve_loop.simps [simp del]

definition makeCurve :: "real \<Rightarrow> real list" where
  "makeCurve drive = curve_loop drive 0 (replicate 256 0)"

section \<open>Noise gate block callback (src/App.tsx, onaudioprocess in connectNodes)\<close>

text \<open>
  \<open>data\<close> is the \<open>Uint8Array\<close> filled by \<open>getByteTimeDomainData\<close>. The callback
  returns at once when one of the three refs it needs is null; otherwise it schedules
  \<open>gain.setTargetAtTime(target, currentTime, timeConstant)\<close> on the gate's gain.
\<close>

record noise_gate =
  gate_threshold :: real
  gate_release :: real

datatype gate_action = SetTargetAtTime real real real

definition gate_rms :: "8 word list \<Rightarrow> real" where
  "gate_rms data =
     sqrt (foldl (\<lambda>acc val. acc + ((real (unat val) - 128) / 128) ^ 2) 0 data
           / real (length data))"

definition onaudioprocess ::
  "bool \<Rightarrow> noise_gate \<Rightarrow> real \<Rightarrow> 8 word list \<Rightarrow> gate_action option" where
  "onaudioprocess refs_live ng currentTime data =
     (if \<not> refs_live then None
      else
        let thresholdValue = 10 powr (gate_threshold ng / 20);
            rms = gate_rms data
        in if rms > thresholdValue then Some (SetTargetAtTime 1 currentTime (1 / 100))
           else Some (SetTargetAtTime 0 currentTime (gate_release ng)))"

text \<open>
  The gate as the specification words it: the root of the mean of the squared deviations
  of the samples from the centre, on the representation normalised to \<open>[-1, 1]\<close>, and
  the threshold converted from decibels to linear amplitude.
\<close>

definition mean :: "real list \<Rightarrow> real" where
  "mean xs = sum_list xs / real (length xs)"

definition normalized :: "8 word \<Rightarrow> real" where
  "normalized val = real (unat val) / 128"

definition spec_rms :: "real \<Rightarrow> real list \<Rightarrow> real" where
  "spec_rms center samples = sqrt (mean (map (\<lambda>sample. (sample - center) ^ 2) samples))"

definition thresholdLinear :: "real \<Rightarrow> real" where
  "thresholdLinear thresholdDb = 10 powr (thresholdDb / 20)"


section \<open>Configuration (the React state of src/App.tsx)\<close>

datatype filter_type = lowshelf | peaking | highshelf

record eq_band =
  band_id :: string
  band_label :: string
  band_gain :: real
  band_q :: "real option"
  band_freq :: real
  band_type :: filter_type

record compressor_settings =
  threshold :: real
  knee :: real
  ratio :: real
  attack :: real
  release :: real

record delay_settings =
  time :: real
  feedback :: real

record config =
  gain :: real
  drive :: real
  latency :: real
  selectedInput :: string
  selectedOutput :: string
  hasOutputSelection :: bool
  eqBands :: "eq_band list"
  bands_id :: nat
  postGain :: real
  compressorEnabled :: bool
  compressor :: compressor_settings
  delayEnabled :: bool
  delay :: delay_settings
  panner :: real
  noiseGateEnabled :: bool
  noiseGate :: noise_gate
  reverbEnabled :: bool
  reverb :: real

definition initialEqBands :: "eq_band list" where
  "initialEqBands =
    [\<lparr>band_id = ''sub'', band_label = ''Sub Bass'', band_gain = 0, band_q = None,
      band_freq = 60, band_type = lowshelf\<rparr>,
     \<lparr>band_id = ''bass'', band_label = ''Low Mid'', band_gain = 0, band_q = Some 1,
      band_freq = 250, band_type = peaking\<rparr>,
     \<lparr>band_id = ''mid'', band_label = ''Mid'', band_gain = 0, band_q = Some 1,
      band_freq = 1000, band_type = peaking\<rparr>,
     \<lparr>band_id = ''upperMid'', band_label = ''High Mid'', band_gain = 0, band_q = Some 1,
      band_freq = 4000, band_type = peaking\<rparr>,
     \<lparr>band_id = ''treble'', band_label = ''Treble'', band_gain = 0, band_q = None,
      band_freq = 10000, band_type = highshelf\<rparr>]"

text \<open>The initial values of the \<open>useState\<close> calls.\<close>

definition initial_config :: config where
  "initial_config =
    \<lparr>gain = 1, drive = 0, latency = 1 / 100, selectedInput = ''default'',
     selectedOutput = ''default'', hasOutputSelection = False, eqBands = initialEqBands,
     bands_id = 0, postGain = 1, compressorEnabled = False,
     compressor = \<lparr>threshold = - 24, knee = 30, ratio = 12, attack = 3 / 1000, release = 1 / 4\<rparr>,
     delayEnabled = False, delay = \<lparr>time = 1 / 2, feedback = 1 / 2\<rparr>, panner = 0,
     noiseGateEnabled = False, noiseGate = \<lparr>gate_threshold = - 50, gate_release = 1 / 4\<rparr>,
     reverbEnabled = False, reverb = 1 / 2\<rparr>"

section \<open>Audio nodes, refs and the engine state\<close>

text \<open>
  Every audio node the component creates is created at one of the creation sites of
  \<open>connectNodes\<close> (named here after the ref or local that receives the node, the
  \<open>i\<close>-th filter of \<open>eqNodesRef\<close> being \<open>Eq i\<close>), in one run of \<open>connectNodes\<close>, on
  one audio context. A node's identity is therefore the context, the number of the run
  and the site. The source node is identified by its context and media stream, the
  destination by its context.
\<close>

datatype role =
    NoiseGateAnalyser | ScriptProcessor | NoiseGate | Gain | Drive | Compressor | Eq nat
  | PostGain | Delay | Feedback | Panner | ReverbDry | ReverbWet | Reverb | FinalMixer
  | Analyser

datatype node = Source nat nat | Destination nat | Node nat nat role

datatype param =
    GainValue | Frequency | QValue | Threshold | Knee | Ratio | Attack | Release
  | DelayTime | Pan

datatype oversample = OversampleNone | Oversample2x | Oversample4x

datatype status = Stopped | Running | Error

text \<open>
  An asynchronous \<open>start\<close> (or \<open>restartAudio\<close>) that is suspended at an \<open>await\<close>: the
  settle delay of \<open>restartAudio\<close>, \<open>setSinkId\<close>, or \<open>getUserMedia\<close>. The closure is
  the configuration of the render whose \<open>start\<close> and \<open>connectNodes\<close> are running.
\<close>

datatype phase = AwaitSettle | AwaitSink | AwaitStream

record task =
  phase :: phase
  closure :: config

text \<open>
  The state: the React state that matters to the engine, the refs, and what the
  platform holds (connections, parameter values written, curves, filter types, closed
  contexts, ended streams, suspended tasks, the console).
\<close>

record engine =
  status :: status
  cfg :: config
  isRecording :: bool
  audioContextRef :: "nat option"
  mediaStreamRef :: "nat option"
  mediaRecorderRef :: "nat option"
  sourceNodeRef :: "node option"
  gainNodeRef :: "node option"
  driveNodeRef :: "node option"
  analyserNodeRef :: "node option"
  eqNodesRef :: "node list"
  postGainNodeRef :: "node option"
  compressorNodeRef :: "node option"
  delayNodeRef :: "node option"
  feedbackNodeRef :: "node option"
  pannerNodeRef :: "node option"
  noiseGateNodeRef :: "node option"
  noiseGateAnalyserNodeRef :: "node option"
  scriptProcessorNodeRef :: "node option"
  reverbNodeRef :: "node option"
  reverbWetGainRef :: "node option"
  reverbDryGainRef :: "node option"
  noiseGateRef :: noise_gate
  conns :: "(node \<times> node) list"
  params :: "node \<times> param \<Rightarrow> real option"
  curves :: "node \<Rightarrow> real list option"
  ftypes :: "node \<Rightarrow> filter_type option"
  oversamples :: "node \<Rightarrow> oversample option"
  closed :: "nat list"
  ended :: "nat list"
  tasks :: "nat \<Rightarrow> task option"
  next_ctx :: nat
  next_build :: nat
  next_task :: nat
  next_bands :: nat
  console :: "string list"

definition initial_engine :: engine where
  "initial_engine =
    \<lparr>status = Stopped, cfg = initial_config, isRecording = False,
     audioContextRef = None, mediaStreamRef = None, mediaRecorderRef = None,
     sourceNodeRef = None, gainNodeRef = None, driveNodeRef = None, analyserNodeRef = None,
     eqNodesRef = [], postGainNodeRef = None, compressorNodeRef = None, delayNodeRef = None,
     feedbackNodeRef = None, pannerNodeRef = None, noiseGateNodeRef = None,
     noiseGateAnalyserNodeRef = None, scriptProcessorNodeRef = None, reverbNodeRef = None,
     reverbWetGainRef = None, reverbDryGainRef = None,
     noiseGateRef = \<lparr>gate_threshold = - 50, gate_release = 1 / 4\<rparr>,
     conns = [], params = (\<lambda>_. None), curves = (\<lambda>_. None), ftypes = (\<lambda>_. None),
     oversamples = (\<lambda>_. None), closed = [], ended = [], tasks = (\<lambda>_. None), next_ctx = 0, next_build = 0,
     next_task = 0, next_bands = 1, console = []\<rparr>"

section \<open>connectNodes\<close>

definition connect :: "node \<Rightarrow> node \<Rightarrow> engine \<Rightarrow> engine" where
  "connect a b e = e\<lparr>conns := conns e @ [(a, b)]\<rparr>"

definition setParam :: "node \<Rightarrow> param \<Rightarrow> real \<Rightarrow> engine \<Rightarrow> engine" where
  "setParam n p v e = e\<lparr>params := (params e)((n, p) := Some v)\<rparr>"

definition setCurve :: "node \<Rightarrow> real list \<Rightarrow> engine \<Rightarrow> engine" where
  "setCurve n c e = e\<lparr>curves := (curves e)(n := Some c)\<rparr>"

definition setOversample :: "node \<Rightarrow> oversample \<Rightarrow> engine \<Rightarrow> engine" where
  "setOversample n v e = e\<lparr>oversamples := (oversamples e)(n := Some v)\<rparr>"

text \<open>
  Each stage of \<open>connectNodes\<close> takes the state and \<open>lastNode\<close> and returns them
  updated. \<open>ctx\<close> is the context in \<open>audioContextRef\<close>, \<open>b\<close> the number of the run.
  The state records the refs, the connections, the audio parameters written, the drive
  curve with its oversampling and the filter types; \<open>fftSize\<close> and the registration of
  the block callback (modelled above as \<open>onaudioprocess\<close>) are not recorded.
\<close>

definition stage_noiseGate ::
  "config \<Rightarrow> nat \<Rightarrow> nat \<Rightarrow> engine \<times> node \<Rightarrow> engine \<times> node" where
  "stage_noiseGate c ctx b = (\<lambda>(e, lastNode).
     if noiseGateEnabled c then
       let a = Node ctx b NoiseGateAnalyser;
           sp = Node ctx b ScriptProcessor;
           g = Node ctx b NoiseGate;
           e1 = e\<lparr>noiseGateAnalyserNodeRef := Some a, scriptProcessorNodeRef := Some sp,
                 noiseGateNodeRef := Some g\<rparr>;
           e2 = connect lastNode a e1;
           e3 = connect a sp e2;
           e4 = connect sp (Destination ctx) e3;
           e5 = connect lastNode g e4
       in (e5, g)
     else (e, lastNode))"

definition stage_gain ::
  "config \<Rightarrow> nat \<Rightarrow> nat \<Rightarrow> engine \<times> node \<Rightarrow> engine \<times> node" where
  "stage_gain c ctx b = (\<lambda>(e, lastNode).
     let g = Node ctx b Gain;
         e1 = e\<lparr>gainNodeRef := Some g\<rparr>;
         e2 = setParam g GainValue (gain c) e1;
         e3 = connect lastNode g e2
     in (e3, g))"

definition stage_drive ::
  "config \<Rightarrow> nat \<Rightarrow> nat \<Rightarrow> engine \<times> node \<Rightarrow> engine \<times> node" where
  "stage_drive c ctx b = (\<lambda>(e, lastNode).
     let d = Node ctx b Drive;
         e1 = e\<lparr>driveNodeRef := Some d\<rparr>;
         e2 = setCurve d (makeCurve (drive c)) e1;
         e3 = setOversample d Oversample4x e2;
         e4 = connect lastNode d e3
     in (e4, d))"

definition stage_compressor ::
  "config \<Rightarrow> nat \<Rightarrow> nat \<Rightarrow> engine \<times> node \<Rightarrow> engine \<times> node" where
  "stage_compressor c ctx b = (\<lambda>(e, lastNode).
     if compressorEnabled c then
       let n = Node ctx b Compressor;
           e1 = e\<lparr>compressorNodeRef := Some n\<rparr>;
           e2 = setParam n Threshold (threshold (compressor c)) e1;
           e3 = setParam n Knee (knee (compressor c)) e2;
           e4 = setParam n Ratio (ratio (compressor c)) e3;
           e5 = setParam n Attack (attack (compressor c)) e4;
           e6 = setParam n Release (release (compressor c)) e5;
           e7 = connect lastNode n e6
       in (e7, n)
     else (e, lastNode))"

text \<open>
  \<open>eqBands.map(band => ...)\<close> creates and configures one filter per band; \<open>Q\<close> is
  written only when \<open>band.q\<close> is truthy (present and not 0).
\<close>

definition make_filter :: "node \<Rightarrow> eq_band \<Rightarrow> engine \<Rightarrow> engine" where
  "make_filter f band e =
     (let e1 = e\<lparr>ftypes := (ftypes e)(f := Some (band_type band))\<rparr>;
          e2 = setParam f Frequency (band_freq band) e1;
          e3 = setParam f GainValue (band_gain band) e2
      in case band_q band of
           None \<Rightarrow> e3
         | Some v \<Rightarrow> if v \<noteq> 0 then setParam f QValue v e3 else e3)"

fun make_filters :: "nat \<Rightarrow> nat \<Rightarrow> nat \<Rightarrow> eq_band list \<Rightarrow> engine \<Rightarrow> engine" where
  "make_filters ctx b i [] e = e"
| "make_filters ctx b i (band # bands) e =
     make_filters ctx b (Suc i) bands (make_filter (Node ctx b (Eq i)) band e)"

text \<open>\<open>eqNodesRef.current.forEach(filter => { lastNode.connect(filter); lastNode = filter; })\<close>\<close>

fun connect_chain :: "node list \<Rightarrow> engine \<times> node \<Rightarrow> engine \<times> node" where
  "connect_chain [] (e, lastNode) = (e, lastNode)"
| "connect_chain (f # fs) (e, lastNode) = connect_chain fs (connect lastNode f e, f)"

definition stage_eq ::
  "config \<Rightarrow> nat \<Rightarrow> nat \<Rightarrow> engine \<times> node \<Rightarrow> engine \<times> node" where
  "stage_eq c ctx b = (\<lambda>(e, lastNode).
     let e1 = make_filters ctx b 0 (eqBands c) e;
         e2 = e1\<lparr>eqNodesRef := map (\<lambda>i. Node ctx b (Eq i)) [0..<length (eqBands c)]\<rparr>
     in connect_chain (eqNodesRef e2) (e2, lastNode))"

definition stage_postGain ::
  "config \<Rightarrow> nat \<Rightarrow> nat \<Rightarrow> engine \<times> node \<Rightarrow> engine \<times> node" where
  "stage_postGain c ctx b = (\<lambda>(e, lastNode).
     let g = Node ctx b PostGain;
         e1 = e\<lparr>postGainNodeRef := Some g\<rparr>;
         e2 = setParam g GainValue (postGain c) e1;
         e3 = connect lastNode g e2
     in (e3, g))"

definition stage_delay ::
  "config \<Rightarrow> nat \<Rightarrow> nat \<Rightarrow> engine \<times> node \<Rightarrow> engine \<times> node" where
  "stage_delay c ctx b = (\<lambda>(e, lastNode).
     if delayEnabled c then
       let d = Node ctx b Delay;
           f = Node ctx b Feedback;
           e1 = e\<lparr>delayNodeRef := Some d, feedbackNodeRef := Some f\<rparr>;
           e2 = setParam d DelayTime (time (delay c)) e1;
           e3 = setParam f GainValue (feedback (delay c)) e2;
           e4 = connect lastNode d e3;
           e5 = connect d f e4;
           e6 = connect f d e5
       in (e6, d)
     else (e, lastNode))"

definition stage_panner ::
  "config \<Rightarrow> nat \<Rightarrow> nat \<Rightarrow> engine \<times> node \<Rightarrow> engine \<times> node" where
  "stage_panner c ctx b = (\<lambda>(e, lastNode).
     let p = Node ctx b Panner;
         e1 = e\<lparr>pannerNodeRef := Some p\<rparr>;
         e2 = setParam p Pan (panner c) e1;
         e3 = connect lastNode p e2
     in (e3, p))"

text \<open>
  The final mixer is a gain node created with its default gain; the impulse response
  given to the convolver is random noise under a decaying envelope and is not modelled.
\<close>

definition stage_reverb ::
  "config \<Rightarrow> nat \<Rightarrow> nat \<Rightarrow> engine \<times> node \<Rightarrow> engine \<times> node" where
  "stage_reverb c ctx b = (\<lambda>(e, lastNode).
     let mainSignalPath = lastNode;
         finalMixer = Node ctx b FinalMixer
     in if reverbEnabled c then
          let dry = Node ctx b ReverbDry;
              wet = Node ctx b ReverbWet;
              conv = Node ctx b Reverb;
              e1 = e\<lparr>reverbDryGainRef := Some dry, reverbWetGainRef := Some wet,
                    reverbNodeRef := Some conv\<rparr>;
              e2 = connect mainSignalPath dry e1;
              e3 = connect dry finalMixer e2;
              e4 = connect mainSignalPath conv e3;
              e5 = connect conv wet e4;
              e6 = connect wet finalMixer e5;
              mix = reverb c;
              e7 = setParam dry GainValue (1 - mix) e6;
              e8 = setParam wet GainValue mix e7
          in (e8, finalMixer)
        else (connect mainSignalPath finalMixer e, finalMixer))"

definition stage_analyser ::
  "config \<Rightarrow> nat \<Rightarrow> nat \<Rightarrow> engine \<times> node \<Rightarrow> engine \<times> node" where
  "stage_analyser c ctx b = (\<lambda>(e, lastNode).
     let a = Node ctx b Analyser;
         e1 = e\<lparr>analyserNodeRef := Some a\<rparr>;
         e2 = connect lastNode a e1;
         e3 = connect lastNode (Destination ctx) e2
     in (e3, lastNode))"

definition stages ::
  "config \<Rightarrow> nat \<Rightarrow> nat \<Rightarrow> (engine \<times> node \<Rightarrow> engine \<times> node) list" where
  "stages c ctx b =
     [stage_noiseGate c ctx b, stage_gain c ctx b, stage_drive c ctx b,
      stage_compressor c ctx b, stage_eq c ctx b, stage_postGain c ctx b,
      stage_delay c ctx b, stage_panner c ctx b, stage_reverb c ctx b,
      stage_analyser c ctx b]"

text \<open>
  \<open>connectNodes\<close> returns at once unless both the context and the source node are in
  their refs. A platform call may throw: \<open>Some k\<close> makes the first call of stage \<open>k\<close>
  throw, after the stages before it have run; the result says whether it threw.
\<close>

definition connectNodes :: "config \<Rightarrow> nat option \<Rightarrow> engine \<Rightarrow> bool \<times> engine" where
  "connectNodes c throws e =
     (case (audioContextRef e, sourceNodeRef e) of
        (Some ctx, Some src) \<Rightarrow>
          let b = next_build e;
              e0 = e\<lparr>next_build := Suc b\<rparr>
          in (case throws of
                None \<Rightarrow> (False, fst (fold (\<lambda>stage s. stage s) (stages c ctx b) (e0, src)))
              | Some k \<Rightarrow>
                  (k < length (stages c ctx b),
                   fst (fold (\<lambda>stage s. stage s) (take k (stages c ctx b)) (e0, src))))
      | _ \<Rightarrow> (False, e))"

section \<open>The graph as drawn and as built\<close>

definition links :: "'a list \<Rightarrow> ('a \<times> 'a) list" where
  "links xs = zip xs (tl xs)"

definition trunk :: "config \<Rightarrow> nat \<Rightarrow> nat \<Rightarrow> node \<Rightarrow> node list" where
  "trunk c ctx b src =
     [src] @ (if noiseGateEnabled c then [Node ctx b NoiseGate] else [])
     @ [Node ctx b Gain, Node ctx b Drive]
     @ (if compressorEnabled c then [Node ctx b Compressor] else [])
     @ map (\<lambda>i. Node ctx b (Eq i)) [0..<length (eqBands c)]
     @ [Node ctx b PostGain]
     @ (if delayEnabled c then [Node ctx b Delay] else [])
     @ [Node ctx b Panner]"

definition reverb_section :: "config \<Rightarrow> nat \<Rightarrow> nat \<Rightarrow> (node \<times> node) set" where
  "reverb_section c ctx b =
     (if reverbEnabled c then
        {(Node ctx b Panner, Node ctx b ReverbDry), (Node ctx b ReverbDry, Node ctx b FinalMixer),
         (Node ctx b Panner, Node ctx b Reverb), (Node ctx b Reverb, Node ctx b ReverbWet),
         (Node ctx b ReverbWet, Node ctx b FinalMixer)}
      else {(Node ctx b Panner, Node ctx b FinalMixer)})"

definition feedback_loop :: "config \<Rightarrow> nat \<Rightarrow> nat \<Rightarrow> (node \<times> node) set" where
  "feedback_loop c ctx b =
     (if delayEnabled c then
        {(Node ctx b Delay, Node ctx b Feedback), (Node ctx b Feedback, Node ctx b Delay)}
      else {})"

definition detector_branch :: "config \<Rightarrow> nat \<Rightarrow> nat \<Rightarrow> node \<Rightarrow> (node \<times> node) set" where
  "detector_branch c ctx b src =
     (if noiseGateEnabled c then
        {(src, Node ctx b NoiseGateAnalyser),
         (Node ctx b NoiseGateAnalyser, Node ctx b ScriptProcessor),
         (Node ctx b ScriptProcessor, Destination ctx)}
      else {})"

definition spec_graph :: "config \<Rightarrow> nat \<Rightarrow> nat \<Rightarrow> node \<Rightarrow> (node \<times> node) set" where
  "spec_graph c ctx b src =
     set (links (trunk c ctx b src)) \<union> feedback_loop c ctx b \<union> reverb_section c ctx b
     \<union> {(Node ctx b FinalMixer, Node ctx b Analyser), (Node ctx b Analyser, Destination ctx)}"

definition built_graph :: "config \<Rightarrow> nat \<Rightarrow> nat \<Rightarrow> node \<Rightarrow> (node \<times> node) set" where
  "built_graph c ctx b src =
     set (links (trunk c ctx b src)) \<union> feedback_loop c ctx b \<union> reverb_section c ctx b
     \<union> detector_branch c ctx b src
     \<union> {(Node ctx b FinalMixer, Node ctx b Analyser), (Node ctx b FinalMixer, Destination ctx)}"

definition new_conns :: "engine \<Rightarrow> engine \<Rightarrow> (node \<times> node) list" where
  "new_conns e e' = drop (length (conns e)) (conns e')"

definition code_edges :: "config \<Rightarrow> nat \<Rightarrow> nat \<Rightarrow> node \<Rightarrow> (node \<times> node) list" where
  "code_edges c ctx b src =
     (let l1 = (if noiseGateEnabled c then Node ctx b NoiseGate else src);
          l3 = (if compressorEnabled c then Node ctx b Compressor else Node ctx b Drive);
          eqs = map (\<lambda>i. Node ctx b (Eq i)) [0..<length (eqBands c)];
          l6 = (if delayEnabled c then Node ctx b Delay else Node ctx b PostGain)
      in (if noiseGateEnabled c then
            [(src, Node ctx b NoiseGateAnalyser),
             (Node ctx b NoiseGateAnalyser, Node ctx b ScriptProcessor),
             (Node ctx b ScriptProcessor, Destination ctx),
             (src, Node ctx b NoiseGate)]
          else [])
         @ [(l1, Node ctx b Gain), (Node ctx b Gain, Node ctx b Drive)]
         @ (if compressorEnabled c then [(Node ctx b Drive, Node ctx b Compressor)] else [])
         @ links (l3 # eqs)
         @ [(last (l3 # eqs), Node ctx b PostGain)]
         @ (if delayEnabled c then
              [(Node ctx b PostGain, Node ctx b Delay), (Node ctx b Delay, Node ctx b Feedback),
               (Node ctx b Feedback, Node ctx b Delay)]
            else [])
         @ [(l6, Node ctx b Panner)]
         @ (if reverbEnabled c then
              [(Node ctx b Panner, Node ctx b ReverbDry), (Node ctx b ReverbDry, Node ctx b FinalMixer),
               (Node ctx b Panner, Node ctx b Reverb), (Node ctx b Reverb, Node ctx b ReverbWet),
               (Node ctx b ReverbWet, Node ctx b FinalMixer)]
            else [(Node ctx b Panner, Node ctx b FinalMixer)])
         @ [(Node ctx b FinalMixer, Node ctx b Analyser), (Node ctx b FinalMixer, Destination ctx)])"


definition nodes_of :: "(node \<times> node) set \<Rightarrow> node set" where
  "nodes_of g = fst ` g \<union> snd ` g"

definition role_present :: "config \<Rightarrow> role \<Rightarrow> bool" where
  "role_present c r =
     (case r of
        NoiseGateAnalyser \<Rightarrow> noiseGateEnabled c
      | ScriptProcessor \<Rightarrow> noiseGateEnabled c
      | NoiseGate \<Rightarrow> noiseGateEnabled c
      | Compressor \<Rightarrow> compressorEnabled c
      | Eq i \<Rightarrow> i < length (eqBands c)
      | Delay \<Rightarrow> delayEnabled c
      | Feedback \<Rightarrow> delayEnabled c
      | ReverbDry \<Rightarrow> reverbEnabled c
      | ReverbWet \<Rightarrow> reverbEnabled c
      | Reverb \<Rightarrow> reverbEnabled c
      | _ \<Rightarrow> True)"

definition armed :: "nat \<Rightarrow> nat \<Rightarrow> engine \<Rightarrow> engine" where
  "armed ctx stream e = e\<lparr>audioContextRef := Some ctx, sourceNodeRef := Some (Source ctx stream)\<rparr>"

section \<open>stop, start and restartAudio\<close>

text \<open>
  \<open>stop\<close>: ends a running recording, stops the tracks of the stream in
  \<open>mediaStreamRef\<close>, closes the context in \<open>audioContextRef\<close>, clears the source, gain,
  drive and analyser refs, disconnects the script processor (all its outgoing
  connections) and clears its ref, and sets the status. The recorder's \<open>onstop\<close>
  handler and the media session are outside the model.
\<close>

definition stop :: "engine \<Rightarrow> engine" where
  "stop e =
     (let e1 = (if isRecording e then e\<lparr>isRecording := False\<rparr> else e);
          e2 = (case mediaStreamRef e1 of
                  Some s \<Rightarrow> e1\<lparr>ended := s # ended e1, mediaStreamRef := None\<rparr>
                | None \<Rightarrow> e1);
          e3 = (case audioContextRef e2 of
                  Some ctx \<Rightarrow> e2\<lparr>closed := ctx # closed e2, audioContextRef := None\<rparr>
                | None \<Rightarrow> e2);
          e4 = e3\<lparr>sourceNodeRef := None, gainNodeRef := None, driveNodeRef := None,
                analyserNodeRef := None\<rparr>;
          e5 = (case scriptProcessorNodeRef e4 of
                  Some sp \<Rightarrow> e4\<lparr>conns := filter (\<lambda>(a, b). a \<noteq> sp) (conns e4)\<rparr>
                | None \<Rightarrow> e4)
      in e5\<lparr>scriptProcessorNodeRef := None, status := Stopped\<rparr>)"

text \<open>The \<open>catch\<close> branch of \<open>start\<close>: \<open>console.error\<close>, then \<open>setStatus('error')\<close>.\<close>

definition catch_start :: "engine \<Rightarrow> engine" where
  "catch_start e =
     e\<lparr>console := console e @ [''Error starting audio processing:''], status := Error\<rparr>"

text \<open>The effects that depend on \<open>status\<close>: they write the gain and the drive curve.\<close>

definition eff_gain :: "engine \<Rightarrow> engine" where
  "eff_gain e =
     (if status e = Running then
        (case gainNodeRef e of Some g \<Rightarrow> setParam g GainValue (gain (cfg e)) e | None \<Rightarrow> e)
      else e)"

definition eff_drive :: "engine \<Rightarrow> engine" where
  "eff_drive e =
     (if status e = Running then
        (case driveNodeRef e of
           Some d \<Rightarrow> setCurve d (makeCurve (drive (cfg e))) e
         | None \<Rightarrow> e)
      else e)"

text \<open>
  \<open>setStatus\<close>, followed by the effects whose dependency list holds \<open>status\<close> when the
  status has changed.
\<close>

definition setStatus :: "status \<Rightarrow> engine \<Rightarrow> engine" where
  "setStatus st e =
     (if status e = st then e else eff_drive (eff_gain (e\<lparr>status := st\<rparr>)))"

text \<open>
  \<open>start\<close> up to its first \<open>await\<close>: a new context goes into \<open>audioContextRef\<close>; then
  the function is suspended at \<open>setSinkId\<close> when an output device is selected, at
  \<open>getUserMedia\<close> otherwise.
\<close>

definition start_begin :: "nat \<Rightarrow> config \<Rightarrow> engine \<Rightarrow> engine" where
  "start_begin t c e =
     (let ctx = next_ctx e;
          e1 = e\<lparr>audioContextRef := Some ctx, next_ctx := Suc ctx\<rparr>
      in if hasOutputSelection c \<and> selectedOutput c \<noteq> ''default''
         then e1\<lparr>tasks := (tasks e1)(t := Some \<lparr>phase = AwaitSink, closure = c\<rparr>)\<rparr>
         else e1\<lparr>tasks := (tasks e1)(t := Some \<lparr>phase = AwaitStream, closure = c\<rparr>)\<rparr>)"

definition call_start :: "engine \<Rightarrow> engine" where
  "call_start e = (let t = next_task e in start_begin t (cfg e) (e\<lparr>next_task := Suc t\<rparr>))"

text \<open>What the platform may throw after the stream has arrived.\<close>

datatype fault = NoFault | SourceThrows | StageThrows nat | RecorderThrows

text \<open>
  \<open>start\<close> after \<open>getUserMedia\<close> has resolved with \<open>stream\<close>. Everything is read from
  the refs as they are now: \<open>audioContextRef.current.createMediaStreamSource\<close> is a
  TypeError when the ref is null.
\<close>

definition after_stream :: "config \<Rightarrow> nat \<Rightarrow> fault \<Rightarrow> engine \<Rightarrow> engine" where
  "after_stream c stream f e =
     (let e1 = e\<lparr>mediaStreamRef := Some stream\<rparr>
      in case audioContextRef e1 of
           None \<Rightarrow> catch_start e1
         | Some ctx \<Rightarrow>
             if f = SourceThrows then catch_start e1
             else
               let e2 = e1\<lparr>sourceNodeRef := Some (Source ctx stream)\<rparr>;
                   r = connectNodes c (case f of StageThrows k \<Rightarrow> Some k | _ \<Rightarrow> None) e2
               in if fst r then catch_start (snd r)
                  else if f = RecorderThrows then catch_start (snd r)
                  else setStatus Running ((snd r)\<lparr>mediaRecorderRef := Some stream\<rparr>))"

definition sink_settled :: "nat \<Rightarrow> bool \<Rightarrow> engine \<Rightarrow> engine" where
  "sink_settled t ok e =
     (case tasks e t of
        Some task \<Rightarrow>
          if phase task = AwaitSink then
            (if ok then e\<lparr>tasks := (tasks e)(t := Some (task\<lparr>phase := AwaitStream\<rparr>))\<rparr>
             else catch_start (e\<lparr>tasks := (tasks e)(t := None)\<rparr>))
          else e
      | None \<Rightarrow> e)"

definition stream_settled :: "nat \<Rightarrow> nat option \<Rightarrow> fault \<Rightarrow> engine \<Rightarrow> engine" where
  "stream_settled t result f e =
     (case tasks e t of
        Some task \<Rightarrow>
          if phase task = AwaitStream then
            (let e0 = e\<lparr>tasks := (tasks e)(t := None)\<rparr>
             in case result of
                  None \<Rightarrow> catch_start e0
                | Some stream \<Rightarrow> after_stream (closure task) stream f e0)
          else e
      | None \<Rightarrow> e)"

text \<open>
  \<open>restartAudio\<close>: when the status is running, \<open>stop()\<close>, then the 50 ms timer;
  \<open>start()\<close> runs when the timer has fired.
\<close>

definition restartAudio :: "engine \<Rightarrow> engine" where
  "restartAudio e =
     (if status e = Running then
        let e1 = stop e; t = next_task e1
        in e1\<lparr>tasks := (tasks e1)(t := Some \<lparr>phase = AwaitSettle, closure = cfg e\<rparr>),
              next_task := Suc t\<rparr>
      else e)"

definition settle_elapsed :: "nat \<Rightarrow> engine \<Rightarrow> engine" where
  "settle_elapsed t e =
     (case tasks e t of
        Some task \<Rightarrow> if phase task = AwaitSettle then start_begin t (closure task) e else e
      | None \<Rightarrow> e)"

definition handleStartStop :: "engine \<Rightarrow> engine" where
  "handleStartStop e = (if status e = Running then stop e else call_start e)"

section \<open>Configuration changes and their effects\<close>

text \<open>The remaining effects, each run when one of its dependencies has changed.\<close>

definition write_band :: "node \<Rightarrow> eq_band \<Rightarrow> engine \<Rightarrow> engine" where
  "write_band n band e =
     (let e1 = setParam n GainValue (band_gain band) e;
          e2 = setParam n Frequency (band_freq band) e1
      in case band_q band of
           None \<Rightarrow> e2
         | Some v \<Rightarrow> if v \<noteq> 0 then setParam n QValue v e2 else e2)"

text \<open>
  \<open>eqNodesRef.current.forEach((node, index) => ...)\<close> reads \<open>eqBands[index]\<close>. Beyond
  the end of \<open>eqBands\<close> that is \<open>undefined\<close> and the source throws; no state reaches
  this, every band list has the five bands, and the model stops writing there.
\<close>

fun write_bands :: "node list \<Rightarrow> eq_band list \<Rightarrow> engine \<Rightarrow> engine" where
  "write_bands [] bands e = e"
| "write_bands (n # ns) [] e = e"
| "write_bands (n # ns) (band # bands) e = write_bands ns bands (write_band n band e)"

definition eff_eqBands :: "engine \<Rightarrow> engine" where
  "eff_eqBands e = write_bands (eqNodesRef e) (eqBands (cfg e)) e"

definition eff_postGain :: "engine \<Rightarrow> engine" where
  "eff_postGain e =
     (case postGainNodeRef e of
        Some g \<Rightarrow> setParam g GainValue (postGain (cfg e)) e
      | None \<Rightarrow> e)"

definition eff_compressor :: "engine \<Rightarrow> engine" where
  "eff_compressor e =
     (case compressorNodeRef e of
        Some n \<Rightarrow>
          (setParam n Release (release (compressor (cfg e)))
           \<circ> setParam n Attack (attack (compressor (cfg e)))
           \<circ> setParam n Ratio (ratio (compressor (cfg e)))
           \<circ> setParam n Knee (knee (compressor (cfg e)))
           \<circ> setParam n Threshold (threshold (compressor (cfg e)))) e
      | None \<Rightarrow> e)"

definition eff_delay_time :: "engine \<Rightarrow> engine" where
  "eff_delay_time e =
     (case delayNodeRef e of
        Some d \<Rightarrow> setParam d DelayTime (time (delay (cfg e))) e
      | None \<Rightarrow> e)"

definition eff_delay_feedback :: "engine \<Rightarrow> engine" where
  "eff_delay_feedback e =
     (case feedbackNodeRef e of
        Some f \<Rightarrow> setParam f GainValue (feedback (delay (cfg e))) e
      | None \<Rightarrow> e)"

definition eff_panner :: "engine \<Rightarrow> engine" where
  "eff_panner e =
     (case pannerNodeRef e of
        Some p \<Rightarrow> setParam p Pan (panner (cfg e)) e
      | None \<Rightarrow> e)"

definition eff_reverb_mix :: "engine \<Rightarrow> engine" where
  "eff_reverb_mix e =
     (case (reverbDryGainRef e, reverbWetGainRef e) of
        (Some dry, Some wet) \<Rightarrow>
          setParam wet GainValue (reverb (cfg e))
            (setParam dry GainValue (1 - reverb (cfg e)) e)
      | _ \<Rightarrow> e)"

definition eff_noiseGate :: "engine \<Rightarrow> engine" where
  "eff_noiseGate e = e\<lparr>noiseGateRef := noiseGate (cfg e)\<rparr>"

definition eff_structural :: "engine \<Rightarrow> engine" where
  "eff_structural e = (if status e = Running then restartAudio e else e)"

text \<open>
  The setters the controls call. A setter that stores a number, a string or a boolean
  equal to the present one causes no render and no effect; one that stores a new object
  or array always does.
\<close>

datatype eq_property = PropGain | PropQ | PropFreq

datatype change =
    SetGain real | SetDrive real | SetLatency real
  | SetSelectedInput string | SetSelectedOutput string
  | EqBandChange nat eq_property real | PresetChange "eq_band list" | SetPostGain real
  | SetCompressorEnabled bool | SetCompressor compressor_settings
  | SetDelayEnabled bool | SetDelayTime real | SetDelayFeedback real
  | SetPanner real
  | SetNoiseGateEnabled bool | SetNoiseGate noise_gate
  | SetReverbEnabled bool | SetReverbMix real

definition set_band :: "eq_property \<Rightarrow> real \<Rightarrow> eq_band \<Rightarrow> eq_band" where
  "set_band p v band =
     (case p of
        PropGain \<Rightarrow> band\<lparr>band_gain := v\<rparr>
      | PropQ \<Rightarrow> band\<lparr>band_q := Some v\<rparr>
      | PropFreq \<Rightarrow> band\<lparr>band_freq := v\<rparr>)"

text \<open>
  \<open>handleEqBandChange\<close> copies the array of bands but writes the value into the band
  object itself (\<open>newBands[index][property] = value\<close>), so the write is seen by every
  closure whose array holds the same band objects: the suspended tasks that were begun
  since the last preset. \<open>handlePresetChange\<close> installs a deep copy of the preset, a
  set of new band objects. \<open>bands_id\<close> names the set of band objects an array holds.
\<close>

definition edit_band :: "nat \<Rightarrow> eq_property \<Rightarrow> real \<Rightarrow> config \<Rightarrow> config" where
  "edit_band i p v c = c\<lparr>eqBands := (eqBands c)[i := set_band p v (eqBands c ! i)]\<rparr>"

definition mutate_closures ::
  "nat \<Rightarrow> nat \<Rightarrow> eq_property \<Rightarrow> real \<Rightarrow> (nat \<Rightarrow> task option) \<Rightarrow> (nat \<Rightarrow> task option)" where
  "mutate_closures bid i p v ts =
     (\<lambda>t. case ts t of
            None \<Rightarrow> None
          | Some task \<Rightarrow>
              if bands_id (closure task) = bid
              then Some (task\<lparr>closure := edit_band i p v (closure task)\<rparr>)
              else Some task)"

fun apply_change :: "change \<Rightarrow> engine \<Rightarrow> engine" where
  "apply_change (SetGain v) e =
     (if v = gain (cfg e) then e else eff_gain (e\<lparr>cfg := (cfg e)\<lparr>gain := v\<rparr>\<rparr>))"
| "apply_change (SetDrive v) e =
     (if v = drive (cfg e) then e else eff_drive (e\<lparr>cfg := (cfg e)\<lparr>drive := v\<rparr>\<rparr>))"
| "apply_change (SetLatency v) e =
     (if v = latency (cfg e) then e else restartAudio (e\<lparr>cfg := (cfg e)\<lparr>latency := v\<rparr>\<rparr>))"
| "apply_change (SetSelectedInput v) e =
     (if v = selectedInput (cfg e) then e
      else restartAudio (e\<lparr>cfg := (cfg e)\<lparr>selectedInput := v\<rparr>\<rparr>))"
| "apply_change (SetSelectedOutput v) e =
     (if v = selectedOutput (cfg e) then e
      else restartAudio (e\<lparr>cfg := (cfg e)\<lparr>selectedOutput := v\<rparr>\<rparr>))"
| "apply_change (EqBandChange i p v) e =
     (if i < length (eqBands (cfg e)) then
        eff_eqBands (e\<lparr>cfg := edit_band i p v (cfg e),
                       tasks := mutate_closures (bands_id (cfg e)) i p v (tasks e)\<rparr>)
      else e)"
| "apply_change (PresetChange bands) e =
     eff_eqBands (e\<lparr>cfg := (cfg e)\<lparr>eqBands := bands, bands_id := next_bands e\<rparr>,
                    next_bands := Suc (next_bands e)\<rparr>)"
| "apply_change (SetPostGain v) e =
     (if v = postGain (cfg e) then e else eff_postGain (e\<lparr>cfg := (cfg e)\<lparr>postGain := v\<rparr>\<rparr>))"
| "apply_change (SetCompressorEnabled v) e =
     (if v = compressorEnabled (cfg e) then e
      else eff_structural (e\<lparr>cfg := (cfg e)\<lparr>compressorEnabled := v\<rparr>\<rparr>))"
| "apply_change (SetCompressor v) e = eff_compressor (e\<lparr>cfg := (cfg e)\<lparr>compressor := v\<rparr>\<rparr>)"
| "apply_change (SetDelayEnabled v) e =
     (if v = delayEnabled (cfg e) then e
      else eff_structural (e\<lparr>cfg := (cfg e)\<lparr>delayEnabled := v\<rparr>\<rparr>))"
| "apply_change (SetDelayTime v) e =
     (if v = time (delay (cfg e)) then e
      else eff_delay_time (e\<lparr>cfg := (cfg e)\<lparr>delay := (delay (cfg e))\<lparr>time := v\<rparr>\<rparr>\<rparr>))"
| "apply_change (SetDelayFeedback v) e =
     (if v = feedback (delay (cfg e)) then e
      else eff_delay_feedback (e\<lparr>cfg := (cfg e)\<lparr>delay := (delay (cfg e))\<lparr>feedback := v\<rparr>\<rparr>\<rparr>))"
| "apply_change (SetPanner v) e = eff_panner (e\<lparr>cfg := (cfg e)\<lparr>panner := v\<rparr>\<rparr>)"
| "apply_change (SetNoiseGateEnabled v) e =
     (if v = noiseGateEnabled (cfg e) then e
      else eff_structural (e\<lparr>cfg := (cfg e)\<lparr>noiseGateEnabled := v\<rparr>\<rparr>))"
| "apply_change (SetNoiseGate v) e = eff_noiseGate (e\<lparr>cfg := (cfg e)\<lparr>noiseGate := v\<rparr>\<rparr>)"
| "apply_change (SetReverbEnabled v) e =
     (if v = reverbEnabled (cfg e) then e
      else eff_structural (e\<lparr>cfg := (cfg e)\<lparr>reverbEnabled := v\<rparr>\<rparr>))"
| "apply_change (SetReverbMix v) e =
     (if v = reverb (cfg e) then e else eff_reverb_mix (e\<lparr>cfg := (cfg e)\<lparr>reverb := v\<rparr>\<rparr>))"

section \<open>Events\<close>

text \<open>
  What can happen to the component, one event at a time: a call of \<open>start\<close> or \<open>stop\<close>,
  a click on the start/stop button, the settle timer of a restart firing, \<open>setSinkId\<close>
  or \<open>getUserMedia\<close> settling for a suspended \<open>start\<close>, and a control changing a
  setting.
\<close>

datatype event =
    CallStart | CallStop | StartStopClicked
  | SettleElapsed nat | SinkSettled nat bool | StreamSettled nat "nat option" fault
  | Change change

fun step :: "engine \<Rightarrow> event \<Rightarrow> engine" where
  "step e CallStart = call_start e"
| "step e CallStop = stop e"
| "step e StartStopClicked = handleStartStop e"
| "step e (SettleElapsed t) = settle_elapsed t e"
| "step e (SinkSettled t ok) = sink_settled t ok e"
| "step e (StreamSettled t result f) = stream_settled t result f e"
| "step e (Change ch) = apply_change ch e"

definition run :: "event list \<Rightarrow> engine \<Rightarrow> engine" where
  "run evs e = foldl step e evs"


section \<open>Contexts and the nodes the state knows\<close>

fun node_ctx :: "node \<Rightarrow> nat" where
  "node_ctx (Source ctx s) = ctx"
| "node_ctx (Destination ctx) = ctx"
| "node_ctx (Node ctx b r) = ctx"

fun opt_list :: "'a option \<Rightarrow> 'a list" where
  "opt_list None = []"
| "opt_list (Some x) = [x]"

text \<open>The nodes the state knows: those in a ref and those of a connection.\<close>

definition known_nodes :: "engine \<Rightarrow> node list" where
  "known_nodes e =
     opt_list (sourceNodeRef e) @ opt_list (gainNodeRef e) @ opt_list (driveNodeRef e)
     @ opt_list (analyserNodeRef e) @ eqNodesRef e @ opt_list (postGainNodeRef e)
     @ opt_list (compressorNodeRef e) @ opt_list (delayNodeRef e)
     @ opt_list (feedbackNodeRef e) @ opt_list (pannerNodeRef e)
     @ opt_list (noiseGateNodeRef e) @ opt_list (noiseGateAnalyserNodeRef e)
     @ opt_list (scriptProcessorNodeRef e) @ opt_list (reverbNodeRef e)
     @ opt_list (reverbWetGainRef e) @ opt_list (reverbDryGainRef e)
     @ map fst (conns e) @ map snd (conns e)"

text \<open>
  Contexts are numbered as they are created: every known node, and the context in
  \<open>audioContextRef\<close>, is of a context created before.
\<close>

definition numbered :: "engine \<Rightarrow> bool" where
  "numbered e =
     (list_all (\<lambda>n. node_ctx n < next_ctx e) (known_nodes e) \<and>
      list_all (\<lambda>ctx. ctx < next_ctx e) (opt_list (audioContextRef e)))"

section \<open>Classification of configuration changes\<close>

text \<open>
  The classification of the specification: switching a stage on or off, selecting a
  device and changing the latency are structural; every other change stores continuous
  values (a preset stores those of all bands, the noise gate settings its threshold and
  release).
\<close>

fun structural :: "change \<Rightarrow> bool" where
  "structural (SetCompressorEnabled v) = True"
| "structural (SetDelayEnabled v) = True"
| "structural (SetNoiseGateEnabled v) = True"
| "structural (SetReverbEnabled v) = True"
| "structural (SetSelectedInput v) = True"
| "structural (SetSelectedOutput v) = True"
| "structural (SetLatency v) = True"
| "structural ch = False"

fun continuous :: "change \<Rightarrow> bool" where
  "continuous (SetGain v) = True"
| "continuous (SetDrive v) = True"
| "continuous (EqBandChange i p v) = True"
| "continuous (PresetChange bands) = True"
| "continuous (SetPostGain v) = True"
| "continuous (SetCompressor v) = True"
| "continuous (SetDelayTime v) = True"
| "continuous (SetDelayFeedback v) = True"
| "continuous (SetPanner v) = True"
| "continuous (SetNoiseGate v) = True"
| "continuous (SetReverbMix v) = True"
| "continuous ch = False"

text \<open>The configuration after a change.\<close>

fun change_cfg :: "change \<Rightarrow> engine \<Rightarrow> config" where
  "change_cfg (SetGain v) e = (cfg e)\<lparr>gain := v\<rparr>"
| "change_cfg (SetDrive v) e = (cfg e)\<lparr>drive := v\<rparr>"
| "change_cfg (SetLatency v) e = (cfg e)\<lparr>latency := v\<rparr>"
| "change_cfg (SetSelectedInput v) e = (cfg e)\<lparr>selectedInput := v\<rparr>"
| "change_cfg (SetSelectedOutput v) e = (cfg e)\<lparr>selectedOutput := v\<rparr>"
| "change_cfg (EqBandChange i p v) e =
     (if i < length (eqBands (cfg e)) then edit_band i p v (cfg e) else cfg e)"
| "change_cfg (PresetChange bands) e = (cfg e)\<lparr>eqBands := bands, bands_id := next_bands e\<rparr>"
| "change_cfg (SetPostGain v) e = (cfg e)\<lparr>postGain := v\<rparr>"
| "change_cfg (SetCompressorEnabled v) e = (cfg e)\<lparr>compressorEnabled := v\<rparr>"
| "change_cfg (SetCompressor v) e = (cfg e)\<lparr>compressor := v\<rparr>"
| "change_cfg (SetDelayEnabled v) e = (cfg e)\<lparr>delayEnabled := v\<rparr>"
| "change_cfg (SetDelayTime v) e = (cfg e)\<lparr>delay := (delay (cfg e))\<lparr>time := v\<rparr>\<rparr>"
| "change_cfg (SetDelayFeedback v) e = (cfg e)\<lparr>delay := (delay (cfg e))\<lparr>feedback := v\<rparr>\<rparr>"
| "change_cfg (SetPanner v) e = (cfg e)\<lparr>panner := v\<rparr>"
| "change_cfg (SetNoiseGateEnabled v) e = (cfg e)\<lparr>noiseGateEnabled := v\<rparr>"
| "change_cfg (SetNoiseGate v) e = (cfg e)\<lparr>noiseGate := v\<rparr>"
| "change_cfg (SetReverbEnabled v) e = (cfg e)\<lparr>reverbEnabled := v\<rparr>"
| "change_cfg (SetReverbMix v) e = (cfg e)\<lparr>reverb := v\<rparr>"

text \<open>
  The suspended tasks after a change: a band edited in place is edited in the closure
  of every task that holds the same band objects.
\<close>

fun change_tasks :: "change \<Rightarrow> engine \<Rightarrow> (nat \<Rightarrow> task option)" where
  "change_tasks (EqBandChange i p v) e =
     (if i < length (eqBands (cfg e)) then mutate_closures (bands_id (cfg e)) i p v (tasks e)
      else tasks e)"
| "change_tasks ch e = tasks e"

text \<open>The change stores a value different from the present one.\<close>

fun differs :: "change \<Rightarrow> engine \<Rightarrow> bool" where
  "differs (SetGain v) e = (v \<noteq> gain (cfg e))"
| "differs (SetDrive v) e = (v \<noteq> drive (cfg e))"
| "differs (SetLatency v) e = (v \<noteq> latency (cfg e))"
| "differs (SetSelectedInput v) e = (v \<noteq> selectedInput (cfg e))"
| "differs (SetSelectedOutput v) e = (v \<noteq> selectedOutput (cfg e))"
| "differs (SetPostGain v) e = (v \<noteq> postGain (cfg e))"
| "differs (SetCompressorEnabled v) e = (v \<noteq> compressorEnabled (cfg e))"
| "differs (SetDelayEnabled v) e = (v \<noteq> delayEnabled (cfg e))"
| "differs (SetDelayTime v) e = (v \<noteq> time (delay (cfg e)))"
| "differs (SetDelayFeedback v) e = (v \<noteq> feedback (delay (cfg e)))"
| "differs (SetNoiseGateEnabled v) e = (v \<noteq> noiseGateEnabled (cfg e))"
| "differs (SetReverbEnabled v) e = (v \<noteq> reverbEnabled (cfg e))"
| "differs (SetReverbMix v) e = (v \<noteq> reverb (cfg e))"
| "differs ch e = True"

text \<open>
  A node is live: its context is the one in \<open>audioContextRef\<close>, that context has not
  been closed, and the node is connected.
\<close>

definition live :: "engine \<Rightarrow> node \<Rightarrow> bool" where
  "live e n =
     (audioContextRef e = Some (node_ctx n) \<and> node_ctx n \<notin> set (closed e) \<and>
      n \<in> nodes_of (set (conns e)))"

fun ref_live :: "engine \<Rightarrow> node option \<Rightarrow> bool" where
  "ref_live e None = False"
| "ref_live e (Some n) = live e n"

text \<open>
  The node a continuous change addresses is installed and live: its ref holds a live
  node. For the bands the filters of \<open>eqNodesRef\<close> are those of the bands, one each;
  the noise gate settings are read by the callback of the script processor.
\<close>

fun target_live :: "change \<Rightarrow> engine \<Rightarrow> bool" where
  "target_live (SetGain v) e = ref_live e (gainNodeRef e)"
| "target_live (SetDrive v) e = ref_live e (driveNodeRef e)"
| "target_live (EqBandChange i p v) e =
     (i < length (eqBands (cfg e)) \<and> length (eqNodesRef e) = length (eqBands (cfg e)) \<and>
      distinct (eqNodesRef e) \<and> live e (eqNodesRef e ! i))"
| "target_live (PresetChange bands) e =
     (length (eqNodesRef e) = length bands \<and> distinct (eqNodesRef e) \<and>
      list_all (live e) (eqNodesRef e))"
| "target_live (SetPostGain v) e = ref_live e (postGainNodeRef e)"
| "target_live (SetCompressor v) e = ref_live e (compressorNodeRef e)"
| "target_live (SetDelayTime v) e = ref_live e (delayNodeRef e)"
| "target_live (SetDelayFeedback v) e = ref_live e (feedbackNodeRef e)"
| "target_live (SetPanner v) e = ref_live e (pannerNodeRef e)"
| "target_live (SetNoiseGate v) e = ref_live e (scriptProcessorNodeRef e)"
| "target_live (SetReverbMix v) e =
     (ref_live e (reverbDryGainRef e) \<and> ref_live e (reverbWetGainRef e) \<and>
      reverbDryGainRef e \<noteq> reverbWetGainRef e)"
| "target_live ch e = True"

text \<open>
  The value of the change is accepted at the configuration boundary: a quality factor
  lies in \<open>[0.1, 20]\<close>.
\<close>

fun in_range :: "change \<Rightarrow> bool" where
  "in_range (EqBandChange i PropQ v) = (1 / 10 \<le> v \<and> v \<le> 20)"
| "in_range ch = True"

text \<open>The values of a band stand in the parameters of a filter.\<close>

definition band_written :: "engine \<Rightarrow> node \<Rightarrow> eq_band \<Rightarrow> bool" where
  "band_written e n band =
     (params e (n, GainValue) = Some (band_gain band) \<and>
      params e (n, Frequency) = Some (band_freq band) \<and>
      (case band_q band of
         Some v \<Rightarrow> v = 0 \<or> params e (n, QValue) = Some v
       | None \<Rightarrow> True))"

text \<open>
  The value of the change stands in the parameter of the node its ref holds; the noise
  gate settings stand in the ref the callback reads.
\<close>

fun written :: "change \<Rightarrow> engine \<Rightarrow> bool" where
  "written (SetGain v) e = (params e (the (gainNodeRef e), GainValue) = Some v)"
| "written (SetDrive v) e = (curves e (the (driveNodeRef e)) = Some (makeCurve v))"
| "written (EqBandChange i PropGain v) e = (params e (eqNodesRef e ! i, GainValue) = Some v)"
| "written (EqBandChange i PropFreq v) e = (params e (eqNodesRef e ! i, Frequency) = Some v)"
| "written (EqBandChange i PropQ v) e = (params e (eqNodesRef e ! i, QValue) = Some v)"
| "written (PresetChange bands) e =
     list_all (\<lambda>i. band_written e (eqNodesRef e ! i) (bands ! i)) [0..<length bands]"
| "written (SetPostGain v) e = (params e (the (postGainNodeRef e), GainValue) = Some v)"
| "written (SetCompressor v) e =
     (params e (the (compressorNodeRef e), Threshold) = Some (threshold v) \<and>
      params e (the (compressorNodeRef e), Knee) = Some (knee v) \<and>
      params e (the (compressorNodeRef e), Ratio) = Some (ratio v) \<and>
      params e (the (compressorNodeRef e), Attack) = Some (attack v) \<and>
      params e (the (compressorNodeRef e), Release) = Some (release v))"
| "written (SetDelayTime v) e = (params e (the (delayNodeRef e), DelayTime) = Some v)"
| "written (SetDelayFeedback v) e = (params e (the (feedbackNodeRef e), GainValue) = Some v)"
| "written (SetPanner v) e = (params e (the (pannerNodeRef e), Pan) = Some v)"
| "written (SetNoiseGate v) e = (noiseGateRef e = v)"
| "written (SetReverbMix v) e =
     (params e (the (reverbDryGainRef e), GainValue) = Some (1 - v) \<and>
      params e (the (reverbWetGainRef e), GainValue) = Some v)"
| "written ch e = True"

text \<open>
  What identifies the installed graph: the context and the stream, every node ref, the
  connections, the contexts closed and the streams ended, the counters from which new
  identities are drawn, and the status.
\<close>

definition installation ::
  "engine \<Rightarrow> (nat option \<times> node option \<times> node option \<times> node option \<times> node option \<times> node list)
     \<times> (node option \<times> node option \<times> node option \<times> node option \<times> node option \<times> node option)
     \<times> (node option \<times> node option \<times> node option \<times> node option \<times> node option)
     \<times> (node \<times> node) list \<times> (nat option \<times> nat list \<times> nat list)
     \<times> nat \<times> nat \<times> nat \<times> status" where
  "installation e =
     ((audioContextRef e, sourceNodeRef e, gainNodeRef e, driveNodeRef e, analyserNodeRef e,
       eqNodesRef e),
      (postGainNodeRef e, compressorNodeRef e, delayNodeRef e, feedbackNodeRef e,
       pannerNodeRef e, noiseGateNodeRef e),
      (noiseGateAnalyserNodeRef e, scriptProcessorNodeRef e, reverbNodeRef e,
       reverbWetGainRef e, reverbDryGainRef e),
      conns e, (mediaStreamRef e, closed e, ended e),
      next_ctx e, next_build e, next_task e, status e)"

text \<open>
  The restart a structural change has scheduled, run to its end: the settle timer
  fires, \<open>setSinkId\<close> resolves where it was called, \<open>getUserMedia\<close> resolves with
  stream \<open>s\<close>, and nothing throws.
\<close>

definition restarted :: "change \<Rightarrow> nat \<Rightarrow> engine \<Rightarrow> engine" where
  "restarted ch s e =
     run [SettleElapsed (next_task e), SinkSettled (next_task e) True,
          StreamSettled (next_task e) (Some s) NoFault] (apply_change ch e)"

text \<open>
  The engine after one start with the compressor switched on, the example of the
  specification's scenario.
\<close>

definition example_running :: engine where
  "example_running =
     run [CallStart, StreamSettled 0 (Some 7) NoFault]
       (initial_engine\<lparr>cfg := initial_config\<lparr>compressorEnabled := True\<rparr>\<rparr>)"

text \<open>
  A start is pending when the compressor is switched on, and then completes: the
  events of the counterexample to the classification.
\<close>

definition toggled_while_starting :: engine where
  "toggled_while_starting =
     run [CallStart, Change (SetCompressorEnabled True), StreamSettled 0 (Some 7) NoFault]
       initial_engine"

section \<open>The signal through the graph\<close>

text \<open>
  What the platform's nodes do to the audio that passes them, as far as the component
  relies on it. The audio on a connection is mono or stereo, each channel a sequence
  of samples; a microphone stream may be either, \<open>getUserMedia\<close> is called without a
  channel count.
\<close>

type_synonym signal = "nat \<Rightarrow> real"

datatype audio = Mono signal | Stereo signal signal

fun map_audio :: "(signal \<Rightarrow> signal) \<Rightarrow> audio \<Rightarrow> audio" where
  "map_audio f (Mono x) = Mono (f x)"
| "map_audio f (Stereo l r) = Stereo (f l) (f r)"

definition scale :: "real \<Rightarrow> signal \<Rightarrow> signal" where
  "scale g x = (\<lambda>t. g * x t)"

text \<open>
  Connections into one input are summed; a mono connection is mixed up to stereo by
  copying it to both channels. An input with no connection receives silence.
\<close>

fun add_audio :: "audio \<Rightarrow> audio \<Rightarrow> audio" where
  "add_audio (Mono x) (Mono y) = Mono (\<lambda>t. x t + y t)"
| "add_audio (Mono x) (Stereo l r) = Stereo (\<lambda>t. x t + l t) (\<lambda>t. x t + r t)"
| "add_audio (Stereo l r) (Mono y) = Stereo (\<lambda>t. l t + y t) (\<lambda>t. r t + y t)"
| "add_audio (Stereo l r) (Stereo l' r') = Stereo (\<lambda>t. l t + l' t) (\<lambda>t. r t + r' t)"

fun sum_audio :: "audio list \<Rightarrow> audio" where
  "sum_audio [] = Mono (\<lambda>t. 0)"
| "sum_audio [a] = a"
| "sum_audio (a # b # as) = add_audio a (sum_audio (b # as))"

text \<open>
  A gain node multiplies by \<open>gain.value\<close>, which is 1 until it is written. A wave
  shaper with a curve of \<open>N\<close> entries maps the input \<open>x\<close> to the index
  \<open>v = (N - 1) / 2 * (x + 1)\<close> and interpolates linearly between the entries around
  \<open>v\<close>, taking the first entry below the table and the last one above it.
\<close>

definition gain_of :: "engine \<Rightarrow> node \<Rightarrow> real" where
  "gain_of e n = (case params e (n, GainValue) of Some v \<Rightarrow> v | None \<Rightarrow> 1)"

definition waveshaper :: "real list \<Rightarrow> real \<Rightarrow> real" where
  "waveshaper curve x =
     (let N = length curve;
          v = (real N - 1) / 2 * (x + 1)
      in if v < 0 then curve ! 0
         else if v \<ge> real N - 1 then curve ! (N - 1)
         else
           let k = nat \<lfloor>v\<rfloor>; f = v - real k
           in (1 - f) * curve ! k + f * curve ! (k + 1))"

text \<open>
  With \<open>oversample\<close> set to \<open>2x\<close> or \<open>4x\<close> the wave shaper raises the sample rate of its
  input by that factor, applies the curve and lowers the rate again. The filters of
  the two conversions are the platform's: an oversampler takes the factor, the
  function of the curve and a channel, and gives the shaped channel.
\<close>

type_synonym oversampler = "nat \<Rightarrow> (real \<Rightarrow> real) \<Rightarrow> signal \<Rightarrow> signal"

definition shaped :: "oversampler \<Rightarrow> oversample option \<Rightarrow> real list \<Rightarrow> signal \<Rightarrow> signal" where
  "shaped os ov curve x =
     (case ov of
        Some Oversample2x \<Rightarrow> os 2 (waveshaper curve) x
      | Some Oversample4x \<Rightarrow> os 4 (waveshaper curve) x
      | _ \<Rightarrow> (\<lambda>t. waveshaper curve (x t)))"

text \<open>
  A stereo panner with \<open>pan.value\<close> \<open>p\<close>, limited to \<open>[-1, 1]\<close> and 0 until it is
  written. Its output is stereo. A mono input goes to the left with gain
  \<open>cos (u * pi / 2)\<close> and to the right with gain \<open>sin (u * pi / 2)\<close>, \<open>u = (p + 1) / 2\<close>.
  Of a stereo input one channel is moved towards the other: for \<open>p \<le> 0\<close>, with
  \<open>u = p + 1\<close>, the left is \<open>l + r * cos (u * pi / 2)\<close> and the right is
  \<open>r * sin (u * pi / 2)\<close>; for \<open>p > 0\<close>, with \<open>u = p\<close>, the left is
  \<open>l * cos (u * pi / 2)\<close> and the right is \<open>r + l * sin (u * pi / 2)\<close>.
\<close>

definition pan_of :: "engine \<Rightarrow> node \<Rightarrow> real" where
  "pan_of e n = (case params e (n, Pan) of Some v \<Rightarrow> max (- 1) (min 1 v) | None \<Rightarrow> 0)"

fun stereo_pan :: "real \<Rightarrow> audio \<Rightarrow> audio" where
  "stereo_pan p (Mono x) =
     Stereo (scale (cos ((p + 1) / 2 * pi / 2)) x) (scale (sin ((p + 1) / 2 * pi / 2)) x)"
| "stereo_pan p (Stereo l r) =
     (if p \<le> 0 then
        Stereo (\<lambda>t. l t + r t * cos ((p + 1) * pi / 2)) (scale (sin ((p + 1) * pi / 2)) r)
      else
        Stereo (scale (cos (p * pi / 2)) l) (\<lambda>t. r t + l t * sin (p * pi / 2)))"

text \<open>
  The output of a node for the sum \<open>a\<close> of its inputs, where the output is a function
  of that sum: gain nodes, the wave shaper, a filter of 0 dB (a shelf or a peak of
  0 dB has the transfer function 1), the panner, the analysers and the destination.
  The script processor's callback never writes its output buffer, so its one output
  channel is silent. The other nodes (compressor, delay, convolver, the gated gain, a
  filter with gain) have memory or are driven from outside, and have no such function.
\<close>

definition node_audio :: "engine \<Rightarrow> oversampler \<Rightarrow> node \<Rightarrow> audio \<Rightarrow> audio option" where
  "node_audio e os n a =
     (case n of
        Source ctx s \<Rightarrow> None
      | Destination ctx \<Rightarrow> Some a
      | Node ctx b r \<Rightarrow>
          (case r of
             Gain \<Rightarrow> Some (map_audio (scale (gain_of e n)) a)
           | PostGain \<Rightarrow> Some (map_audio (scale (gain_of e n)) a)
           | Feedback \<Rightarrow> Some (map_audio (scale (gain_of e n)) a)
           | ReverbDry \<Rightarrow> Some (map_audio (scale (gain_of e n)) a)
           | ReverbWet \<Rightarrow> Some (map_audio (scale (gain_of e n)) a)
           | FinalMixer \<Rightarrow> Some (map_audio (scale (gain_of e n)) a)
           | Drive \<Rightarrow>
               (case curves e n of
                  Some c \<Rightarrow> Some (map_audio (shaped os (oversamples e n) c) a)
                | None \<Rightarrow> Some a)
           | Eq i \<Rightarrow> if params e (n, GainValue) = Some 0 then Some a else None
           | Panner \<Rightarrow> Some (stereo_pan (pan_of e n) a)
           | Analyser \<Rightarrow> Some a
           | NoiseGateAnalyser \<Rightarrow> Some a
           | ScriptProcessor \<Rightarrow> Some (Mono (\<lambda>t. 0))
           | _ \<Rightarrow> None))"

definition inputs_of :: "(node \<times> node) list \<Rightarrow> node \<Rightarrow> node list" where
  "inputs_of g n = map fst (filter (\<lambda>(a, b). b = n) g)"

definition sum_inputs :: "audio option list \<Rightarrow> audio option" where
  "sum_inputs vs = (if list_all (\<lambda>v. v \<noteq> None) vs then Some (sum_audio (map the vs)) else None)"

text \<open>
  The audio at the output of node \<open>n\<close> of the graph \<open>g\<close>, for the audio \<open>x\<close> of the
  source. \<open>known\<close> gives the outputs that are taken as given (those of nodes with
  memory); every other node sums the outputs of the nodes connected to it and applies
  its function. The argument after \<open>known\<close> bounds the length of the paths followed.
\<close>

fun audio_out ::
  "engine \<Rightarrow> oversampler \<Rightarrow> (node \<times> node) list \<Rightarrow> (node \<Rightarrow> audio option) \<Rightarrow> nat \<Rightarrow> audio
     \<Rightarrow> node \<Rightarrow> audio option" where
  "audio_out e os g known 0 x n = None"
| "audio_out e os g known (Suc k) x n =
     (case known n of
        Some v \<Rightarrow> Some v
      | None \<Rightarrow>
          (case n of
             Source ctx s \<Rightarrow> Some x
           | _ \<Rightarrow>
               (case sum_inputs (map (audio_out e os g known k x) (inputs_of g n)) of
                  None \<Rightarrow> None
                | Some a \<Rightarrow> node_audio e os n a)))"

text \<open>The configuration of the scenario: gain 2, no drive, flat EQ, unit post gain, no optional stage.\<close>

definition clean_config :: config where
  "clean_config = initial_config\<lparr>gain := 2\<rparr>"

text \<open>
  The oversampler that leaves no trace: the shaped channel is the curve applied to
  each sample.
\<close>

definition pointwise :: oversampler where
  "pointwise k f x = (\<lambda>t. f (x t))"

text \<open>
  The outputs taken as given at the reverb stage: \<open>q\<close> at the node that feeds the
  panner (the delay, or the post gain) and \<open>w\<close> at the convolver.
\<close>

definition reverb_known :: "config \<Rightarrow> nat \<Rightarrow> nat \<Rightarrow> audio \<Rightarrow> audio \<Rightarrow> node \<Rightarrow> audio option" where
  "reverb_known c ctx b q w =
     (\<lambda>n. if n = Node ctx b (if delayEnabled c then Delay else PostGain) then Some q
          else if n = Node ctx b Reverb then Some w
          else None)"

section \<open>Proof apparatus\<close>

text \<open>
  The simulation between the specification's listing and the store: the rows are the
  listing reversed, the key generator is one ahead of the identifiers handed out, and the
  listing's identifiers descend.
\<close>

definition sim :: "nat \<times> recording list \<Rightarrow> db_state \<Rightarrow> bool" where
  "sim p st =
     (db st \<and> keygen (disk st) = Suc (fst p) \<and> rows (disk st) = rev (snd p) \<and>
      list_all (\<lambda>r. id_rec r \<le> fst p) (snd p) \<and>
      sorted_wrt (\<lambda>a b. id_rec b < id_rec a) (snd p))"

text \<open>
  The state \<open>stop\<close> leaves behind, as far as an installed graph is concerned: no
  context, not running, and the refs that \<open>stop\<close> clears are empty.
\<close>

definition halted :: "engine \<Rightarrow> bool" where
  "halted e =
     (audioContextRef e = None \<and> status e \<noteq> Running \<and> sourceNodeRef e = None \<and>
      gainNodeRef e = None \<and> driveNodeRef e = None \<and> analyserNodeRef e = None \<and>
      scriptProcessorNodeRef e = None)"

text \<open>The part of the state that \<open>connectNodes\<close> never touches.\<close>

definition frame ::
  "engine \<Rightarrow> status \<times> config \<times> bool \<times> nat option \<times> nat option \<times> nat option \<times> node option
     \<times> noise_gate \<times> nat list \<times> nat list \<times> (nat \<Rightarrow> task option) \<times> nat \<times> nat \<times> string list" where
  "frame e =
     (status e, cfg e, isRecording e, audioContextRef e, mediaStreamRef e, mediaRecorderRef e,
      sourceNodeRef e, noiseGateRef e, closed e, ended e, tasks e, next_ctx e, next_task e,
      console e)"

text \<open>
  The faults under which a platform call throws: \<open>connectNodes\<close> has ten stages, and a
  stage number beyond them throws nothing.
\<close>

definition throws :: "fault \<Rightarrow> bool" where
  "throws f = (case f of NoFault \<Rightarrow> False | StageThrows k \<Rightarrow> k < 10 | _ \<Rightarrow> True)"



text \<open>
  The state after a complete run of \<open>connectNodes\<close>, written out: the parameters a band
  and the bands write, the filter types, all parameters of the run, and the state.
\<close>

definition band_params ::
  "node \<Rightarrow> eq_band \<Rightarrow> (node \<times> param \<Rightarrow> real option) \<Rightarrow> (node \<times> param \<Rightarrow> real option)" where
  "band_params n band p =
     (let p1 = p((n, Frequency) := Some (band_freq band));
          p2 = p1((n, GainValue) := Some (band_gain band))
      in case band_q band of
           None \<Rightarrow> p2
         | Some v \<Rightarrow> if v \<noteq> 0 then p2((n, QValue) := Some v) else p2)"

fun filt_params ::
  "nat \<Rightarrow> nat \<Rightarrow> nat \<Rightarrow> eq_band list \<Rightarrow> (node \<times> param \<Rightarrow> real option)
     \<Rightarrow> (node \<times> param \<Rightarrow> real option)" where
  "filt_params ctx b i [] p = p"
| "filt_params ctx b i (band # bands) p =
     filt_params ctx b (Suc i) bands (band_params (Node ctx b (Eq i)) band p)"

fun filt_types ::
  "nat \<Rightarrow> nat \<Rightarrow> nat \<Rightarrow> eq_band list \<Rightarrow> (node \<Rightarrow> filter_type option)
     \<Rightarrow> (node \<Rightarrow> filter_type option)" where
  "filt_types ctx b i [] ft = ft"
| "filt_types ctx b i (band # bands) ft =
     filt_types ctx b (Suc i) bands (ft(Node ctx b (Eq i) := Some (band_type band)))"

definition built_params ::
  "config \<Rightarrow> nat \<Rightarrow> nat \<Rightarrow> (node \<times> param \<Rightarrow> real option) \<Rightarrow> (node \<times> param \<Rightarrow> real option)" where
  "built_params c ctx b p =
     (let p1 = p((Node ctx b Gain, GainValue) := Some (gain c));
          p2 = (if compressorEnabled c then
                  p1((Node ctx b Compressor, Threshold) := Some (threshold (compressor c)),
                     (Node ctx b Compressor, Knee) := Some (knee (compressor c)),
                     (Node ctx b Compressor, Ratio) := Some (ratio (compressor c)),
                     (Node ctx b Compressor, Attack) := Some (attack (compressor c)),
                     (Node ctx b Compressor, Release) := Some (release (compressor c)))
                else p1);
          p3 = filt_params ctx b 0 (eqBands c) p2;
          p4 = p3((Node ctx b PostGain, GainValue) := Some (postGain c));
          p5 = (if delayEnabled c then
                  p4((Node ctx b Delay, DelayTime) := Some (time (delay c)),
                     (Node ctx b Feedback, GainValue) := Some (feedback (delay c)))
                else p4);
          p6 = p5((Node ctx b Panner, Pan) := Some (panner c))
      in if reverbEnabled c then
           p6((Node ctx b ReverbDry, GainValue) := Some (1 - reverb c),
              (Node ctx b ReverbWet, GainValue) := Some (reverb c))
         else p6)"

definition built ::
  "config \<Rightarrow> nat \<Rightarrow> node \<Rightarrow> engine \<Rightarrow> engine" where
  "built c ctx src e =
     (let b = next_build e in
      e\<lparr>next_build := Suc b,
        noiseGateAnalyserNodeRef :=
          (if noiseGateEnabled c then Some (Node ctx b NoiseGateAnalyser)
           else noiseGateAnalyserNodeRef e),
        scriptProcessorNodeRef :=
          (if noiseGateEnabled c then Some (Node ctx b ScriptProcessor)
           else scriptProcessorNodeRef e),
        noiseGateNodeRef :=
          (if noiseGateEnabled c then Some (Node ctx b NoiseGate) else noiseGateNodeRef e),
        gainNodeRef := Some (Node ctx b Gain),
        driveNodeRef := Some (Node ctx b Drive),
        compressorNodeRef :=
          (if compressorEnabled c then Some (Node ctx b Compressor) else compressorNodeRef e),
        eqNodesRef := map (\<lambda>i. Node ctx b (Eq i)) [0..<length (eqBands c)],
        postGainNodeRef := Some (Node ctx b PostGain),
        delayNodeRef := (if delayEnabled c then Some (Node ctx b Delay) else delayNodeRef e),
        feedbackNodeRef :=
          (if delayEnabled c then Some (Node ctx b Feedback) else feedbackNodeRef e),
        pannerNodeRef := Some (Node ctx b Panner),
        reverbDryGainRef :=
          (if reverbEnabled c then Some (Node ctx b ReverbDry) else reverbDryGainRef e),
        reverbWetGainRef :=
          (if reverbEnabled c then Some (Node ctx b ReverbWet) else reverbWetGainRef e),
        reverbNodeRef := (if reverbEnabled c then Some (Node ctx b Reverb) else reverbNodeRef e),
        analyserNodeRef := Some (Node ctx b Analyser),
        conns := conns e @ code_edges c ctx b src,
        params := built_params c ctx b (params e),
        curves := (curves e)(Node ctx b Drive := Some (makeCurve (drive c))),
        oversamples := (oversamples e)(Node ctx b Drive := Some Oversample4x),
        ftypes := filt_types ctx b 0 (eqBands c) (ftypes e)\<rparr>)"

text \<open>Every known node is of a context below \<open>k\<close>; the same for the state of a stage.\<close>

definition refs_ok :: "nat \<Rightarrow> engine \<Rightarrow> bool" where
  "refs_ok k e = (\<forall>n \<in> set (known_nodes e). node_ctx n < k)"

definition stage_ok :: "nat \<Rightarrow> nat \<Rightarrow> engine \<times> node \<Rightarrow> bool" where
  "stage_ok ctx k s = (refs_ok k (fst s) \<and> node_ctx (snd s) < k \<and> ctx < k)"

text \<open>What a band writes into a parameter of its filter, \<open>d\<close> being the value before.\<close>

definition band_value :: "eq_band \<Rightarrow> param \<Rightarrow> real option \<Rightarrow> real option" where
  "band_value band q d =
     (case q of
        Frequency \<Rightarrow> Some (band_freq band)
      | GainValue \<Rightarrow> Some (band_gain band)
      | QValue \<Rightarrow> (case band_q band of Some v \<Rightarrow> if v \<noteq> 0 then Some v else d | None \<Rightarrow> d)
      | _ \<Rightarrow> d)"

section \<open>Properties of the persistence boundary\<close>

lemma cursor_prev_rev: "cursor_prev rs acc = acc @ rev rs"
proof (induction rs acc rule: cursor_prev.induct)
  case (1 rs recordings)
  show ?case
  proof (cases "rs = []")
    case True
    then show ?thesis by (simp add: cursor_prev.simps)
  next
    case False
    then have r: "last rs # rev (butlast rs) = rev rs"
      by (induction rs) auto
    from 1 False have "cursor_prev rs recordings = recordings @ last rs # rev (butlast rs)"
      by (subst cursor_prev.simps) simp
    with r show ?thesis by simp
  qed
qed

lemma insort_key_snoc:
  "\<forall>x\<in>set xs. f x < f a \<Longrightarrow> insort_key f a xs = xs @ [a]"
  for f :: "'a \<Rightarrow> nat"
  by (induction xs) auto

lemma sim_step: "sim p st \<Longrightarrow> sim (spec_apply p x) (apply_op st x)"
proof (cases p)
  case (Pair n xs)
  assume s: "sim p st"
  show ?thesis
  proof (cases x)
    case (Append ok now b)
    from s Pair have "\<forall>r\<in>set (rev xs). id_rec r < Suc n"
      by (auto simp: sim_def list_all_iff)
    then have "insort_key id_rec \<lparr>id_rec = Suc n, date = now, blob = b\<rparr> (rev xs)
        = rev xs @ [\<lparr>id_rec = Suc n, date = now, blob = b\<rparr>]"
      by (intro insort_key_snoc) simp
    with s Pair Append show ?thesis
      by (auto simp: sim_def addRecording_def store_add_def list_all_iff)
  next
    case (Delete ok k)
    with s Pair show ?thesis
      by (auto simp: sim_def deleteRecording_def store_delete_def list_all_iff rev_filter
          sorted_wrt_filter)
  qed
qed

lemma sim_run: "sim p st \<Longrightarrow> sim (foldl spec_apply p ops) (foldl apply_op st ops)"
proof (induction ops arbitrary: p st)
  case Nil
  then show ?case by simp
next
  case (Cons x ops)
  from Cons.prems have "sim (spec_apply p x) (apply_op st x)" by (rule sim_step)
  then show ?case by (simp add: Cons.IH)
qed

lemma sim_initial: "sim (0, []) opened_empty"
  by (simp add: sim_def opened_empty_def empty_store_def)

text \<open>
  Claim C9. After any sequence of appends and deletes on an opened, initially empty
  database (whatever the outcome of each request), a successful listing returns exactly
  the rows then stored, newest first: it equals the specification's newest-first
  listing, and its identifiers strictly descend, that is, it is in descending insertion
  order. A listing whose request fails rejects with the request's error.
\<close>

theorem getAllRecordings_newest_first:
  "getAllRecordings ok (run_ops ops opened_empty) =
     (if ok then Inr (newest_first ops) else Inl RequestError, run_ops ops opened_empty)
   \<and> sorted_wrt (\<lambda>a b. id_rec b < id_rec a) (newest_first ops)
   \<and> set (newest_first ops) = set (rows (disk (run_ops ops opened_empty)))"
proof -
  have "sim (foldl spec_apply (0, []) ops) (run_ops ops opened_empty)"
    unfolding run_ops_def by (rule sim_run [OF sim_initial])
  then show ?thesis
    by (auto simp: sim_def newest_first_def getAllRecordings_def cursor_prev_rev)
qed

lemma getAllRecordings_example:
  "fst (getAllRecordings True
      (run_ops [Append True 10 ''a'', Append True 20 ''b'', Append False 25 ''x'',
                Append True 30 ''c'', Delete True 2, Append True 40 ''d''] opened_empty)) =
   Inr [\<lparr>id_rec = 4, date = 40, blob = ''d''\<rparr>, \<lparr>id_rec = 3, date = 30, blob = ''c''\<rparr>,
        \<lparr>id_rec = 1, date = 10, blob = ''a''\<rparr>]"
  by (simp add: run_ops_def opened_empty_def empty_store_def addRecording_def
      deleteRecording_def store_add_def store_delete_def getAllRecordings_def cursor_prev_rev)

text \<open>
  Claim C10. While the module variable \<open>db\<close> holds no connection, each of the three
  operations rejects with the message \<open>Database not initialized.\<close> and the state, with
  the stored recordings in it, is returned as it was: nothing is written or deleted.
\<close>

theorem not_initialized_rejects:
  assumes "\<not> db st"
  shows "addRecording ok_a now b st = (Inl (Message ''Database not initialized.''), st)
    \<and> getAllRecordings ok_l st = (Inl (Message ''Database not initialized.''), st)
    \<and> deleteRecording ok_d k st = (Inl (Message ''Database not initialized.''), st)"
  using assms by (simp add: addRecording_def getAllRecordings_def deleteRecording_def)

theorem not_initialized_rejects_witness:
  "\<not> db (closed_db \<lparr>keygen = 2, rows = [\<lparr>id_rec = 1, date = 10, blob = ''a''\<rparr>]\<rparr>)
   \<and> addRecording True 20 ''b'' (closed_db \<lparr>keygen = 2, rows = [\<lparr>id_rec = 1, date = 10, blob = ''a''\<rparr>]\<rparr>)
      = (Inl (Message ''Database not initialized.''),
         closed_db \<lparr>keygen = 2, rows = [\<lparr>id_rec = 1, date = 10, blob = ''a''\<rparr>]\<rparr>)
   \<and> getAllRecordings True (closed_db \<lparr>keygen = 2, rows = [\<lparr>id_rec = 1, date = 10, blob = ''a''\<rparr>]\<rparr>)
      = (Inl (Message ''Database not initialized.''),
         closed_db \<lparr>keygen = 2, rows = [\<lparr>id_rec = 1, date = 10, blob = ''a''\<rparr>]\<rparr>)
   \<and> deleteRecording True 1 (closed_db \<lparr>keygen = 2, rows = [\<lparr>id_rec = 1, date = 10, blob = ''a''\<rparr>]\<rparr>)
      = (Inl (Message ''Database not initialized.''),
         closed_db \<lparr>keygen = 2, rows = [\<lparr>id_rec = 1, date = 10, blob = ''a''\<rparr>]\<rparr>)"
proof -
  have h: "\<not> db (closed_db \<lparr>keygen = 2, rows = [\<lparr>id_rec = 1, date = 10, blob = ''a''\<rparr>]\<rparr>)"
    by (simp add: closed_db_def)
  show ?thesis
    using h not_initialized_rejects [OF h, of True 20 "''b''" True True 1] by simp
qed

section \<open>Properties of the drive curve\<close>

lemma curve_loop_length: "length (curve_loop d i curve) = length curve"
  by (induction d i curve rule: curve_loop.induct) (subst curve_loop.simps, simp)

lemma curve_loop_nth:
  "j < length curve \<Longrightarrow> length curve = 256 \<Longrightarrow>
   curve_loop d i curve ! j = (if i \<le> j then drive_sample d j else curve ! j)"
proof (induction d i curve rule: curve_loop.induct)
  case (1 d i curve)
  show ?case
  proof (cases "i < 256")
    case True
    with 1 show ?thesis
      by (subst curve_loop.simps) (auto simp: nth_list_update not_less_eq_eq dest: le_antisym)
  next
    case False
    with 1 show ?thesis
      by (subst curve_loop.simps) auto
  qed
qed

lemma makeCurve_length: "length (makeCurve d) = 256"
  by (simp add: makeCurve_def curve_loop_length)

lemma makeCurve_nth: "i < 256 \<Longrightarrow> makeCurve d ! i = drive_sample d i"
  by (simp add: makeCurve_def curve_loop_nth)

lemma grid_mirror: "i < 255 \<Longrightarrow> grid_x (255 - i) = - grid_x (i + 1)"
  by (simp add: grid_x_def of_nat_diff field_simps)

lemma shape_odd: "shape d (- x) = - shape d x"
  by (simp add: shape_def Let_def)

text \<open>
  Claim C5, as the code has it. The grid \<open>x = 2i/256 - 1\<close> is symmetric about index 128
  (where \<open>x = 0\<close>), not about 127.5: the mirror image of entry \<open>i + 1\<close> is entry
  \<open>255 - i\<close>. So for every drive in \<open>[0, 1]\<close> and every \<open>i < 255\<close> the table satisfies
  \<open>curve[255 - i] = - curve[i + 1]\<close> exactly; entry 0 (\<open>x = -1\<close>) has no mirror image.
\<close>

theorem makeCurve_odd_about_128:
  assumes "0 \<le> d" and "d \<le> 1" and "i < 255"
  shows "makeCurve d ! (255 - i) = - makeCurve d ! (i + 1)"
proof -
  from assms(3) have "drive_sample d (255 - i) = - drive_sample d (i + 1)"
    by (simp add: drive_sample_def grid_mirror shape_odd del: One_nat_def)
  with assms(3) show ?thesis
    by (simp add: makeCurve_nth del: One_nat_def)
qed

theorem makeCurve_odd_about_128_witness:
  "(0::real) \<le> 1 \<and> (1::real) \<le> 1 \<and> (127::nat) < 255
   \<and> makeCurve 1 ! (255 - 127) = - makeCurve 1 ! (127 + 1)"
  using makeCurve_odd_about_128 [of 1 127] by simp

text \<open>
  The claim as stated pairs entry \<open>255 - i\<close> with entry \<open>i\<close>. At full drive and
  \<open>i = 128\<close> the entry \<open>curve[128]\<close> is 0 while \<open>curve[127]\<close> is below \<open>-1/30\<close>: the
  two sides differ by more than \<open>1/30\<close>. At drive 0 they differ by \<open>1/384\<close> at every
  index.
\<close>

theorem makeCurve_not_odd_about_centre:
  "\<not> \<bar>makeCurve 1 ! (255 - 128) - (- makeCurve 1 ! 128)\<bar> \<le> 1 / 30"
proof -
  have "\<not> \<bar>drive_sample 1 127 - (- drive_sample 1 128)\<bar> \<le> 1 / 30"
    using pi_ge_two by (simp add: drive_sample_def shape_def grid_x_def Let_def field_simps abs_if)
  then show ?thesis by (simp add: makeCurve_nth)
qed

lemma makeCurve_clean_gap: "makeCurve 0 ! (255 - i) + makeCurve 0 ! i = - 1 / 384" if "i < 256"
  using that by (simp add: makeCurve_nth drive_sample_def shape_def grid_x_def Let_def
      of_nat_diff field_simps)

section \<open>Properties of the noise gate callback\<close>

lemma gate_sum_squares:
  "foldl (\<lambda>acc val. acc + ((real (unat val) - 128) / 128) ^ 2) a data
     = a + sum_list (map (\<lambda>sample. (sample - 1) ^ 2) (map normalized data))"
  by (induction data arbitrary: a) (simp_all add: normalized_def field_simps power2_eq_square)

lemma gate_rms_spec: "gate_rms data = spec_rms 1 (map normalized data)"
  using gate_sum_squares [of 0 data] by (simp add: gate_rms_def spec_rms_def mean_def o_def)

text \<open>
  Claim C4. With its refs in place, the callback computes the root mean square of the
  block's byte samples about the centre (byte 128, that is 1 on the representation
  normalised by 128, deviations ranging over \<open>[-1, 1)\<close>), converts the threshold as
  \<open>10 powr (threshold / 20)\<close>, and schedules a move of the gate gain towards 1 with time
  constant 0.01 s when the level exceeds the threshold, towards 0 with the configured
  release otherwise.
\<close>

theorem onaudioprocess_gate:
  "onaudioprocess True ng currentTime data =
     Some (if spec_rms 1 (map normalized data) > thresholdLinear (gate_threshold ng)
           then SetTargetAtTime 1 currentTime (1 / 100)
           else SetTargetAtTime 0 currentTime (gate_release ng))"
  by (simp add: onaudioprocess_def Let_def gate_rms_spec thresholdLinear_def)

lemma onaudioprocess_loud:
  "onaudioprocess True \<lparr>gate_threshold = - 50, gate_release = 1 / 4\<rparr> t (replicate 128 0)
     = Some (SetTargetAtTime 1 t (1 / 100))"
  by (simp add: onaudioprocess_def Let_def gate_rms_spec spec_rms_def mean_def normalized_def
      sum_list_replicate powr_less_one)

lemma onaudioprocess_no_refs: "onaudioprocess False ng t data = None"
  by (simp add: onaudioprocess_def)

lemma onaudioprocess_silence:
  "onaudioprocess True \<lparr>gate_threshold = - 50, gate_release = 1 / 4\<rparr> t (replicate 128 128)
     = Some (SetTargetAtTime 0 t (1 / 4))"
  by (simp add: onaudioprocess_def Let_def gate_rms_spec spec_rms_def mean_def normalized_def
      sum_list_replicate)

section \<open>Properties of connectNodes\<close>

lemma links_simps [simp]:
  "links [] = []" "links [x] = []" "links (x # y # ys) = (x, y) # links (y # ys)"
  by (simp_all add: links_def)

lemma links_Cons: "links (x # xs) = (if xs = [] then [] else (x, hd xs) # links xs)"
  by (cases xs) auto

lemma links_append:
  "links (xs @ ys) =
     links xs @ (if xs \<noteq> [] \<and> ys \<noteq> [] then [(last xs, hd ys)] else []) @ links ys"
proof (induction xs)
  case Nil
  then show ?case by simp
next
  case (Cons x xs)
  then show ?case by (cases xs; cases ys) auto
qed

lemma conns_connect [simp]: "conns (connect a b e) = conns e @ [(a, b)]"
  by (simp add: connect_def)

lemma conns_setParam [simp]: "conns (setParam n p v e) = conns e"
  by (simp add: setParam_def)

lemma conns_setCurve [simp]: "conns (setCurve n c e) = conns e"
  by (simp add: setCurve_def)

lemma conns_setOversample [simp]: "conns (setOversample n v e) = conns e"
  by (simp add: setOversample_def)

lemma conns_make_filter [simp]: "conns (make_filter f band e) = conns e"
  by (simp add: make_filter_def Let_def split: option.splits)

lemma conns_make_filters [simp]: "conns (make_filters ctx b i bands e) = conns e"
  by (induction bands arbitrary: i e) simp_all

lemma connect_chain_conns:
  "conns (fst (connect_chain fs (e, l))) = conns e @ links (l # fs)"
  by (induction fs arbitrary: e l) simp_all

lemma connect_chain_last: "snd (connect_chain fs (e, l)) = last (l # fs)"
  by (induction fs arbitrary: e l) simp_all

lemma stage_noiseGate_conns:
  "conns (fst (stage_noiseGate c ctx b s)) = conns (fst s) @
     (if noiseGateEnabled c then
        [(snd s, Node ctx b NoiseGateAnalyser),
         (Node ctx b NoiseGateAnalyser, Node ctx b ScriptProcessor),
         (Node ctx b ScriptProcessor, Destination ctx),
         (snd s, Node ctx b NoiseGate)]
      else [])"
  and stage_noiseGate_last:
  "snd (stage_noiseGate c ctx b s) = (if noiseGateEnabled c then Node ctx b NoiseGate else snd s)"
  by (simp_all add: stage_noiseGate_def Let_def split_beta)

lemma stage_gain_conns:
  "conns (fst (stage_gain c ctx b s)) = conns (fst s) @ [(snd s, Node ctx b Gain)]"
  and stage_gain_last: "snd (stage_gain c ctx b s) = Node ctx b Gain"
  by (simp_all add: stage_gain_def Let_def split_beta)

lemma stage_drive_conns:
  "conns (fst (stage_drive c ctx b s)) = conns (fst s) @ [(snd s, Node ctx b Drive)]"
  and stage_drive_last: "snd (stage_drive c ctx b s) = Node ctx b Drive"
  by (simp_all add: stage_drive_def Let_def split_beta)

lemma stage_compressor_conns:
  "conns (fst (stage_compressor c ctx b s)) = conns (fst s) @
     (if compressorEnabled c then [(snd s, Node ctx b Compressor)] else [])"
  and stage_compressor_last:
  "snd (stage_compressor c ctx b s) = (if compressorEnabled c then Node ctx b Compressor else snd s)"
  by (simp_all add: stage_compressor_def Let_def split_beta)

lemma stage_eq_conns:
  "conns (fst (stage_eq c ctx b s)) = conns (fst s) @
     links (snd s # map (\<lambda>i. Node ctx b (Eq i)) [0..<length (eqBands c)])"
  and stage_eq_last:
  "snd (stage_eq c ctx b s) = last (snd s # map (\<lambda>i. Node ctx b (Eq i)) [0..<length (eqBands c)])"
  by (simp_all add: stage_eq_def Let_def split_beta connect_chain_conns connect_chain_last)

lemma stage_postGain_conns:
  "conns (fst (stage_postGain c ctx b s)) = conns (fst s) @ [(snd s, Node ctx b PostGain)]"
  and stage_postGain_last: "snd (stage_postGain c ctx b s) = Node ctx b PostGain"
  by (simp_all add: stage_postGain_def Let_def split_beta)

lemma stage_delay_conns:
  "conns (fst (stage_delay c ctx b s)) = conns (fst s) @
     (if delayEnabled c then
        [(snd s, Node ctx b Delay), (Node ctx b Delay, Node ctx b Feedback),
         (Node ctx b Feedback, Node ctx b Delay)]
      else [])"
  and stage_delay_last:
  "snd (stage_delay c ctx b s) = (if delayEnabled c then Node ctx b Delay else snd s)"
  by (simp_all add: stage_delay_def Let_def split_beta)

lemma stage_panner_conns:
  "conns (fst (stage_panner c ctx b s)) = conns (fst s) @ [(snd s, Node ctx b Panner)]"
  and stage_panner_last: "snd (stage_panner c ctx b s) = Node ctx b Panner"
  by (simp_all add: stage_panner_def Let_def split_beta)

lemma stage_reverb_conns:
  "conns (fst (stage_reverb c ctx b s)) = conns (fst s) @
     (if reverbEnabled c then
        [(snd s, Node ctx b ReverbDry), (Node ctx b ReverbDry, Node ctx b FinalMixer),
         (snd s, Node ctx b Reverb), (Node ctx b Reverb, Node ctx b ReverbWet),
         (Node ctx b ReverbWet, Node ctx b FinalMixer)]
      else [(snd s, Node ctx b FinalMixer)])"
  and stage_reverb_last: "snd (stage_reverb c ctx b s) = Node ctx b FinalMixer"
  by (simp_all add: stage_reverb_def Let_def split_beta)

lemma stage_analyser_conns:
  "conns (fst (stage_analyser c ctx b s)) = conns (fst s) @
     [(snd s, Node ctx b Analyser), (snd s, Destination ctx)]"
  and stage_analyser_last: "snd (stage_analyser c ctx b s) = snd s"
  by (simp_all add: stage_analyser_def Let_def split_beta)

lemmas stage_conns =
  stage_noiseGate_conns stage_gain_conns stage_drive_conns stage_compressor_conns
  stage_eq_conns stage_postGain_conns stage_delay_conns stage_panner_conns
  stage_reverb_conns stage_analyser_conns

lemmas stage_last =
  stage_noiseGate_last stage_gain_last stage_drive_last stage_compressor_last
  stage_eq_last stage_postGain_last stage_delay_last stage_panner_last
  stage_reverb_last stage_analyser_last

lemma connectNodes_conns:
  assumes "audioContextRef e = Some ctx" and "sourceNodeRef e = Some src"
  shows "conns (snd (connectNodes c None e)) = conns e @ code_edges c ctx (next_build e) src"
  using assms
  by (simp add: connectNodes_def stages_def Let_def stage_conns stage_last code_edges_def)

lemma links_snoc: "links (a # xs) @ [(last (a # xs), p)] = links (a # xs @ [p])"
  by (induction xs arbitrary: a) simp_all

lemma trunk_links:
  "links (trunk c ctx b src) =
     (let l1 = (if noiseGateEnabled c then Node ctx b NoiseGate else src);
          l3 = (if compressorEnabled c then Node ctx b Compressor else Node ctx b Drive);
          eqs = map (\<lambda>i. Node ctx b (Eq i)) [0..<length (eqBands c)];
          l6 = (if delayEnabled c then Node ctx b Delay else Node ctx b PostGain)
      in (if noiseGateEnabled c then [(src, Node ctx b NoiseGate)] else [])
         @ [(l1, Node ctx b Gain), (Node ctx b Gain, Node ctx b Drive)]
         @ (if compressorEnabled c then [(Node ctx b Drive, Node ctx b Compressor)] else [])
         @ links (l3 # eqs)
         @ [(last (l3 # eqs), Node ctx b PostGain)]
         @ (if delayEnabled c then [(Node ctx b PostGain, Node ctx b Delay)] else [])
         @ [(l6, Node ctx b Panner)])"
proof -
  have tail: "links (a # xs @ p # ys) = links (a # xs) @ [(last (a # xs), p)] @ links (p # ys)"
    for a p :: node and xs ys
    by (induction xs arbitrary: a) simp_all
  show ?thesis
    by (cases "noiseGateEnabled c"; cases "compressorEnabled c"; cases "delayEnabled c")
      (simp_all add: trunk_def Let_def tail del: last.simps)
qed

lemma code_edges_set: "set (code_edges c ctx b src) = built_graph c ctx b src"
  unfolding built_graph_def trunk_links
  by (cases "noiseGateEnabled c"; cases "compressorEnabled c"; cases "delayEnabled c";
      cases "reverbEnabled c")
    (auto simp: code_edges_def Let_def feedback_loop_def reverb_section_def detector_branch_def
      simp del: last.simps)
lemma nodes_of_Un: "nodes_of (g \<union> h) = nodes_of g \<union> nodes_of h"
  by (auto simp: nodes_of_def)

lemma nodes_of_insert: "nodes_of (insert (a, b) g) = insert a (insert b (nodes_of g))"
  by (auto simp: nodes_of_def)

lemma nodes_of_empty: "nodes_of {} = {}"
  by (simp add: nodes_of_def)

lemma nodes_of_links: "nodes_of (set (links (x # y # ys))) = set (x # y # ys)"
proof (induction ys arbitrary: x y)
  case Nil
  then show ?case by (simp add: nodes_of_insert nodes_of_empty)
next
  case (Cons z zs)
  have "nodes_of (set (links (x # y # z # zs))) = insert x (insert y (nodes_of (set (links (y # z # zs)))))"
    by (simp add: nodes_of_insert)
  with Cons [of y z] show ?case by auto
qed

lemma trunk_shape: "\<exists>ys. trunk c ctx b src = src # Node ctx b (if noiseGateEnabled c then NoiseGate else Gain) # ys"
  by (simp add: trunk_def)

lemma nodes_of_trunk: "nodes_of (set (links (trunk c ctx b src))) = set (trunk c ctx b src)"
proof -
  obtain y ys where "trunk c ctx b src = src # y # ys"
    using trunk_shape by blast
  then show ?thesis by (simp only: nodes_of_links)
qed

lemma built_graph_nodes:
  "Node ctx b r \<in> nodes_of (built_graph c ctx b (Source ctx s)) \<longleftrightarrow> role_present c r"
  unfolding built_graph_def nodes_of_Un nodes_of_trunk
  by (cases r)
    (auto simp: trunk_def feedback_loop_def reverb_section_def detector_branch_def
      nodes_of_insert nodes_of_empty role_present_def)

lemma analyser_leaf: "(Node ctx b Analyser, x) \<notin> built_graph c ctx b (Source ctx s)"
proof
  assume a: "(Node ctx b Analyser, x) \<in> built_graph c ctx b (Source ctx s)"
  have "Node ctx b Analyser \<notin> set (trunk c ctx b (Source ctx s))"
    by (auto simp: trunk_def)
  then have "(Node ctx b Analyser, x) \<notin> set (links (trunk c ctx b (Source ctx s)))"
    unfolding links_def by (meson set_zip_leftD)
  with a show False
    by (auto simp: built_graph_def feedback_loop_def reverb_section_def detector_branch_def
        split: if_splits)
qed

lemma make_filter_normal:
  "make_filter f band e =
     e\<lparr>params := band_params f band (params e), ftypes := (ftypes e)(f := Some (band_type band))\<rparr>"
  by (simp add: make_filter_def band_params_def setParam_def Let_def split: option.splits)

lemma make_filters_normal:
  "make_filters ctx b i bands e =
     e\<lparr>params := filt_params ctx b i bands (params e),
       ftypes := filt_types ctx b i bands (ftypes e)\<rparr>"
  by (induction bands arbitrary: i e) (simp_all add: make_filter_normal)

lemma connect_chain_normal:
  "connect_chain fs (e, l) = (e\<lparr>conns := conns e @ links (l # fs)\<rparr>, last (l # fs))"
  by (induction fs arbitrary: e l) (simp_all add: connect_def)

lemma connectNodes_built:
  assumes "audioContextRef e = Some ctx" and "sourceNodeRef e = Some src"
  shows "connectNodes c None e = (False, built c ctx src e)"
  using assms
  by (cases "noiseGateEnabled c"; cases "compressorEnabled c"; cases "delayEnabled c";
      cases "reverbEnabled c")
    (simp_all add: connectNodes_def stages_def stage_noiseGate_def stage_gain_def
      stage_drive_def stage_compressor_def stage_eq_def stage_postGain_def stage_delay_def
      stage_panner_def stage_reverb_def stage_analyser_def Let_def connect_def setParam_def
      setCurve_def setOversample_def make_filters_normal connect_chain_normal built_def
      built_params_def
      code_edges_def del: last.simps links_simps)

lemma band_params_self: "band_params n band p (n, q) = band_value band q (p (n, q))"
  by (cases q) (simp_all add: band_params_def band_value_def Let_def split: option.splits)

lemma band_params_other: "m \<noteq> n \<Longrightarrow> band_params n band p (m, q) = p (m, q)"
  by (simp add: band_params_def Let_def split: option.splits)

lemma filt_params_below:
  "k < i \<Longrightarrow> filt_params ctx b i bands p (Node ctx b (Eq k), q) = p (Node ctx b (Eq k), q)"
  by (induction bands arbitrary: i p) (simp_all add: band_params_other)

lemma filt_params_nth:
  "j < length bands \<Longrightarrow>
   filt_params ctx b i bands p (Node ctx b (Eq (i + j)), q)
     = band_value (bands ! j) q (p (Node ctx b (Eq (i + j)), q))"
proof (induction bands arbitrary: i j p)
  case Nil
  then show ?case by simp
next
  case (Cons band bands)
  show ?case
  proof (cases j)
    case 0
    then show ?thesis by (simp add: filt_params_below band_params_self)
  next
    case (Suc j')
    with Cons.prems have "j' < length bands" by simp
    from Cons.IH [OF this, of "Suc i" "band_params (Node ctx b (Eq i)) band p"] Suc
    show ?thesis by (simp add: band_params_other)
  qed
qed

lemma filt_types_below:
  "k < i \<Longrightarrow> filt_types ctx b i bands ft (Node ctx b (Eq k)) = ft (Node ctx b (Eq k))"
  by (induction bands arbitrary: i ft) simp_all

lemma filt_types_nth:
  "j < length bands \<Longrightarrow>
   filt_types ctx b i bands ft (Node ctx b (Eq (i + j))) = Some (band_type (bands ! j))"
proof (induction bands arbitrary: i j ft)
  case Nil
  then show ?case by simp
next
  case (Cons band bands)
  show ?case
  proof (cases j)
    case 0
    then show ?thesis by (simp add: filt_types_below)
  next
    case (Suc j')
    with Cons.prems have "j' < length bands" by simp
    from Cons.IH [OF this, of "Suc i"] Suc show ?thesis by simp
  qed
qed

lemma built_params_filter:
  assumes "j < length (eqBands c)"
  shows "built_params c ctx b p (Node ctx b (Eq j), q)
     = band_value (eqBands c ! j) q (p (Node ctx b (Eq j), q))"
  using filt_params_nth [OF assms, of ctx b 0] by (simp add: built_params_def Let_def)

lemma built_filters:
  assumes "j < length (eqBands c)"
  shows "ftypes (built c ctx src e) (Node ctx (next_build e) (Eq j))
           = Some (band_type (eqBands c ! j))"
    and "params (built c ctx src e) (Node ctx (next_build e) (Eq j), Frequency)
           = Some (band_freq (eqBands c ! j))"
    and "params (built c ctx src e) (Node ctx (next_build e) (Eq j), GainValue)
           = Some (band_gain (eqBands c ! j))"
    and "params (built c ctx src e) (Node ctx (next_build e) (Eq j), QValue)
           = (case band_q (eqBands c ! j) of
                Some v \<Rightarrow> if v \<noteq> 0 then Some v
                          else params e (Node ctx (next_build e) (Eq j), QValue)
              | None \<Rightarrow> params e (Node ctx (next_build e) (Eq j), QValue))"
    and "eqNodesRef (built c ctx src e)
           = map (\<lambda>i. Node ctx (next_build e) (Eq i)) [0..<length (eqBands c)]"
  using filt_types_nth [OF assms, of ctx "next_build e" 0]
  by (simp_all add: built_def Let_def built_params_filter [OF assms] band_value_def)

text \<open>
  Claim C2, as the code has it. One run of \<open>connectNodes\<close> on a context with its source
  node leaves the earlier connections alone and makes exactly the connections of
  \<open>built_graph\<close>: the links of the trunk source, [noise gate], gain, drive, [compressor],
  the EQ filters \<open>Eq 0\<close>, \<open>Eq 1\<close>, ... in this order, post gain, [delay], panner; the delay's
  feedback loop; the reverb's dry/wet split into the final mixer, or the panner's direct
  connection to it; the final mixer's two connections, to the analyser and to the
  destination; and, with the noise gate, its detector branch from the source through
  an analyser and the script processor to the destination. A node of the run is in the
  graph exactly when its stage is present: the nodes of an optional stage exactly when
  its flag is set. The filters are those of \<open>eqBands\<close>, in its order: \<open>eqNodesRef\<close> holds
  \<open>Eq 0\<close>, \<open>Eq 1\<close>, ... and the filter \<open>Eq i\<close> has the type, the frequency and the gain of
  the band at index \<open>i\<close>, and its Q when the band has one that is not zero (otherwise
  the Q parameter of the filter is not written).
\<close>

theorem connectNodes_graph:
  assumes "audioContextRef e = Some ctx" and "sourceNodeRef e = Some (Source ctx s)"
  shows "conns (snd (connectNodes c None e)) = conns e @ new_conns e (snd (connectNodes c None e))
    \<and> set (new_conns e (snd (connectNodes c None e))) = built_graph c ctx (next_build e) (Source ctx s)
    \<and> (\<forall>r. Node ctx (next_build e) r \<in> nodes_of (built_graph c ctx (next_build e) (Source ctx s))
          \<longleftrightarrow> role_present c r)
    \<and> eqNodesRef (snd (connectNodes c None e))
        = map (\<lambda>i. Node ctx (next_build e) (Eq i)) [0..<length (eqBands c)]
    \<and> (\<forall>i<length (eqBands c).
          ftypes (snd (connectNodes c None e)) (Node ctx (next_build e) (Eq i))
            = Some (band_type (eqBands c ! i))
        \<and> params (snd (connectNodes c None e)) (Node ctx (next_build e) (Eq i), Frequency)
            = Some (band_freq (eqBands c ! i))
        \<and> params (snd (connectNodes c None e)) (Node ctx (next_build e) (Eq i), GainValue)
            = Some (band_gain (eqBands c ! i))
        \<and> params (snd (connectNodes c None e)) (Node ctx (next_build e) (Eq i), QValue)
            = (case band_q (eqBands c ! i) of
                 Some v \<Rightarrow> if v \<noteq> 0 then Some v
                           else params e (Node ctx (next_build e) (Eq i), QValue)
               | None \<Rightarrow> params e (Node ctx (next_build e) (Eq i), QValue)))"
proof -
  have b: "snd (connectNodes c None e) = built c ctx (Source ctx s) e"
    by (simp add: connectNodes_built [OF assms])
  have "conns (snd (connectNodes c None e)) = conns e @ new_conns e (snd (connectNodes c None e))"
    and "set (new_conns e (snd (connectNodes c None e)))
          = built_graph c ctx (next_build e) (Source ctx s)"
    by (simp_all add: connectNodes_conns [OF assms] new_conns_def code_edges_set)
  moreover have "\<forall>r. Node ctx (next_build e) r
        \<in> nodes_of (built_graph c ctx (next_build e) (Source ctx s)) \<longleftrightarrow> role_present c r"
    by (simp add: built_graph_nodes)
  moreover have "eqNodesRef (snd (connectNodes c None e))
        = map (\<lambda>i. Node ctx (next_build e) (Eq i)) [0..<length (eqBands c)]"
    unfolding b by (simp add: built_def Let_def)
  moreover have "\<forall>i<length (eqBands c).
          ftypes (snd (connectNodes c None e)) (Node ctx (next_build e) (Eq i))
            = Some (band_type (eqBands c ! i))
        \<and> params (snd (connectNodes c None e)) (Node ctx (next_build e) (Eq i), Frequency)
            = Some (band_freq (eqBands c ! i))
        \<and> params (snd (connectNodes c None e)) (Node ctx (next_build e) (Eq i), GainValue)
            = Some (band_gain (eqBands c ! i))
        \<and> params (snd (connectNodes c None e)) (Node ctx (next_build e) (Eq i), QValue)
            = (case band_q (eqBands c ! i) of
                 Some v \<Rightarrow> if v \<noteq> 0 then Some v
                           else params e (Node ctx (next_build e) (Eq i), QValue)
               | None \<Rightarrow> params e (Node ctx (next_build e) (Eq i), QValue))"
    unfolding b by (intro allI impI conjI) (rule built_filters, assumption)+
  ultimately show ?thesis by blast
qed

theorem connectNodes_graph_witness:
  "audioContextRef (armed 0 0 initial_engine) = Some 0
   \<and> sourceNodeRef (armed 0 0 initial_engine) = Some (Source 0 0)
   \<and> set (new_conns (armed 0 0 initial_engine)
        (snd (connectNodes (initial_config\<lparr>compressorEnabled := True\<rparr>) None (armed 0 0 initial_engine))))
      = built_graph (initial_config\<lparr>compressorEnabled := True\<rparr>) 0 0 (Source 0 0)
   \<and> Node 0 0 Compressor \<in> nodes_of (built_graph (initial_config\<lparr>compressorEnabled := True\<rparr>) 0 0 (Source 0 0))
   \<and> Node 0 0 Delay \<notin> nodes_of (built_graph (initial_config\<lparr>compressorEnabled := True\<rparr>) 0 0 (Source 0 0))
   \<and> (1::nat) < length (eqBands (initial_config\<lparr>compressorEnabled := True\<rparr>))
   \<and> ftypes (snd (connectNodes (initial_config\<lparr>compressorEnabled := True\<rparr>) None
        (armed 0 0 initial_engine))) (Node 0 0 (Eq 1)) = Some peaking
   \<and> params (snd (connectNodes (initial_config\<lparr>compressorEnabled := True\<rparr>) None
        (armed 0 0 initial_engine))) (Node 0 0 (Eq 1), Frequency) = Some 250
   \<and> params (snd (connectNodes (initial_config\<lparr>compressorEnabled := True\<rparr>) None
        (armed 0 0 initial_engine))) (Node 0 0 (Eq 1), QValue) = Some 1"
proof -
  have a: "audioContextRef (armed 0 0 initial_engine) = Some 0"
    and s: "sourceNodeRef (armed 0 0 initial_engine) = Some (Source 0 0)"
    and b: "next_build (armed 0 0 initial_engine) = 0"
    by (simp_all add: armed_def initial_engine_def)
  have l: "(1::nat) < length (eqBands (initial_config\<lparr>compressorEnabled := True\<rparr>))"
    and n: "eqBands (initial_config\<lparr>compressorEnabled := True\<rparr>) ! 1
      = \<lparr>band_id = ''bass'', band_label = ''Low Mid'', band_gain = 0, band_q = Some 1,
         band_freq = 250, band_type = peaking\<rparr>"
    by (simp_all add: initial_config_def initialEqBands_def)
  from connectNodes_graph [OF a s, of "initial_config\<lparr>compressorEnabled := True\<rparr>"]
  have g: "set (new_conns (armed 0 0 initial_engine)
        (snd (connectNodes (initial_config\<lparr>compressorEnabled := True\<rparr>) None (armed 0 0 initial_engine))))
      = built_graph (initial_config\<lparr>compressorEnabled := True\<rparr>) 0 0 (Source 0 0)"
    and r: "\<And>r. Node 0 0 r \<in> nodes_of (built_graph (initial_config\<lparr>compressorEnabled := True\<rparr>) 0 0 (Source 0 0))
          \<longleftrightarrow> role_present (initial_config\<lparr>compressorEnabled := True\<rparr>) r"
    and f: "\<And>i. i < length (eqBands (initial_config\<lparr>compressorEnabled := True\<rparr>)) \<Longrightarrow>
          ftypes (snd (connectNodes (initial_config\<lparr>compressorEnabled := True\<rparr>) None
            (armed 0 0 initial_engine))) (Node 0 0 (Eq i))
            = Some (band_type (eqBands (initial_config\<lparr>compressorEnabled := True\<rparr>) ! i))
        \<and> params (snd (connectNodes (initial_config\<lparr>compressorEnabled := True\<rparr>) None
            (armed 0 0 initial_engine))) (Node 0 0 (Eq i), Frequency)
            = Some (band_freq (eqBands (initial_config\<lparr>compressorEnabled := True\<rparr>) ! i))
        \<and> params (snd (connectNodes (initial_config\<lparr>compressorEnabled := True\<rparr>) None
            (armed 0 0 initial_engine))) (Node 0 0 (Eq i), QValue)
            = (case band_q (eqBands (initial_config\<lparr>compressorEnabled := True\<rparr>) ! i) of
                 Some v \<Rightarrow> if v \<noteq> 0 then Some v
                           else params (armed 0 0 initial_engine) (Node 0 0 (Eq i), QValue)
               | None \<Rightarrow> params (armed 0 0 initial_engine) (Node 0 0 (Eq i), QValue))"
    unfolding b by blast+
  from f [OF l] have "ftypes (snd (connectNodes (initial_config\<lparr>compressorEnabled := True\<rparr>) None
        (armed 0 0 initial_engine))) (Node 0 0 (Eq 1)) = Some peaking
   \<and> params (snd (connectNodes (initial_config\<lparr>compressorEnabled := True\<rparr>) None
        (armed 0 0 initial_engine))) (Node 0 0 (Eq 1), Frequency) = Some 250
   \<and> params (snd (connectNodes (initial_config\<lparr>compressorEnabled := True\<rparr>) None
        (armed 0 0 initial_engine))) (Node 0 0 (Eq 1), QValue) = Some 1"
    unfolding n by simp
  moreover have "Node 0 0 Compressor \<in> nodes_of (built_graph (initial_config\<lparr>compressorEnabled := True\<rparr>) 0 0 (Source 0 0))"
    and "Node 0 0 Delay \<notin> nodes_of (built_graph (initial_config\<lparr>compressorEnabled := True\<rparr>) 0 0 (Source 0 0))"
    unfolding r by (simp_all add: role_present_def initial_config_def)
  ultimately show ?thesis using a s g l by blast
qed

text \<open>
  The chain as the specification draws it ends \<open>... \<rightarrow> analyzerTap \<rightarrow> sink\<close>. The graph
  built for the initial configuration is not that graph: the analyser has no outgoing
  connection, the destination is fed by the final mixer.
\<close>

theorem analyser_not_in_series:
  "set (new_conns (armed 0 0 initial_engine)
        (snd (connectNodes initial_config None (armed 0 0 initial_engine))))
     \<noteq> spec_graph initial_config 0 0 (Source 0 0)"
proof -
  have a: "audioContextRef (armed 0 0 initial_engine) = Some 0"
    and s: "sourceNodeRef (armed 0 0 initial_engine) = Some (Source 0 0)"
    and b: "next_build (armed 0 0 initial_engine) = 0"
    by (simp_all add: armed_def initial_engine_def)
  have "set (new_conns (armed 0 0 initial_engine)
        (snd (connectNodes initial_config None (armed 0 0 initial_engine))))
      = built_graph initial_config 0 0 (Source 0 0)"
    by (simp add: connectNodes_conns [OF a s] new_conns_def code_edges_set b)
  moreover have "(Node 0 0 Analyser, Destination 0) \<in> spec_graph initial_config 0 0 (Source 0 0)"
    by (simp add: spec_graph_def)
  moreover have "(Node 0 0 Analyser, Destination 0) \<notin> built_graph initial_config 0 0 (Source 0 0)"
    by (rule analyser_leaf)
  ultimately show ?thesis by metis
qed

section \<open>Properties of start, stop and restartAudio\<close>

lemma frame_connect [simp]: "frame (connect a b e) = frame e"
  by (simp add: frame_def connect_def)

lemma frame_setParam [simp]: "frame (setParam n p v e) = frame e"
  by (simp add: frame_def setParam_def)

lemma frame_setCurve [simp]: "frame (setCurve n c e) = frame e"
  by (simp add: frame_def setCurve_def)

lemma frame_setOversample [simp]: "frame (setOversample n v e) = frame e"
  by (simp add: frame_def setOversample_def)

lemma frame_make_filter [simp]: "frame (make_filter f band e) = frame e"
  by (simp add: make_filter_def Let_def split: option.splits) (simp add: frame_def)

lemma frame_make_filters [simp]: "frame (make_filters ctx b i bands e) = frame e"
  by (induction bands arbitrary: i e) simp_all

lemma frame_connect_chain [simp]: "frame (fst (connect_chain fs s)) = frame (fst s)"
  by (induction fs s rule: connect_chain.induct) simp_all

lemma frame_refs [simp]:
  "frame (e\<lparr>noiseGateAnalyserNodeRef := x1\<rparr>) = frame e"
  "frame (e\<lparr>scriptProcessorNodeRef := x1\<rparr>) = frame e"
  "frame (e\<lparr>noiseGateNodeRef := x1\<rparr>) = frame e"
  "frame (e\<lparr>gainNodeRef := x1\<rparr>) = frame e"
  "frame (e\<lparr>driveNodeRef := x1\<rparr>) = frame e"
  "frame (e\<lparr>compressorNodeRef := x1\<rparr>) = frame e"
  "frame (e\<lparr>eqNodesRef := x2\<rparr>) = frame e"
  "frame (e\<lparr>postGainNodeRef := x1\<rparr>) = frame e"
  "frame (e\<lparr>delayNodeRef := x1\<rparr>) = frame e"
  "frame (e\<lparr>feedbackNodeRef := x1\<rparr>) = frame e"
  "frame (e\<lparr>pannerNodeRef := x1\<rparr>) = frame e"
  "frame (e\<lparr>reverbDryGainRef := x1\<rparr>) = frame e"
  "frame (e\<lparr>reverbWetGainRef := x1\<rparr>) = frame e"
  "frame (e\<lparr>reverbNodeRef := x1\<rparr>) = frame e"
  "frame (e\<lparr>analyserNodeRef := x1\<rparr>) = frame e"
  "frame (e\<lparr>next_build := x3\<rparr>) = frame e"
  by (simp_all add: frame_def)

lemma frame_stage:
  "frame (fst (stage_noiseGate c ctx b s)) = frame (fst s)"
  "frame (fst (stage_gain c ctx b s)) = frame (fst s)"
  "frame (fst (stage_drive c ctx b s)) = frame (fst s)"
  "frame (fst (stage_compressor c ctx b s)) = frame (fst s)"
  "frame (fst (stage_eq c ctx b s)) = frame (fst s)"
  "frame (fst (stage_postGain c ctx b s)) = frame (fst s)"
  "frame (fst (stage_delay c ctx b s)) = frame (fst s)"
  "frame (fst (stage_panner c ctx b s)) = frame (fst s)"
  "frame (fst (stage_reverb c ctx b s)) = frame (fst s)"
  "frame (fst (stage_analyser c ctx b s)) = frame (fst s)"
  by (simp_all add: stage_noiseGate_def stage_gain_def stage_drive_def stage_compressor_def
      stage_eq_def stage_postGain_def stage_delay_def stage_panner_def stage_reverb_def
      stage_analyser_def Let_def split_beta)

lemma frame_fold:
  "(\<And>f s. f \<in> set fs \<Longrightarrow> frame (fst (f s)) = frame (fst s)) \<Longrightarrow>
   frame (fst (fold (\<lambda>stage s. stage s) fs s)) = frame (fst s)"
  by (induction fs arbitrary: s) simp_all

lemma frame_stages: "f \<in> set (stages c ctx b) \<Longrightarrow> frame (fst (f s)) = frame (fst s)"
  by (auto simp: stages_def frame_stage)

lemma frame_connectNodes: "frame (snd (connectNodes c th e)) = frame e"
proof -
  have "frame (fst (fold (\<lambda>stage s. stage s) (take k (stages c ctx b)) s)) = frame (fst s)"
    for k ctx b s
    by (rule frame_fold) (auto dest: in_set_takeD intro: frame_stages)
  moreover have "frame (fst (fold (\<lambda>stage s. stage s) (stages c ctx b) s)) = frame (fst s)"
    for ctx b s
    by (rule frame_fold) (auto intro: frame_stages)
  ultimately show ?thesis
    by (simp add: connectNodes_def Let_def split: option.splits)
qed

lemma length_stages [simp]: "length (stages c ctx b) = 10"
  by (simp add: stages_def)

lemma connectNodes_threw:
  "audioContextRef e = Some ctx \<Longrightarrow> sourceNodeRef e = Some src \<Longrightarrow>
   fst (connectNodes c th e) = (case th of None \<Rightarrow> False | Some k \<Rightarrow> k < 10)"
  by (simp add: connectNodes_def Let_def split: option.splits)


lemma after_stream_built:
  assumes "audioContextRef e = Some ctx"
  shows "after_stream c s NoFault e =
     setStatus Running
       ((built c ctx (Source ctx s)
          (e\<lparr>mediaStreamRef := Some s, sourceNodeRef := Some (Source ctx s)\<rparr>))
        \<lparr>mediaRecorderRef := Some s\<rparr>)"
  using assms
  by (simp add: after_stream_def Let_def
      connectNodes_built [of "e\<lparr>mediaStreamRef := Some s, sourceNodeRef := Some (Source ctx s)\<rparr>" ctx "Source ctx s"])


lemma setStatus_frame [simp]:
  "status (setStatus st e) = st"
  "tasks (setStatus st e) = tasks e"
  "next_task (setStatus st e) = next_task e"
  "next_ctx (setStatus st e) = next_ctx e"
  "next_build (setStatus st e) = next_build e"
  "cfg (setStatus st e) = cfg e"
  "conns (setStatus st e) = conns e"
  "audioContextRef (setStatus st e) = audioContextRef e"
  "mediaStreamRef (setStatus st e) = mediaStreamRef e"
  "sourceNodeRef (setStatus st e) = sourceNodeRef e"
  "gainNodeRef (setStatus st e) = gainNodeRef e"
  "driveNodeRef (setStatus st e) = driveNodeRef e"
  "scriptProcessorNodeRef (setStatus st e) = scriptProcessorNodeRef e"
  "console (setStatus st e) = console e"
  by (simp_all add: setStatus_def eff_gain_def eff_drive_def setParam_def setCurve_def
      split: option.splits)

lemma built_frame [simp]:
  "status (built c ctx src e) = status e"
  "tasks (built c ctx src e) = tasks e"
  "next_task (built c ctx src e) = next_task e"
  "next_ctx (built c ctx src e) = next_ctx e"
  "cfg (built c ctx src e) = cfg e"
  "audioContextRef (built c ctx src e) = audioContextRef e"
  "mediaStreamRef (built c ctx src e) = mediaStreamRef e"
  "sourceNodeRef (built c ctx src e) = sourceNodeRef e"
  "console (built c ctx src e) = console e"
  by (simp_all add: built_def Let_def)

lemma built_refs [simp]:
  "next_build (built c ctx src e) = Suc (next_build e)"
  "gainNodeRef (built c ctx src e) = Some (Node ctx (next_build e) Gain)"
  "driveNodeRef (built c ctx src e) = Some (Node ctx (next_build e) Drive)"
  "conns (built c ctx src e) = conns e @ code_edges c ctx (next_build e) src"
  by (simp_all add: built_def Let_def)


lemma run_snoc: "run (evs @ [ev]) e = step (run evs e) ev"
  by (simp add: run_def)

lemma run_Cons: "run (ev # evs) e = run evs (step e ev)"
  by (simp add: run_def)

lemma run_Nil: "run [] e = e"
  by (simp add: run_def)

lemma stop_frame [simp]:
  "status (stop e) = Stopped"
  "tasks (stop e) = tasks e"
  "next_task (stop e) = next_task e"
  "next_ctx (stop e) = next_ctx e"
  "next_build (stop e) = next_build e"
  "cfg (stop e) = cfg e"
  "console (stop e) = console e"
  "audioContextRef (stop e) = None"
  "mediaStreamRef (stop e) = None"
  "sourceNodeRef (stop e) = None"
  "gainNodeRef (stop e) = None"
  "driveNodeRef (stop e) = None"
  "analyserNodeRef (stop e) = None"
  "scriptProcessorNodeRef (stop e) = None"
  by (simp_all add: stop_def Let_def split: option.splits)

lemma restartAudio_running:
  "status e = Running \<Longrightarrow>
   restartAudio e =
     (stop e)\<lparr>tasks := (tasks e)(next_task e := Some \<lparr>phase = AwaitSettle, closure = cfg e\<rparr>),
             next_task := Suc (next_task e)\<rparr>"
  by (simp add: restartAudio_def Let_def)

lemma start_begin_frame [simp]:
  "status (start_begin t c e) = status e"
  "audioContextRef (start_begin t c e) = Some (next_ctx e)"
  "next_ctx (start_begin t c e) = Suc (next_ctx e)"
  "next_build (start_begin t c e) = next_build e"
  "next_task (start_begin t c e) = next_task e"
  "cfg (start_begin t c e) = cfg e"
  "conns (start_begin t c e) = conns e"
  "console (start_begin t c e) = console e"
  "tasks (start_begin t c e) =
     (tasks e)(t := Some \<lparr>phase = (if hasOutputSelection c \<and> selectedOutput c \<noteq> ''default''
                                     then AwaitSink else AwaitStream), closure = c\<rparr>)"
  by (simp_all add: start_begin_def Let_def)


lemma frame_status: "frame a = frame b \<Longrightarrow> status a = status b"
  and frame_console: "frame a = frame b \<Longrightarrow> console a = console b"
  and frame_ctx: "frame a = frame b \<Longrightarrow> audioContextRef a = audioContextRef b"
  and frame_stream: "frame a = frame b \<Longrightarrow> mediaStreamRef a = mediaStreamRef b"
  and frame_source: "frame a = frame b \<Longrightarrow> sourceNodeRef a = sourceNodeRef b"
  and frame_tasks: "frame a = frame b \<Longrightarrow> tasks a = tasks b"
  and frame_cfg: "frame a = frame b \<Longrightarrow> cfg a = cfg b"
  by (simp_all add: frame_def)

lemma status_catch_start [simp]: "status (catch_start e) = Error"
  and console_catch_start [simp]:
    "console (catch_start e) = console e @ [''Error starting audio processing:'']"
  by (simp_all add: catch_start_def)

lemma after_stream_throws:
  assumes "throws f"
  shows "status (after_stream c s f e) = Error
    \<and> console (after_stream c s f e) = console e @ [''Error starting audio processing:'']"
proof (cases "audioContextRef e")
  case None
  then show ?thesis by (simp add: after_stream_def)
next
  case (Some ctx)
  let ?e2 = "e\<lparr>mediaStreamRef := Some s, sourceNodeRef := Some (Source ctx s)\<rparr>"
  have fr: "console (snd (connectNodes c th ?e2)) = console e" for th
    using frame_console [OF frame_connectNodes [of c th ?e2]] by simp
  have th: "fst (connectNodes c (Some k) ?e2) = (k < 10)" for k
    using Some by (simp add: connectNodes_threw [of _ ctx "Source ctx s"])
  from assms Some show ?thesis
    by (cases f) (simp_all add: after_stream_def throws_def Let_def fr th)
qed

text \<open>
  Claim C8, as the code has it. When a platform call throws after the stream has arrived
  (creating the source node, a stage of \<open>connectNodes\<close>, or creating the recorder),
  control reaches the \<open>catch\<close> branch of \<open>start\<close>: the failure is logged with
  \<open>console.error\<close> and the status is set to error, not to stopped.
\<close>

theorem start_failure_ends_in_error:
  assumes "tasks e t = Some task" and "phase task = AwaitStream" and "throws f"
  shows "status (step e (StreamSettled t (Some s) f)) = Error
    \<and> console (step e (StreamSettled t (Some s) f))
        = console e @ [''Error starting audio processing:'']"
  using assms after_stream_throws [OF assms(3), of "closure task" s "e\<lparr>tasks := (tasks e)(t := None)\<rparr>"]
  by (simp add: stream_settled_def)


lemma write_band_params: "write_band n band e = e\<lparr>params := params (write_band n band e)\<rparr>"
  by (simp add: write_band_def setParam_def Let_def split: option.splits)

lemma write_bands_params: "write_bands ns bands e = e\<lparr>params := params (write_bands ns bands e)\<rparr>"
proof (induction ns bands e rule: write_bands.induct)
  case (3 n ns band bands e)
  have "write_bands ns bands (write_band n band e)
      = (e\<lparr>params := params (write_band n band e)\<rparr>)\<lparr>params := params (write_bands ns bands (write_band n band e))\<rparr>"
    using 3 write_band_params [of n band e] by metis
  then show ?case by simp
qed simp_all

lemma eff_eqBands_params: "eff_eqBands e = e\<lparr>params := params (eff_eqBands e)\<rparr>"
  unfolding eff_eqBands_def by (rule write_bands_params)


lemma halted_conns_cfg [simp]:
  "halted (e\<lparr>cfg := c\<rparr>) = halted e"
  "halted (e\<lparr>tasks := ts\<rparr>) = halted e"
  "halted (e\<lparr>next_bands := nb\<rparr>) = halted e"
  by (simp_all add: halted_def)







theorem start_failure_ends_in_error_witness:
  "tasks (run [CallStart] initial_engine) 0 = Some \<lparr>phase = AwaitStream, closure = initial_config\<rparr>
   \<and> phase \<lparr>phase = AwaitStream, closure = initial_config\<rparr> = AwaitStream
   \<and> throws (StageThrows 4)
   \<and> status (step (run [CallStart] initial_engine) (StreamSettled 0 (Some 7) (StageThrows 4))) = Error
   \<and> console (step (run [CallStart] initial_engine) (StreamSettled 0 (Some 7) (StageThrows 4)))
        = [''Error starting audio processing:'']"
proof -
  have t: "tasks (run [CallStart] initial_engine) 0
      = Some \<lparr>phase = AwaitStream, closure = initial_config\<rparr>"
    by (simp add: run_def call_start_def start_begin_def Let_def initial_engine_def
        initial_config_def)
  have p: "phase \<lparr>phase = AwaitStream, closure = initial_config\<rparr> = AwaitStream" by simp
  have f: "throws (StageThrows 4)" by (simp add: throws_def)
  have c: "console (run [CallStart] initial_engine) = []"
    by (simp add: run_def call_start_def start_begin_def Let_def initial_engine_def)
  show ?thesis
    using start_failure_ends_in_error [OF t p f, of 7] by (simp add: t f c)
qed


text \<open>
  A rebuild that fails: the engine runs, the compressor is switched on, the restart
  stops the engine and starts it again, and the fourth stage of \<open>connectNodes\<close>
  throws. The engine is left in the error state.
\<close>

theorem failed_rebuild_ends_in_error:
  "status (run [CallStart, StreamSettled 0 (Some 7) NoFault, Change (SetCompressorEnabled True),
        SettleElapsed 1, StreamSettled 1 (Some 8) (StageThrows 3)] initial_engine) = Error
   \<and> status (run [CallStart, StreamSettled 0 (Some 7) NoFault, Change (SetCompressorEnabled True),
        SettleElapsed 1, StreamSettled 1 (Some 8) (StageThrows 3)] initial_engine) \<noteq> Stopped"
proof -
  define e1 where "e1 = step initial_engine CallStart"
  define e2 where "e2 = step e1 (StreamSettled 0 (Some 7) NoFault)"
  define e3 where "e3 = step e2 (Change (SetCompressorEnabled True))"
  define e4 where "e4 = step e3 (SettleElapsed 1)"
  have t1: "tasks e1 0 = Some \<lparr>phase = AwaitStream, closure = initial_config\<rparr>"
    and a1: "audioContextRef e1 = Some 0"
    and n1: "next_task e1 = 1" and c1: "cfg e1 = initial_config"
    by (simp_all add: e1_def call_start_def Let_def initial_engine_def initial_config_def)
  have s2: "status e2 = Running" and n2: "next_task e2 = 1" and c2: "cfg e2 = initial_config"
    by (simp_all add: e2_def stream_settled_def t1 after_stream_built [of _ 0] a1 n1 c1)
  have "compressorEnabled (cfg e2) = False"
    by (simp add: c2 initial_config_def)
  then have t3: "tasks e3 1 = Some \<lparr>phase = AwaitSettle,
      closure = initial_config\<lparr>compressorEnabled := True\<rparr>\<rparr>"
    by (simp add: e3_def eff_structural_def restartAudio_running s2 n2 c2)
  have t4: "tasks e4 1 = Some \<lparr>phase = AwaitStream,
      closure = initial_config\<lparr>compressorEnabled := True\<rparr>\<rparr>"
    using t3 by (simp add: e4_def settle_elapsed_def initial_config_def)
  have "throws (StageThrows 3)" by (simp add: throws_def)
  then have "status (step e4 (StreamSettled 1 (Some 8) (StageThrows 3))) = Error"
    using after_stream_throws t4 by (simp add: stream_settled_def)
  moreover have "run [CallStart, StreamSettled 0 (Some 7) NoFault,
        Change (SetCompressorEnabled True), SettleElapsed 1,
        StreamSettled 1 (Some 8) (StageThrows 3)] initial_engine
      = step e4 (StreamSettled 1 (Some 8) (StageThrows 3))"
    by (simp add: e4_def e3_def e2_def e1_def run_def)
  ultimately show ?thesis by simp
qed





section \<open>Properties of configuration changes\<close>

lemma installation_frame [simp]:
  "installation (e\<lparr>params := p\<rparr>) = installation e"
  "installation (e\<lparr>curves := c\<rparr>) = installation e"
  "installation (e\<lparr>cfg := g\<rparr>) = installation e"
  "installation (e\<lparr>tasks := ts\<rparr>) = installation e"
  "installation (e\<lparr>next_bands := nb\<rparr>) = installation e"
  "installation (e\<lparr>noiseGateRef := ng\<rparr>) = installation e"
  by (simp_all add: installation_def)

lemma installation_setParam [simp]: "installation (setParam n p v e) = installation e"
  by (simp add: setParam_def)

lemma installation_setCurve [simp]: "installation (setCurve n c e) = installation e"
  by (simp add: setCurve_def)

lemma installation_eff_eqBands [simp]: "installation (eff_eqBands e) = installation e"
  by (subst eff_eqBands_params) simp

lemma write_band_other: "m \<noteq> n \<Longrightarrow> params (write_band n band e) (m, p) = params e (m, p)"
  by (simp add: write_band_def setParam_def Let_def split: option.splits)

lemma write_bands_other:
  "m \<notin> set ns \<Longrightarrow> params (write_bands ns bands e) (m, p) = params e (m, p)"
  by (induction ns bands e rule: write_bands.induct) (simp_all add: write_band_other)

lemma write_band_self:
  "params (write_band n band e) (n, GainValue) = Some (band_gain band)"
  "params (write_band n band e) (n, Frequency) = Some (band_freq band)"
  "band_q band = Some v \<Longrightarrow> v \<noteq> 0 \<Longrightarrow> params (write_band n band e) (n, QValue) = Some v"
  by (simp_all add: write_band_def setParam_def Let_def split: option.splits)

lemma write_bands_nth:
  assumes "distinct ns" and "length ns = length bands" and "i < length ns"
  shows "params (write_bands ns bands e) (ns ! i, GainValue) = Some (band_gain (bands ! i))"
    and "params (write_bands ns bands e) (ns ! i, Frequency) = Some (band_freq (bands ! i))"
    and "band_q (bands ! i) = Some v \<Longrightarrow> v \<noteq> 0 \<Longrightarrow>
         params (write_bands ns bands e) (ns ! i, QValue) = Some v"
  using assms
proof (induction ns bands e arbitrary: i rule: write_bands.induct)
  case (3 n ns band bands e)
  {
    case 1
    then show ?case
      using "3.IH"(1) [of "i - 1"]
      by (cases i) (simp_all add: write_bands_other write_band_self)
  next
    case 2
    then show ?case
      using "3.IH"(2) [of "i - 1"]
      by (cases i) (simp_all add: write_bands_other write_band_self)
  next
    case 3
    then show ?case
      using "3.IH"(3) [of "i - 1"]
      by (cases i) (simp_all add: write_bands_other write_band_self)
  }
qed simp_all

lemma write_bands_written:
  assumes "distinct ns" and "length ns = length bands" and "i < length ns"
  shows "band_written (write_bands ns bands e) (ns ! i) (bands ! i)"
  unfolding band_written_def
  using write_bands_nth [OF assms]
  by (auto split: option.splits)

lemma eff_eqBands_frame [simp]:
  "cfg (eff_eqBands e) = cfg e" "eqNodesRef (eff_eqBands e) = eqNodesRef e"
  "tasks (eff_eqBands e) = tasks e"
  by (subst eff_eqBands_params, simp)+

lemma write_bands_frame [simp]:
  "cfg (write_bands ns bands e) = cfg e" "eqNodesRef (write_bands ns bands e) = eqNodesRef e"
  by (subst write_bands_params, simp)+

lemma ref_live_Some: "ref_live e r \<Longrightarrow> \<exists>n. r = Some n"
  by (cases r) simp_all

lemma hot_change:
  assumes "status e = Running" and "continuous ch" and "differs ch e" and "target_live ch e"
    and "in_range ch"
  shows "written ch (apply_change ch e) \<and> installation (apply_change ch e) = installation e
    \<and> cfg (apply_change ch e) = change_cfg ch e
    \<and> tasks (apply_change ch e) = change_tasks ch e"
proof (cases ch)
  case (EqBandChange i p v)
  let ?bands = "(eqBands (cfg e))[i := set_band p v (eqBands (cfg e) ! i)]"
  let ?e0 = "e\<lparr>cfg := edit_band i p v (cfg e),
     tasks := mutate_closures (bands_id (cfg e)) i p v (tasks e)\<rparr>"
  from assms(4) EqBandChange have i: "i < length (eqBands (cfg e))"
    and l: "length (eqNodesRef e) = length ?bands" and d: "distinct (eqNodesRef e)"
    by simp_all
  from i l have il: "i < length (eqNodesRef e)" by simp
  have a: "apply_change ch e = write_bands (eqNodesRef e) ?bands ?e0"
    using EqBandChange i by (simp add: eff_eqBands_def edit_band_def)
  have b: "?bands ! i = set_band p v (eqBands (cfg e) ! i)"
    using i by simp
  have w: "written ch (apply_change ch e)"
  proof (cases p)
    case PropGain
    with EqBandChange show ?thesis
      using write_bands_nth(1) [OF d l il, of ?e0] a b
      by (simp add: set_band_def)
  next
    case PropQ
    with assms(5) EqBandChange have "v \<noteq> 0" by simp
    moreover have "band_q (?bands ! i) = Some v"
      using b PropQ by (simp add: set_band_def)
    ultimately show ?thesis
      using write_bands_nth(3) [OF d l il, of v ?e0] a EqBandChange PropQ
      by simp
  next
    case PropFreq
    with EqBandChange show ?thesis
      using write_bands_nth(2) [OF d l il, of ?e0] a b
      by (simp add: set_band_def)
  qed
  with EqBandChange i show ?thesis by simp
next
  case (PresetChange bands)
  let ?e0 = "e\<lparr>cfg := (cfg e)\<lparr>eqBands := bands, bands_id := next_bands e\<rparr>,
     next_bands := Suc (next_bands e)\<rparr>"
  from assms(4) PresetChange have l: "length (eqNodesRef e) = length bands"
    and d: "distinct (eqNodesRef e)"
    by simp_all
  have a: "apply_change ch e = write_bands (eqNodesRef e) bands ?e0"
    using PresetChange by (simp add: eff_eqBands_def)
  have "band_written (write_bands (eqNodesRef e) bands ?e0) (eqNodesRef e ! i) (bands ! i)"
    if "i < length bands" for i
    using that l by (intro write_bands_written [OF d l]) simp
  then have "written ch (apply_change ch e)"
    unfolding a using PresetChange by (simp add: list_all_iff)
  with PresetChange show ?thesis by simp
qed (use assms in \<open>auto simp: eff_gain_def eff_drive_def eff_postGain_def eff_compressor_def
      eff_delay_time_def eff_delay_feedback_def eff_panner_def eff_reverb_mix_def
      eff_noiseGate_def setParam_def
      setCurve_def installation_def dest!: ref_live_Some\<close>)

lemma structural_is_restart:
  assumes "status e = Running" and "structural ch" and "differs ch e"
  shows "apply_change ch e = restartAudio (e\<lparr>cfg := change_cfg ch e\<rparr>)"
  using assms by (cases ch) (simp_all add: eff_structural_def)

lemma structural_not_running:
  assumes "status e \<noteq> Running" and "structural ch" and "differs ch e"
  shows "apply_change ch e = e\<lparr>cfg := change_cfg ch e\<rparr>"
  using assms by (cases ch) (simp_all add: eff_structural_def restartAudio_def)

lemma structural_or_continuous: "structural ch \<longleftrightarrow> \<not> continuous ch"
  by (cases ch) simp_all


lemma built_graph_ctx:
  assumes "n \<in> nodes_of (built_graph c ctx b (Source ctx s))"
  shows "node_ctx n = ctx"
  using assms unfolding built_graph_def nodes_of_Un nodes_of_trunk
  by (auto simp: trunk_def feedback_loop_def reverb_section_def detector_branch_def
      nodes_of_insert nodes_of_empty split: if_splits)

lemma numbered_known: "numbered e \<Longrightarrow> n \<in> set (known_nodes e) \<Longrightarrow> node_ctx n < next_ctx e"
  by (auto simp: numbered_def list_all_iff)

lemma restart_completes:
  fixes s :: nat
  assumes "status e = Running"
  defines "t \<equiv> next_task e"
  defines "e1 \<equiv> restartAudio e"
  defines "e2 \<equiv> run [SettleElapsed t, SinkSettled t True, StreamSettled t (Some s) NoFault] e1"
  shows "status e1 = Stopped" and "audioContextRef e1 = None" and "gainNodeRef e1 = None"
    and "tasks e1 t = Some \<lparr>phase = AwaitSettle, closure = cfg e\<rparr>"
    and "cfg e1 = cfg e"
    and "status e2 = Running" and "audioContextRef e2 = Some (next_ctx e)"
    and "sourceNodeRef e2 = Some (Source (next_ctx e) s)"
    and "gainNodeRef e2 = Some (Node (next_ctx e) (next_build e) Gain)"
    and "driveNodeRef e2 = Some (Node (next_ctx e) (next_build e) Drive)"
    and "new_conns e1 e2 = code_edges (cfg e) (next_ctx e) (next_build e) (Source (next_ctx e) s)"
proof -
  have e1: "e1 = (stop e)\<lparr>tasks := (tasks e)(t := Some \<lparr>phase = AwaitSettle, closure = cfg e\<rparr>),
      next_task := Suc t\<rparr>"
    unfolding e1_def t_def using assms(1) by (rule restartAudio_running)
  show a: "status e1 = Stopped" "audioContextRef e1 = None" "gainNodeRef e1 = None"
    "tasks e1 t = Some \<lparr>phase = AwaitSettle, closure = cfg e\<rparr>" "cfg e1 = cfg e"
    by (simp_all add: e1)
  have nc: "next_ctx e1 = next_ctx e" and nb: "next_build e1 = next_build e"
    by (simp_all add: e1)
  define e3 where "e3 = step (step e1 (SettleElapsed t)) (SinkSettled t True)"
  have s1: "settle_elapsed t e1 = start_begin t (cfg e) e1"
    by (simp add: settle_elapsed_def a)
  have t3: "tasks e3 t = Some \<lparr>phase = AwaitStream, closure = cfg e\<rparr>"
    and a3: "audioContextRef e3 = Some (next_ctx e)" and st3: "status e3 = Stopped"
    and nb3: "next_build e3 = next_build e" and c3: "conns e3 = conns e1"
    by (simp_all add: e3_def s1 sink_settled_def a nc nb)
  have e2: "e2 = step e3 (StreamSettled t (Some s) NoFault)"
    by (simp add: e2_def e3_def run_def)
  have e2': "e2 = setStatus Running
       ((built (cfg e) (next_ctx e) (Source (next_ctx e) s)
          (e3\<lparr>tasks := (tasks e3)(t := None), mediaStreamRef := Some s,
              sourceNodeRef := Some (Source (next_ctx e) s)\<rparr>))
        \<lparr>mediaRecorderRef := Some s\<rparr>)"
    unfolding e2
    by (simp add: stream_settled_def t3 after_stream_built [of _ "next_ctx e"] a3)
  show "status e2 = Running" "audioContextRef e2 = Some (next_ctx e)"
    "sourceNodeRef e2 = Some (Source (next_ctx e) s)"
    "gainNodeRef e2 = Some (Node (next_ctx e) (next_build e) Gain)"
    "driveNodeRef e2 = Some (Node (next_ctx e) (next_build e) Drive)"
    by (simp_all add: e2' a3 nb3)
  show "new_conns e1 e2 = code_edges (cfg e) (next_ctx e) (next_build e) (Source (next_ctx e) s)"
    by (simp add: e2' new_conns_def c3 nb3)
qed


lemma numbered_iff:
  "numbered e \<longleftrightarrow>
     (\<forall>n \<in> set (known_nodes e). node_ctx n < next_ctx e) \<and>
     (\<forall>ctx. audioContextRef e = Some ctx \<longrightarrow> ctx < next_ctx e)"
  by (cases "audioContextRef e") (auto simp: numbered_def list_all_iff)

lemma set_links_subset: "(a, b) \<in> set (links xs) \<Longrightarrow> a \<in> set xs \<and> b \<in> set xs"
proof (induction xs)
  case Nil
  then show ?case by simp
next
  case (Cons x xs)
  then show ?case by (cases xs) auto
qed

lemma opt_list_set: "set (opt_list x) = (case x of None \<Rightarrow> {} | Some y \<Rightarrow> {y})"
  by (cases x) simp_all

lemma refs_ok_connect:
  "refs_ok k (connect a b e) \<longleftrightarrow> refs_ok k e \<and> node_ctx a < k \<and> node_ctx b < k"
  by (auto simp: refs_ok_def known_nodes_def connect_def)

lemma refs_ok_setParam [simp]: "refs_ok k (setParam n p v e) = refs_ok k e"
  by (simp add: refs_ok_def known_nodes_def setParam_def)

lemma refs_ok_setCurve [simp]: "refs_ok k (setCurve n c e) = refs_ok k e"
  by (simp add: refs_ok_def known_nodes_def setCurve_def)

lemma refs_ok_upd:
  "refs_ok k e \<Longrightarrow> node_ctx g < k \<Longrightarrow> refs_ok k (e\<lparr>sourceNodeRef := Some g\<rparr>)"
  "refs_ok k e \<Longrightarrow> node_ctx g < k \<Longrightarrow> refs_ok k (e\<lparr>gainNodeRef := Some g\<rparr>)"
  "refs_ok k e \<Longrightarrow> node_ctx g < k \<Longrightarrow> refs_ok k (e\<lparr>driveNodeRef := Some g\<rparr>)"
  "refs_ok k e \<Longrightarrow> node_ctx g < k \<Longrightarrow> refs_ok k (e\<lparr>analyserNodeRef := Some g\<rparr>)"
  "refs_ok k e \<Longrightarrow> node_ctx g < k \<Longrightarrow> refs_ok k (e\<lparr>postGainNodeRef := Some g\<rparr>)"
  "refs_ok k e \<Longrightarrow> node_ctx g < k \<Longrightarrow> refs_ok k (e\<lparr>compressorNodeRef := Some g\<rparr>)"
  "refs_ok k e \<Longrightarrow> node_ctx g < k \<Longrightarrow> refs_ok k (e\<lparr>delayNodeRef := Some g\<rparr>)"
  "refs_ok k e \<Longrightarrow> node_ctx g < k \<Longrightarrow> refs_ok k (e\<lparr>feedbackNodeRef := Some g\<rparr>)"
  "refs_ok k e \<Longrightarrow> node_ctx g < k \<Longrightarrow> refs_ok k (e\<lparr>pannerNodeRef := Some g\<rparr>)"
  "refs_ok k e \<Longrightarrow> node_ctx g < k \<Longrightarrow> refs_ok k (e\<lparr>noiseGateNodeRef := Some g\<rparr>)"
  "refs_ok k e \<Longrightarrow> node_ctx g < k \<Longrightarrow> refs_ok k (e\<lparr>noiseGateAnalyserNodeRef := Some g\<rparr>)"
  "refs_ok k e \<Longrightarrow> node_ctx g < k \<Longrightarrow> refs_ok k (e\<lparr>scriptProcessorNodeRef := Some g\<rparr>)"
  "refs_ok k e \<Longrightarrow> node_ctx g < k \<Longrightarrow> refs_ok k (e\<lparr>reverbNodeRef := Some g\<rparr>)"
  "refs_ok k e \<Longrightarrow> node_ctx g < k \<Longrightarrow> refs_ok k (e\<lparr>reverbWetGainRef := Some g\<rparr>)"
  "refs_ok k e \<Longrightarrow> node_ctx g < k \<Longrightarrow> refs_ok k (e\<lparr>reverbDryGainRef := Some g\<rparr>)"
  "refs_ok k e \<Longrightarrow> (\<forall>n \<in> set gs. node_ctx n < k) \<Longrightarrow> refs_ok k (e\<lparr>eqNodesRef := gs\<rparr>)"
  by (auto simp: refs_ok_def known_nodes_def)

lemma refs_ok_frame [simp]:
  "refs_ok k (e\<lparr>next_build := nb\<rparr>) = refs_ok k e"
  "refs_ok k (e\<lparr>params := p\<rparr>) = refs_ok k e"
  "refs_ok k (e\<lparr>curves := cs\<rparr>) = refs_ok k e"
  "refs_ok k (e\<lparr>ftypes := ft\<rparr>) = refs_ok k e"
  "refs_ok k (e\<lparr>cfg := cf\<rparr>) = refs_ok k e"
  "refs_ok k (e\<lparr>status := st\<rparr>) = refs_ok k e"
  "refs_ok k (e\<lparr>tasks := ts\<rparr>) = refs_ok k e"
  "refs_ok k (e\<lparr>next_task := nt\<rparr>) = refs_ok k e"
  "refs_ok k (e\<lparr>next_ctx := nc\<rparr>) = refs_ok k e"
  "refs_ok k (e\<lparr>console := cl\<rparr>) = refs_ok k e"
  "refs_ok k (e\<lparr>mediaStreamRef := ms\<rparr>) = refs_ok k e"
  "refs_ok k (e\<lparr>mediaRecorderRef := mr\<rparr>) = refs_ok k e"
  "refs_ok k (e\<lparr>audioContextRef := ac\<rparr>) = refs_ok k e"
  "refs_ok k (e\<lparr>isRecording := ir\<rparr>) = refs_ok k e"
  "refs_ok k (e\<lparr>closed := cd\<rparr>) = refs_ok k e"
  "refs_ok k (e\<lparr>ended := ed\<rparr>) = refs_ok k e"
  "refs_ok k (e\<lparr>noiseGateRef := ng\<rparr>) = refs_ok k e"
  "refs_ok k (e\<lparr>oversamples := os\<rparr>) = refs_ok k e"
  "refs_ok k (e\<lparr>next_bands := nbs\<rparr>) = refs_ok k e"
  by (simp_all add: refs_ok_def known_nodes_def)

lemma refs_ok_setOversample [simp]: "refs_ok k (setOversample n v e) = refs_ok k e"
  by (simp add: setOversample_def)

lemma stage_ok_simple:
  "stage_ok ctx k s \<Longrightarrow> stage_ok ctx k (stage_noiseGate c ctx b s)"
  "stage_ok ctx k s \<Longrightarrow> stage_ok ctx k (stage_gain c ctx b s)"
  "stage_ok ctx k s \<Longrightarrow> stage_ok ctx k (stage_drive c ctx b s)"
  "stage_ok ctx k s \<Longrightarrow> stage_ok ctx k (stage_compressor c ctx b s)"
  "stage_ok ctx k s \<Longrightarrow> stage_ok ctx k (stage_postGain c ctx b s)"
  "stage_ok ctx k s \<Longrightarrow> stage_ok ctx k (stage_delay c ctx b s)"
  "stage_ok ctx k s \<Longrightarrow> stage_ok ctx k (stage_panner c ctx b s)"
  "stage_ok ctx k s \<Longrightarrow> stage_ok ctx k (stage_reverb c ctx b s)"
  "stage_ok ctx k s \<Longrightarrow> stage_ok ctx k (stage_analyser c ctx b s)"
  by (auto simp: stage_ok_def stage_noiseGate_def stage_gain_def
      stage_drive_def stage_compressor_def stage_postGain_def stage_delay_def stage_panner_def
      stage_reverb_def stage_analyser_def Let_def split_beta refs_ok_connect
      intro!: refs_ok_upd)


lemma refs_ok_conns:
  "refs_ok k e \<Longrightarrow> (\<forall>x \<in> set es. node_ctx (fst x) < k \<and> node_ctx (snd x) < k) \<Longrightarrow>
   refs_ok k (e\<lparr>conns := ces\<rparr>)" if "ces = conns e @ es"
  unfolding that by (auto simp: refs_ok_def known_nodes_def)

lemma stage_ok_eq: "stage_ok ctx k s \<Longrightarrow> stage_ok ctx k (stage_eq c ctx b s)"
proof -
  assume a: "stage_ok ctx k s"
  obtain e l where s: "s = (e, l)" by (cases s)
  let ?fs = "map (\<lambda>i. Node ctx b (Eq i)) [0..<length (eqBands c)]"
  have n: "node_ctx x < k" if "x \<in> set (l # ?fs)" for x
    using a s that by (auto simp: stage_ok_def)
  have "last (l # ?fs) \<in> set (l # ?fs)"
    by (rule last_in_set) simp
  then have la: "node_ctx (last (l # ?fs)) < k" by (rule n)
  have li: "node_ctx x < k \<and> node_ctx y < k" if "(x, y) \<in> set (links (l # ?fs))" for x y
    using set_links_subset [OF that] n by blast
  have r: "refs_ok k (e\<lparr>eqNodesRef := ?fs\<rparr>)"
    using a s by (intro refs_ok_upd) (auto simp: stage_ok_def)
  have "refs_ok k (e\<lparr>eqNodesRef := ?fs, conns := conns e @ links (l # ?fs)\<rparr>)"
    using li by (intro refs_ok_conns [OF _ r, where es = "links (l # ?fs)"]) auto
  with a s la show ?thesis
    by (simp add: stage_ok_def stage_eq_def Let_def make_filters_normal connect_chain_normal
        refs_ok_def known_nodes_def del: last.simps links_simps)
qed

lemma stage_ok_stages:
  "f \<in> set (stages c ctx b) \<Longrightarrow> stage_ok ctx k s \<Longrightarrow> stage_ok ctx k (f s)"
  by (auto simp: stages_def stage_ok_simple stage_ok_eq)

lemma stage_ok_fold:
  "(\<And>f s. f \<in> set fs \<Longrightarrow> stage_ok ctx k s \<Longrightarrow> stage_ok ctx k (f s)) \<Longrightarrow>
   stage_ok ctx k s \<Longrightarrow> stage_ok ctx k (fold (\<lambda>stage s. stage s) fs s)"
  by (induction fs arbitrary: s) simp_all

lemma refs_ok_connectNodes:
  assumes "refs_ok k e" and "audioContextRef e = Some ctx" and "ctx < k"
  shows "refs_ok k (snd (connectNodes c th e))"
proof (cases "sourceNodeRef e")
  case None
  with assms show ?thesis by (simp add: connectNodes_def)
next
  case (Some src)
  then have "src \<in> set (known_nodes e)" by (simp add: known_nodes_def)
  with assms(1) have "node_ctx src < k" by (simp add: refs_ok_def)
  with assms have ok: "stage_ok ctx k (e\<lparr>next_build := Suc (next_build e)\<rparr>, src)"
    by (simp add: stage_ok_def)
  have "stage_ok ctx k (fold (\<lambda>stage s. stage s) (take j (stages c ctx (next_build e)))
      (e\<lparr>next_build := Suc (next_build e)\<rparr>, src))" for j
    by (rule stage_ok_fold [OF _ ok]) (auto dest: in_set_takeD intro: stage_ok_stages)
  moreover have "stage_ok ctx k (fold (\<lambda>stage s. stage s) (stages c ctx (next_build e))
      (e\<lparr>next_build := Suc (next_build e)\<rparr>, src))"
    by (rule stage_ok_fold [OF _ ok]) (auto intro: stage_ok_stages)
  ultimately show ?thesis
    using assms(2) Some by (simp add: connectNodes_def Let_def stage_ok_def split: option.splits)
qed

lemma numbered_alt:
  "numbered e \<longleftrightarrow>
     refs_ok (next_ctx e) e \<and> (\<forall>ctx. audioContextRef e = Some ctx \<longrightarrow> ctx < next_ctx e)"
  by (simp add: numbered_iff refs_ok_def)

lemma frame_next_ctx: "frame a = frame b \<Longrightarrow> next_ctx a = next_ctx b"
  by (simp add: frame_def)

lemma numbered_connectNodes:
  assumes "numbered e"
  shows "numbered (snd (connectNodes c th e))"
proof (cases "audioContextRef e")
  case None
  with assms show ?thesis by (simp add: connectNodes_def)
next
  case (Some ctx)
  from frame_connectNodes [of c th e]
  have f: "next_ctx (snd (connectNodes c th e)) = next_ctx e"
    "audioContextRef (snd (connectNodes c th e)) = audioContextRef e"
    by (simp_all add: frame_def)
  from assms Some show ?thesis
    by (simp add: numbered_alt f refs_ok_connectNodes)
qed


lemma refs_ok_mono: "refs_ok k e \<Longrightarrow> k \<le> k' \<Longrightarrow> refs_ok k' e"
  by (auto simp: refs_ok_def)

lemma stop_refs [simp]:
  "eqNodesRef (stop e) = eqNodesRef e"
  "postGainNodeRef (stop e) = postGainNodeRef e"
  "compressorNodeRef (stop e) = compressorNodeRef e"
  "delayNodeRef (stop e) = delayNodeRef e"
  "feedbackNodeRef (stop e) = feedbackNodeRef e"
  "pannerNodeRef (stop e) = pannerNodeRef e"
  "noiseGateNodeRef (stop e) = noiseGateNodeRef e"
  "noiseGateAnalyserNodeRef (stop e) = noiseGateAnalyserNodeRef e"
  "reverbNodeRef (stop e) = reverbNodeRef e"
  "reverbWetGainRef (stop e) = reverbWetGainRef e"
  "reverbDryGainRef (stop e) = reverbDryGainRef e"
  "conns (stop e) =
     (case scriptProcessorNodeRef e of
        Some sp \<Rightarrow> filter (\<lambda>(a, b). a \<noteq> sp) (conns e)
      | None \<Rightarrow> conns e)"
  by (simp_all add: stop_def Let_def split: option.splits)

lemma known_nodes_stop: "set (known_nodes (stop e)) \<subseteq> set (known_nodes e)"
  unfolding known_nodes_def by (cases "scriptProcessorNodeRef e") auto

lemma refs_ok_stop: "refs_ok k e \<Longrightarrow> refs_ok k (stop e)"
  using known_nodes_stop [of e] by (auto simp: refs_ok_def)

lemma numbered_stop: "numbered e \<Longrightarrow> numbered (stop e)"
  by (simp add: numbered_alt refs_ok_stop)

lemma numbered_catch_start [simp]: "numbered (catch_start e) = numbered e"
  by (simp add: numbered_alt catch_start_def)

lemma numbered_start_begin: "numbered e \<Longrightarrow> numbered (start_begin t c e)"
  by (auto simp: numbered_alt start_begin_def Let_def intro: refs_ok_mono)

lemma numbered_frame [simp]:
  "numbered (e\<lparr>tasks := ts\<rparr>) = numbered e"
  "numbered (e\<lparr>next_task := nt\<rparr>) = numbered e"
  "numbered (e\<lparr>cfg := cf\<rparr>) = numbered e"
  "numbered (e\<lparr>params := p\<rparr>) = numbered e"
  "numbered (e\<lparr>curves := cs\<rparr>) = numbered e"
  "numbered (e\<lparr>status := st\<rparr>) = numbered e"
  "numbered (e\<lparr>mediaStreamRef := ms\<rparr>) = numbered e"
  "numbered (e\<lparr>mediaRecorderRef := mr\<rparr>) = numbered e"
  "numbered (e\<lparr>noiseGateRef := ng\<rparr>) = numbered e"
  "numbered (e\<lparr>next_bands := nbs\<rparr>) = numbered e"
  by (simp_all add: numbered_alt)

lemma numbered_setParam [simp]: "numbered (setParam n p v e) = numbered e"
  by (simp add: setParam_def)

lemma numbered_setCurve [simp]: "numbered (setCurve n c e) = numbered e"
  by (simp add: setCurve_def)

lemma numbered_setStatus [simp]: "numbered (setStatus st e) = numbered e"
  by (simp add: setStatus_def eff_gain_def eff_drive_def split: option.splits)

lemma numbered_after_stream: "numbered e \<Longrightarrow> numbered (after_stream c s f e)"
proof (cases "audioContextRef e")
  case None
  assume "numbered e"
  with None show ?thesis by (simp add: after_stream_def)
next
  case (Some ctx)
  assume a: "numbered e"
  then have "numbered (e\<lparr>mediaStreamRef := Some s, sourceNodeRef := Some (Source ctx s)\<rparr>)"
    using Some by (auto simp: numbered_alt intro!: refs_ok_upd)
  then have "numbered (snd (connectNodes c th
      (e\<lparr>mediaStreamRef := Some s, sourceNodeRef := Some (Source ctx s)\<rparr>)))" for th
    by (rule numbered_connectNodes)
  with a Some show ?thesis
    by (simp add: after_stream_def Let_def)
qed

lemma numbered_eff_eqBands [simp]: "numbered (eff_eqBands e) = numbered e"
  by (subst eff_eqBands_params) simp

lemma numbered_restartAudio: "numbered e \<Longrightarrow> numbered (restartAudio e)"
  by (simp add: restartAudio_def Let_def numbered_stop)

lemma numbered_apply_change: "numbered e \<Longrightarrow> numbered (apply_change ch e)"
  by (cases ch)
    (auto simp: eff_gain_def eff_drive_def eff_postGain_def eff_compressor_def
      eff_delay_time_def eff_delay_feedback_def eff_panner_def eff_reverb_mix_def
      eff_noiseGate_def eff_structural_def numbered_restartAudio split: option.splits)

lemma numbered_initial: "numbered initial_engine"
  by (simp add: numbered_def known_nodes_def initial_engine_def)

lemma numbered_step: "numbered e \<Longrightarrow> numbered (step e ev)"
  by (cases ev)
    (auto simp: call_start_def handleStartStop_def settle_elapsed_def sink_settled_def
      stream_settled_def Let_def numbered_stop numbered_start_begin numbered_after_stream
      numbered_apply_change split: option.splits)

lemma numbered_run: "numbered e \<Longrightarrow> numbered (run evs e)"
  unfolding run_def by (induction evs arbitrary: e) (simp_all add: numbered_step)


lemma structural_change:
  assumes "status e = Running" and "structural ch" and "differs ch e"
  shows "status (apply_change ch e) = Stopped"
    and "audioContextRef (apply_change ch e) = None"
    and "tasks (apply_change ch e) (next_task e)
          = Some \<lparr>phase = AwaitSettle, closure = change_cfg ch e\<rparr>"
    and "status (restarted ch s e) = Running"
    and "audioContextRef (restarted ch s e) = Some (next_ctx e)"
    and "gainNodeRef (restarted ch s e) = Some (Node (next_ctx e) (next_build e) Gain)"
    and "set (new_conns (apply_change ch e) (restarted ch s e))
          = built_graph (change_cfg ch e) (next_ctx e) (next_build e) (Source (next_ctx e) s)"
proof -
  let ?e = "e\<lparr>cfg := change_cfg ch e\<rparr>"
  have a: "apply_change ch e = restartAudio ?e"
    using assms by (rule structural_is_restart)
  have r: "status ?e = Running" using assms(1) by simp
  have f: "next_task ?e = next_task e" "next_ctx ?e = next_ctx e" "next_build ?e = next_build e"
    "cfg ?e = change_cfg ch e"
    by simp_all
  note rc = restart_completes [OF r, unfolded f]
  show "status (apply_change ch e) = Stopped" "audioContextRef (apply_change ch e) = None"
    "tasks (apply_change ch e) (next_task e)
      = Some \<lparr>phase = AwaitSettle, closure = change_cfg ch e\<rparr>"
    "status (restarted ch s e) = Running"
    "audioContextRef (restarted ch s e) = Some (next_ctx e)"
    "gainNodeRef (restarted ch s e) = Some (Node (next_ctx e) (next_build e) Gain)"
    unfolding restarted_def a by (rule rc)+
  show "set (new_conns (apply_change ch e) (restarted ch s e))
      = built_graph (change_cfg ch e) (next_ctx e) (next_build e) (Source (next_ctx e) s)"
    unfolding restarted_def a rc(11) by (rule code_edges_set)
qed

lemma new_graph_fresh:
  assumes "numbered e" and "n \<in> nodes_of (built_graph c (next_ctx e) b (Source (next_ctx e) s))"
  shows "n \<notin> set (known_nodes e)"
proof
  assume "n \<in> set (known_nodes e)"
  with assms(1) have "node_ctx n < next_ctx e" by (rule numbered_known)
  moreover from assms(2) have "node_ctx n = next_ctx e" by (rule built_graph_ctx)
  ultimately show False by simp
qed


text \<open>
  Claim C7, as the code has it. A change that stores a new value is of exactly one
  class, structural (a stage switched on or off, a device selected, the latency
  changed) or continuous (gain, drive, a band's gain, frequency or quality factor, a
  preset, post gain, compressor settings, delay time, feedback, pan, noise gate
  settings, reverb mix).

  On a running engine a structural change stops the engine and schedules a restart with
  the new configuration; when the restart runs to its end the engine is running again
  on a new context, with the graph of the new configuration, and no node of that graph
  was known before the change. On an engine that is not running (stopped, failed, or
  with a start pending) a structural change only stores the configuration: no restart
  is scheduled.

  On a running engine a continuous change whose node is live (held by its ref, of the
  open context in \<open>audioContextRef\<close>, and connected) is written into the parameter of
  that node, and the installation (context, stream, every node ref, connections, closed
  contexts, ended streams, counters, status) is what it was: no rebuild, same node. The
  suspended tasks are what they were, but that a band edited in place is edited in
  their closures too.
\<close>

theorem change_classification:
  assumes "differs ch e"
  shows "(structural ch \<longleftrightarrow> \<not> continuous ch)
    \<and> (structural ch \<and> status e = Running \<longrightarrow>
            status (apply_change ch e) = Stopped
          \<and> audioContextRef (apply_change ch e) = None
          \<and> tasks (apply_change ch e) (next_task e)
              = Some \<lparr>phase = AwaitSettle, closure = change_cfg ch e\<rparr>
          \<and> status (restarted ch s e) = Running
          \<and> audioContextRef (restarted ch s e) = Some (next_ctx e)
          \<and> gainNodeRef (restarted ch s e) = Some (Node (next_ctx e) (next_build e) Gain)
          \<and> set (new_conns (apply_change ch e) (restarted ch s e))
              = built_graph (change_cfg ch e) (next_ctx e) (next_build e)
                  (Source (next_ctx e) s)
          \<and> (numbered e \<longrightarrow>
               (\<forall>n \<in> nodes_of (built_graph (change_cfg ch e) (next_ctx e) (next_build e)
                         (Source (next_ctx e) s)).
                  n \<notin> set (known_nodes e))))
    \<and> (structural ch \<and> status e \<noteq> Running \<longrightarrow>
            apply_change ch e = e\<lparr>cfg := change_cfg ch e\<rparr>)
    \<and> (continuous ch \<and> status e = Running \<and> target_live ch e \<and> in_range ch \<longrightarrow>
            written ch (apply_change ch e)
          \<and> installation (apply_change ch e) = installation e
          \<and> cfg (apply_change ch e) = change_cfg ch e
          \<and> tasks (apply_change ch e) = change_tasks ch e)"
  using structural_change [OF _ _ assms] hot_change [OF _ _ assms]
    structural_not_running [OF _ _ assms] new_graph_fresh [of e]
    structural_or_continuous [of ch]
  by blast

lemma example_running_facts:
  "status example_running = Running"
  "cfg example_running = initial_config\<lparr>compressorEnabled := True\<rparr>"
  "next_task example_running = 1"
  "next_ctx example_running = 1"
  "next_build example_running = 1"
  "compressorNodeRef example_running = Some (Node 0 0 Compressor)"
  "audioContextRef example_running = Some 0"
  "closed example_running = []"
  "set (conns example_running)
     = built_graph (initial_config\<lparr>compressorEnabled := True\<rparr>) 0 0 (Source 0 7)"
proof -
  define e0 where "e0 = initial_engine\<lparr>cfg := initial_config\<lparr>compressorEnabled := True\<rparr>\<rparr>"
  define e1 where "e1 = call_start e0"
  have t1: "tasks e1 0 = Some \<lparr>phase = AwaitStream, closure = initial_config\<lparr>compressorEnabled := True\<rparr>\<rparr>"
    and a1: "audioContextRef e1 = Some 0" and s1: "status e1 = Stopped"
    and n1: "next_task e1 = 1" and c1: "cfg e1 = initial_config\<lparr>compressorEnabled := True\<rparr>"
    and x1: "next_ctx e1 = 1" and b1: "next_build e1 = 0"
    and d1: "closed e1 = []" and k1: "conns e1 = []"
    by (simp_all add: e1_def e0_def call_start_def start_begin_def Let_def initial_engine_def
        initial_config_def)
  have e: "example_running = setStatus Running
       ((built (initial_config\<lparr>compressorEnabled := True\<rparr>) 0 (Source 0 7)
          (e1\<lparr>tasks := (tasks e1)(0 := None), mediaStreamRef := Some 7,
              sourceNodeRef := Some (Source 0 7)\<rparr>))
        \<lparr>mediaRecorderRef := Some 7\<rparr>)"
    unfolding example_running_def
    by (simp add: run_def e1_def [symmetric] e0_def [symmetric] stream_settled_def t1
        after_stream_built [of _ 0] a1)
  show "status example_running = Running"
    "cfg example_running = initial_config\<lparr>compressorEnabled := True\<rparr>"
    "next_task example_running = 1" "next_ctx example_running = 1"
    "next_build example_running = 1" "audioContextRef example_running = Some 0"
    by (simp_all add: e n1 c1 x1 b1 a1)
  have "closed (setStatus Running x) = closed x" for x
    by (simp add: setStatus_def eff_gain_def eff_drive_def setParam_def setCurve_def
        split: option.splits)
  then show "closed example_running = []"
    by (simp add: e built_def Let_def d1)
  have "compressorNodeRef (setStatus Running x) = compressorNodeRef x" for x
    by (simp add: setStatus_def eff_gain_def eff_drive_def setParam_def setCurve_def
        split: option.splits)
  then show "compressorNodeRef example_running = Some (Node 0 0 Compressor)"
    by (simp add: e built_def Let_def b1 initial_config_def)
  have "conns (setStatus Running x) = conns x" for x
    by (simp add: setStatus_def eff_gain_def eff_drive_def setParam_def setCurve_def
        split: option.splits)
  then have "conns example_running
      = code_edges (initial_config\<lparr>compressorEnabled := True\<rparr>) 0 0 (Source 0 7)"
    by (simp add: e built_def Let_def b1 k1)
  then show "set (conns example_running)
     = built_graph (initial_config\<lparr>compressorEnabled := True\<rparr>) 0 0 (Source 0 7)"
    by (simp only: code_edges_set)
qed

lemma example_running_numbered: "numbered example_running"
  unfolding example_running_def
  by (rule numbered_run) (simp add: numbered_def known_nodes_def initial_engine_def)

theorem change_classification_witness:
  "differs (SetCompressorEnabled False) example_running
   \<and> structural (SetCompressorEnabled False)
   \<and> status example_running = Running
   \<and> status (apply_change (SetCompressorEnabled False) example_running) = Stopped
   \<and> status (restarted (SetCompressorEnabled False) 8 example_running) = Running
   \<and> gainNodeRef (restarted (SetCompressorEnabled False) 8 example_running)
       = Some (Node 1 1 Gain)
   \<and> numbered example_running
   \<and> Node 1 1 Gain \<notin> set (known_nodes example_running)
   \<and> differs (SetCompressor \<lparr>threshold = - 24, knee = 30, ratio = 4, attack = 3 / 1000,
        release = 1 / 4\<rparr>) example_running
   \<and> continuous (SetCompressor \<lparr>threshold = - 24, knee = 30, ratio = 4, attack = 3 / 1000,
        release = 1 / 4\<rparr>)
   \<and> target_live (SetCompressor \<lparr>threshold = - 24, knee = 30, ratio = 4, attack = 3 / 1000,
        release = 1 / 4\<rparr>) example_running
   \<and> params (apply_change (SetCompressor \<lparr>threshold = - 24, knee = 30, ratio = 4,
        attack = 3 / 1000, release = 1 / 4\<rparr>) example_running) (Node 0 0 Compressor, Ratio)
       = Some 4
   \<and> installation (apply_change (SetCompressor \<lparr>threshold = - 24, knee = 30, ratio = 4,
        attack = 3 / 1000, release = 1 / 4\<rparr>) example_running) = installation example_running
   \<and> differs (SetDelayEnabled True) initial_engine
   \<and> structural (SetDelayEnabled True)
   \<and> status initial_engine \<noteq> Running
   \<and> apply_change (SetDelayEnabled True) initial_engine
       = initial_engine\<lparr>cfg := initial_config\<lparr>delayEnabled := True\<rparr>\<rparr>"
proof -
  note f = example_running_facts
  have d1: "differs (SetCompressorEnabled False) example_running"
    by (simp add: f)
  have d2: "differs (SetCompressor \<lparr>threshold = - 24, knee = 30, ratio = 4, attack = 3 / 1000,
        release = 1 / 4\<rparr>) example_running"
    by simp
  have d3: "differs (SetDelayEnabled True) initial_engine"
    and s3: "status initial_engine \<noteq> Running"
    and c3: "change_cfg (SetDelayEnabled True) initial_engine
      = initial_config\<lparr>delayEnabled := True\<rparr>"
    by (simp_all add: initial_engine_def initial_config_def)
  have g: "Node 1 1 Gain \<in> nodes_of (built_graph
      (change_cfg (SetCompressorEnabled False) example_running) 1 1 (Source 1 8))"
    by (simp add: built_graph_nodes role_present_def)
  have l: "target_live (SetCompressor \<lparr>threshold = - 24, knee = 30, ratio = 4,
        attack = 3 / 1000, release = 1 / 4\<rparr>) example_running"
    by (simp add: f live_def built_graph_nodes role_present_def)
  have r: "compressorNodeRef (apply_change (SetCompressor \<lparr>threshold = - 24, knee = 30,
        ratio = 4, attack = 3 / 1000, release = 1 / 4\<rparr>) example_running)
      = Some (Node 0 0 Compressor)"
    by (simp add: eff_compressor_def f setParam_def)
  have s1: "structural (SetCompressorEnabled False)"
    and s2: "continuous (SetCompressor \<lparr>threshold = - 24, knee = 30, ratio = 4,
        attack = 3 / 1000, release = 1 / 4\<rparr>)"
    and i2: "in_range (SetCompressor \<lparr>threshold = - 24, knee = 30, ratio = 4,
        attack = 3 / 1000, release = 1 / 4\<rparr>)"
    and st3: "structural (SetDelayEnabled True)"
    by simp_all
  from change_classification [OF d1, of 8] s1 f(1) example_running_numbered
  have p1: "status (apply_change (SetCompressorEnabled False) example_running) = Stopped"
    "status (restarted (SetCompressorEnabled False) 8 example_running) = Running"
    "gainNodeRef (restarted (SetCompressorEnabled False) 8 example_running)
       = Some (Node (next_ctx example_running) (next_build example_running) Gain)"
    "\<forall>n \<in> nodes_of (built_graph (change_cfg (SetCompressorEnabled False) example_running)
        (next_ctx example_running) (next_build example_running)
        (Source (next_ctx example_running) 8)). n \<notin> set (known_nodes example_running)"
    by blast+
  from p1(4) g have p1': "Node 1 1 Gain \<notin> set (known_nodes example_running)"
    unfolding f by blast
  from change_classification [OF d2, of 0] s2 i2 l f(1)
  have p2: "written (SetCompressor \<lparr>threshold = - 24, knee = 30, ratio = 4,
        attack = 3 / 1000, release = 1 / 4\<rparr>)
      (apply_change (SetCompressor \<lparr>threshold = - 24, knee = 30, ratio = 4,
        attack = 3 / 1000, release = 1 / 4\<rparr>) example_running)"
    "installation (apply_change (SetCompressor \<lparr>threshold = - 24, knee = 30, ratio = 4,
        attack = 3 / 1000, release = 1 / 4\<rparr>) example_running) = installation example_running"
    by blast+
  from p2(1) have p2': "params (apply_change (SetCompressor \<lparr>threshold = - 24, knee = 30,
        ratio = 4, attack = 3 / 1000, release = 1 / 4\<rparr>) example_running)
        (Node 0 0 Compressor, Ratio) = Some 4"
    unfolding written.simps r by simp
  from change_classification [OF d3, of 0] st3 s3
  have "apply_change (SetDelayEnabled True) initial_engine
      = initial_engine\<lparr>cfg := change_cfg (SetDelayEnabled True) initial_engine\<rparr>"
    by blast
  then have p3: "apply_change (SetDelayEnabled True) initial_engine
      = initial_engine\<lparr>cfg := initial_config\<lparr>delayEnabled := True\<rparr>\<rparr>"
    unfolding c3 .
  from d1 s1 f(1) p1(1,2) p1(3) [unfolded f] example_running_numbered p1' d2 s2 l p2' p2(2)
    d3 st3 s3 p3
  show ?thesis by blast
qed

text \<open>
  The claim says that every enabling of a stage triggers a rebuild. The compressor is
  switched on while the first start waits for its stream: nothing is stopped and no
  restart is scheduled, the change only stores the flag. The start then completes with
  the configuration it was called with: the engine is running, no task is left, the
  configuration has the compressor switched on, and the graph has no compressor.
\<close>

theorem toggle_while_starting_not_rebuilt:
  "apply_change (SetCompressorEnabled True) (call_start initial_engine)
     = (call_start initial_engine)\<lparr>cfg := initial_config\<lparr>compressorEnabled := True\<rparr>\<rparr>
   \<and> status toggled_while_starting = Running
   \<and> compressorEnabled (cfg toggled_while_starting)
   \<and> tasks toggled_while_starting = (\<lambda>t. None)
   \<and> set (conns toggled_while_starting) = built_graph initial_config 0 0 (Source 0 7)
   \<and> Node 0 0 Compressor \<notin> nodes_of (set (conns toggled_while_starting))"
proof -
  define e1 where "e1 = call_start initial_engine"
  have t1: "tasks e1 = (\<lambda>t. None)(0 := Some \<lparr>phase = AwaitStream, closure = initial_config\<rparr>)"
    and a1: "audioContextRef e1 = Some 0" and s1: "status e1 = Stopped"
    and c1: "cfg e1 = initial_config"
    and b1: "next_build e1 = 0" and k1: "conns e1 = []"
    by (simp_all add: e1_def call_start_def start_begin_def Let_def initial_engine_def
        initial_config_def)
  have ch: "apply_change (SetCompressorEnabled True) e1
      = e1\<lparr>cfg := initial_config\<lparr>compressorEnabled := True\<rparr>\<rparr>"
    by (simp add: eff_structural_def s1 c1 initial_config_def)
  have e: "toggled_while_starting = setStatus Running
       ((built initial_config 0 (Source 0 7)
          (e1\<lparr>cfg := initial_config\<lparr>compressorEnabled := True\<rparr>,
              tasks := (\<lambda>t. None), mediaStreamRef := Some 7,
              sourceNodeRef := Some (Source 0 7)\<rparr>))
        \<lparr>mediaRecorderRef := Some 7\<rparr>)"
  proof -
    have "toggled_while_starting
        = stream_settled 0 (Some 7) NoFault (apply_change (SetCompressorEnabled True) e1)"
      unfolding toggled_while_starting_def
      by (simp add: run_def e1_def del: apply_change.simps)
    then show ?thesis
      unfolding ch by (simp add: stream_settled_def t1 after_stream_built [of _ 0] a1)
  qed
  have fr: "conns (setStatus Running x) = conns x" "tasks (setStatus Running x) = tasks x"
    "cfg (setStatus Running x) = cfg x" for x
    by (simp_all add: setStatus_def eff_gain_def eff_drive_def setParam_def setCurve_def
        split: option.splits)
  have "conns toggled_while_starting = code_edges initial_config 0 0 (Source 0 7)"
    by (simp add: e fr built_def Let_def b1 k1)
  then have g: "set (conns toggled_while_starting) = built_graph initial_config 0 0 (Source 0 7)"
    by (simp only: code_edges_set)
  have "Node 0 0 Compressor \<notin> nodes_of (built_graph initial_config 0 0 (Source 0 7))"
    by (simp add: built_graph_nodes role_present_def initial_config_def)
  moreover have "status toggled_while_starting = Running"
    "compressorEnabled (cfg toggled_while_starting)"
    "tasks toggled_while_starting = (\<lambda>t. None)"
    by (simp_all add: e fr s1)
  ultimately show ?thesis using g ch unfolding e1_def by simp
qed

section \<open>Properties of the signal through the graph\<close>

lemma drive_sample_clean: "drive_sample 0 i = grid_x i / 3"
  by (simp add: drive_sample_def shape_def Let_def)

lemma interpolate_clean:
  assumes "0 \<le> v" and "v < 255"
  shows "(1 - (v - real (nat \<lfloor>v\<rfloor>))) * makeCurve 0 ! nat \<lfloor>v\<rfloor>
      + (v - real (nat \<lfloor>v\<rfloor>)) * makeCurve 0 ! (nat \<lfloor>v\<rfloor> + 1) = (2 * v / 256 - 1) / 3"
proof -
  define k where "k = nat \<lfloor>v\<rfloor>"
  have k: "k < 255"
    using assms by (simp add: k_def nat_less_iff floor_less_iff)
  then have "(1 - (v - real k)) * makeCurve 0 ! k + (v - real k) * makeCurve 0 ! (k + 1)
      = (2 * v / 256 - 1) / 3"
    by (simp add: makeCurve_nth drive_sample_clean grid_x_def field_simps)
  then show ?thesis by (simp only: k_def)
qed

lemma waveshaper_clean:
  "waveshaper (makeCurve 0) y = (255 * max (- 1) (min 1 y) - 1) / 768"
proof -
  define v where "v = (real (256::nat) - 1) / 2 * (y + 1)"
  have len: "length (makeCurve 0) = 256" by (rule makeCurve_length)
  have w: "waveshaper (makeCurve 0) y =
      (if v < 0 then makeCurve 0 ! 0
       else if v \<ge> real (256::nat) - 1 then makeCurve 0 ! (256 - 1)
       else (1 - (v - real (nat \<lfloor>v\<rfloor>))) * makeCurve 0 ! nat \<lfloor>v\<rfloor>
          + (v - real (nat \<lfloor>v\<rfloor>)) * makeCurve 0 ! (nat \<lfloor>v\<rfloor> + 1))"
    unfolding waveshaper_def Let_def len v_def ..
  have vy: "v = 255 / 2 * (y + 1)" by (simp add: v_def)
  consider "v < 0" | "v \<ge> 255" | "0 \<le> v" "v < 255" by linarith
  then show ?thesis
  proof cases
    case 1
    then have "y < - 1" by (simp add: vy)
    with 1 show ?thesis
      by (simp add: w makeCurve_nth drive_sample_clean grid_x_def)
  next
    case 2
    then have "y \<ge> 1" by (simp add: vy)
    with 2 show ?thesis
      by (simp add: w makeCurve_nth drive_sample_clean grid_x_def)
  next
    case 3
    then have y: "- 1 \<le> y" "y < 1" by (simp_all add: vy)
    have "(255 * max (- 1) (min 1 y) - 1) / 768 = (2 * v / 256 - 1) / 3"
      using y by (simp add: vy)
    with 3 interpolate_clean [OF 3] show ?thesis
      by (simp add: w)
  qed
qed


lemma upt_5: "[0..<5] = [0, 1, 2, 3, Suc 3]"
  by (simp add: upt_rec)

lemma clean_edges:
  "code_edges clean_config ctx b src =
     [(src, Node ctx b Gain), (Node ctx b Gain, Node ctx b Drive),
      (Node ctx b Drive, Node ctx b (Eq 0)), (Node ctx b (Eq 0), Node ctx b (Eq 1)),
      (Node ctx b (Eq 1), Node ctx b (Eq 2)), (Node ctx b (Eq 2), Node ctx b (Eq 3)),
      (Node ctx b (Eq 3), Node ctx b (Eq 4)), (Node ctx b (Eq 4), Node ctx b PostGain),
      (Node ctx b PostGain, Node ctx b Panner), (Node ctx b Panner, Node ctx b FinalMixer),
      (Node ctx b FinalMixer, Node ctx b Analyser), (Node ctx b FinalMixer, Destination ctx)]"
  by (simp add: code_edges_def clean_config_def initial_config_def initialEqBands_def Let_def
      upt_5)

lemma clean_params:
  "built_params clean_config ctx b p (Node ctx b Gain, GainValue) = Some 2"
  "built_params clean_config ctx b p (Node ctx b (Eq 0), GainValue) = Some 0"
  "built_params clean_config ctx b p (Node ctx b (Eq (Suc 0)), GainValue) = Some 0"
  "built_params clean_config ctx b p (Node ctx b (Eq 2), GainValue) = Some 0"
  "built_params clean_config ctx b p (Node ctx b (Eq 3), GainValue) = Some 0"
  "built_params clean_config ctx b p (Node ctx b (Eq 4), GainValue) = Some 0"
  "built_params clean_config ctx b p (Node ctx b PostGain, GainValue) = Some 1"
  "built_params clean_config ctx b p (Node ctx b Panner, Pan) = Some 0"
  "built_params clean_config ctx b p (Node ctx b FinalMixer, GainValue)
     = p (Node ctx b FinalMixer, GainValue)"
  by (simp_all add: built_params_def clean_config_def initial_config_def initialEqBands_def
      Let_def band_params_def)

lemma single_input:
  assumes "known n = None" and "inputs_of g n = [m]" and "\<And>ctx s. n \<noteq> Source ctx s"
  shows "audio_out e os g known (Suc k) x n =
     (case audio_out e os g known k x m of None \<Rightarrow> None | Some a \<Rightarrow> node_audio e os n a)"
  using assms by (cases n) (auto simp: sum_inputs_def split: option.splits)

lemma scale_one [simp]: "scale 1 x = x"
  by (simp add: scale_def)

lemma map_audio_scale_one [simp]: "map_audio (scale 1) a = a"
  by (cases a) simp_all

lemma map_audio_id [simp]: "map_audio (\<lambda>x. x) a = a"
  by (cases a) simp_all

lemma map_audio_comp: "map_audio f (map_audio g a) = map_audio (\<lambda>x. f (g x)) a"
  by (cases a) simp_all

lemma stereo_pan_centre:
  "stereo_pan 0 (Stereo l r) = Stereo l r"
  "stereo_pan 0 (Mono x) = Stereo (scale (sqrt 2 / 2) x) (scale (sqrt 2 / 2) x)"
  by (simp_all add: scale_def cos_45 sin_45)

lemma clean_chain:
  assumes "audioContextRef e = Some ctx" and "sourceNodeRef e = Some (Source ctx s)"
    and "params e (Node ctx (next_build e) FinalMixer, GainValue) = None"
  shows "audio_out (snd (connectNodes clean_config None e)) os
           (new_conns e (snd (connectNodes clean_config None e))) (\<lambda>n. None) (12 + k) a
           (Destination ctx)
         = Some (stereo_pan 0
             (map_audio (\<lambda>x. os 4 (\<lambda>y. (255 * max (- 1) (min 1 y) - 1) / 768) (\<lambda>t. 2 * x t)) a))"
proof -
  let ?b = "next_build e"
  let ?e = "built clean_config ctx (Source ctx s) e"
  let ?g = "code_edges clean_config ctx ?b (Source ctx s)"
  let ?d = "map_audio (\<lambda>x. os 4 (\<lambda>y. (255 * max (- 1) (min 1 y) - 1) / 768) (\<lambda>t. 2 * x t)) a"
  let ?out = "audio_out ?e os ?g (\<lambda>n. None)"
  have c: "connectNodes clean_config None e = (False, ?e)"
    using assms(1,2) by (rule connectNodes_built)
  have g: "new_conns e ?e = ?g"
    by (simp add: new_conns_def)
  have p: "params ?e = built_params clean_config ctx ?b (params e)"
    and cv: "curves ?e (Node ctx ?b Drive) = Some (makeCurve 0)"
    and ov: "oversamples ?e (Node ctx ?b Drive) = Some Oversample4x"
    by (simp_all add: built_def Let_def clean_config_def initial_config_def)
  have ws: "waveshaper (makeCurve 0) = (\<lambda>y. (255 * max (- 1) (min 1 y) - 1) / 768)"
    by (rule ext) (rule waveshaper_clean)
  note ns = node_audio_def gain_of_def pan_of_def p clean_params cv ov assms(3)
  have i: "inputs_of ?g (Node ctx ?b Gain) = [Source ctx s]"
    "inputs_of ?g (Node ctx ?b Drive) = [Node ctx ?b Gain]"
    "inputs_of ?g (Node ctx ?b (Eq 0)) = [Node ctx ?b Drive]"
    "inputs_of ?g (Node ctx ?b (Eq (Suc 0))) = [Node ctx ?b (Eq 0)]"
    "inputs_of ?g (Node ctx ?b (Eq 2)) = [Node ctx ?b (Eq (Suc 0))]"
    "inputs_of ?g (Node ctx ?b (Eq 3)) = [Node ctx ?b (Eq 2)]"
    "inputs_of ?g (Node ctx ?b (Eq 4)) = [Node ctx ?b (Eq 3)]"
    "inputs_of ?g (Node ctx ?b PostGain) = [Node ctx ?b (Eq 4)]"
    "inputs_of ?g (Node ctx ?b Panner) = [Node ctx ?b PostGain]"
    "inputs_of ?g (Node ctx ?b FinalMixer) = [Node ctx ?b Panner]"
    "inputs_of ?g (Destination ctx) = [Node ctx ?b FinalMixer]"
    by (simp_all add: clean_edges inputs_of_def)
  have "?out (Suc k) a (Source ctx s) = Some a" by simp
  then have "?out (Suc (Suc k)) a (Node ctx ?b Gain) = Some (map_audio (scale 2) a)"
    by (simp add: single_input [OF _ i(1)] ns del: audio_out.simps)
  then have "?out (Suc (Suc (Suc k))) a (Node ctx ?b Drive) = Some ?d"
    by (simp add: single_input [OF _ i(2)] ns shaped_def ws map_audio_comp scale_def
        del: audio_out.simps)
  then have "?out (Suc (Suc (Suc (Suc k)))) a (Node ctx ?b (Eq 0)) = Some ?d"
    by (simp add: single_input [OF _ i(3)] ns del: audio_out.simps)
  then have "?out (Suc (Suc (Suc (Suc (Suc k))))) a (Node ctx ?b (Eq (Suc 0))) = Some ?d"
    by (simp add: single_input [OF _ i(4)] ns del: audio_out.simps)
  then have "?out (Suc (Suc (Suc (Suc (Suc (Suc k)))))) a (Node ctx ?b (Eq 2)) = Some ?d"
    by (simp add: single_input [OF _ i(5)] ns del: audio_out.simps)
  then have "?out (Suc (Suc (Suc (Suc (Suc (Suc (Suc k))))))) a (Node ctx ?b (Eq 3)) = Some ?d"
    by (simp add: single_input [OF _ i(6)] ns del: audio_out.simps)
  then have "?out (Suc (Suc (Suc (Suc (Suc (Suc (Suc (Suc k)))))))) a (Node ctx ?b (Eq 4))
      = Some ?d"
    by (simp add: single_input [OF _ i(7)] ns del: audio_out.simps)
  then have "?out (Suc (Suc (Suc (Suc (Suc (Suc (Suc (Suc (Suc k))))))))) a
      (Node ctx ?b PostGain) = Some ?d"
    by (simp add: single_input [OF _ i(8)] ns del: audio_out.simps)
  then have "?out (Suc (Suc (Suc (Suc (Suc (Suc (Suc (Suc (Suc (Suc k)))))))))) a
      (Node ctx ?b Panner) = Some (stereo_pan 0 ?d)"
    by (simp add: single_input [OF _ i(9)] ns del: audio_out.simps stereo_pan.simps)
  then have "?out (Suc (Suc (Suc (Suc (Suc (Suc (Suc (Suc (Suc (Suc (Suc k))))))))))) a
      (Node ctx ?b FinalMixer) = Some (stereo_pan 0 ?d)"
    by (simp add: single_input [OF _ i(10)] ns del: audio_out.simps stereo_pan.simps)
  then have "?out (Suc (Suc (Suc (Suc (Suc (Suc (Suc (Suc (Suc (Suc (Suc (Suc k)))))))))))) a
      (Destination ctx) = Some (stereo_pan 0 ?d)"
    by (simp add: single_input [OF _ i(11)] ns del: audio_out.simps stereo_pan.simps)
  moreover have "12 + k = Suc (Suc (Suc (Suc (Suc (Suc (Suc (Suc (Suc (Suc (Suc (Suc k)))))))))))"
    by simp
  ultimately show ?thesis
    unfolding c snd_conv g by (simp only:)
qed

lemma armed_facts:
  "audioContextRef (armed 0 0 initial_engine) = Some 0"
  "sourceNodeRef (armed 0 0 initial_engine) = Some (Source 0 0)"
  "params (armed 0 0 initial_engine) (Node 0 (next_build (armed 0 0 initial_engine)) FinalMixer,
     GainValue) = None"
  by (simp_all add: armed_def initial_engine_def)

lemma sqrt2_half: "sqrt 2 / 2 * (127 / 384) < (1 / 2 :: real)"
proof -
  have "sqrt 2 < 2"
    by (rule real_less_lsqrt) (simp_all add: power2_eq_square)
  then show ?thesis by simp
qed


text \<open>
  Claim C1, as the code has it. For the configuration with gain 2, drive 0, flat EQ, unit
  post gain and no optional stage, on a context whose final mixer is newly created, and
  for every oversampler of the platform, the destination receives stereo audio, each
  channel the 4x oversampled drive curve applied to twice the input channel. The drive
  curve at drive 0 is the line \<open>y / 3\<close> sampled on its 256-point grid, not the
  identity: it maps \<open>y\<close> to \<open>(255 * clamp(y) - 1) / 768\<close>, where \<open>clamp\<close> limits to
  \<open>[-1, 1]\<close>. The filters at 0 dB, the unit post gain and the final mixer pass the audio
  on; the centred panner passes a stereo input on and puts a mono input on both
  channels with the gain \<open>cos (pi / 4) = sqrt 2 / 2\<close>. Where the oversampler passes a
  constant channel through the curve, a constant input \<open>v\<close> gives the constant output
  \<open>(255 * clamp(2v) - 1) / 768\<close> on both channels, times \<open>sqrt 2 / 2\<close> for a mono input.
  Any bound of at least 12 on the path length gives these values.
\<close>

theorem clean_chain_output:
  assumes "audioContextRef e = Some ctx" and "sourceNodeRef e = Some (Source ctx s)"
    and "params e (Node ctx (next_build e) FinalMixer, GainValue) = None"
  shows "let D = (\<lambda>x. os 4 (\<lambda>y. (255 * max (- 1) (min 1 y) - 1) / 768) (\<lambda>t. 2 * x t));
             C = (255 * max (- 1) (min 1 (2 * v)) - 1) / 768;
             out = (\<lambda>a. audio_out (snd (connectNodes clean_config None e)) os
                      (new_conns e (snd (connectNodes clean_config None e))) (\<lambda>n. None) (12 + k) a
                      (Destination ctx))
         in out (Stereo l r) = Some (Stereo (D l) (D r))
          \<and> out (Mono x) = Some (Stereo (scale (sqrt 2 / 2) (D x)) (scale (sqrt 2 / 2) (D x)))
          \<and> ((\<forall>f u. os 4 f (\<lambda>t. u) = (\<lambda>t. f u)) \<longrightarrow>
                out (Stereo (\<lambda>t. v) (\<lambda>t. v)) = Some (Stereo (\<lambda>t. C) (\<lambda>t. C))
              \<and> out (Mono (\<lambda>t. v))
                  = Some (Stereo (\<lambda>t. sqrt 2 / 2 * C) (\<lambda>t. sqrt 2 / 2 * C)))"
proof -
  note c = clean_chain [OF assms, of os k]
  have "(\<forall>f u. os 4 f (\<lambda>t. u) = (\<lambda>t. f u)) \<Longrightarrow>
      os 4 (\<lambda>y. (255 * max (- 1) (min 1 y) - 1) / 768) (\<lambda>t. 2 * v)
        = (\<lambda>t. (255 * max (- 1) (min 1 (2 * v)) - 1) / 768)"
    by simp
  then show ?thesis
    unfolding Let_def c
    by (simp add: stereo_pan_centre scale_def del: stereo_pan.simps)
qed

theorem clean_chain_output_witness:
  "audioContextRef (armed 0 0 initial_engine) = Some 0
   \<and> sourceNodeRef (armed 0 0 initial_engine) = Some (Source 0 0)
   \<and> params (armed 0 0 initial_engine)
        (Node 0 (next_build (armed 0 0 initial_engine)) FinalMixer, GainValue) = None
   \<and> (\<forall>f u. pointwise 4 f (\<lambda>t. u) = (\<lambda>t. f u))
   \<and> audio_out (snd (connectNodes clean_config None (armed 0 0 initial_engine))) pointwise
        (new_conns (armed 0 0 initial_engine)
          (snd (connectNodes clean_config None (armed 0 0 initial_engine))))
        (\<lambda>n. None) (12 + 0) (Stereo (\<lambda>t. 1 / 4) (\<lambda>t. 1 / 4)) (Destination 0)
       = Some (Stereo (\<lambda>t. 253 / 1536) (\<lambda>t. 253 / 1536))
   \<and> audio_out (snd (connectNodes clean_config None (armed 0 0 initial_engine))) pointwise
        (new_conns (armed 0 0 initial_engine)
          (snd (connectNodes clean_config None (armed 0 0 initial_engine))))
        (\<lambda>n. None) (12 + 0) (Mono (\<lambda>t. 1 / 4)) (Destination 0)
       = Some (Stereo (\<lambda>t. sqrt 2 / 2 * (253 / 1536)) (\<lambda>t. sqrt 2 / 2 * (253 / 1536)))"
proof -
  have p: "\<forall>f u. pointwise 4 f (\<lambda>t. u) = (\<lambda>t. f u)"
    by (simp add: pointwise_def)
  from clean_chain_output [OF armed_facts, of pointwise "1 / 4" 0, unfolded Let_def] p
  have "audio_out (snd (connectNodes clean_config None (armed 0 0 initial_engine))) pointwise
        (new_conns (armed 0 0 initial_engine)
          (snd (connectNodes clean_config None (armed 0 0 initial_engine))))
        (\<lambda>n. None) (12 + 0) (Stereo (\<lambda>t. 1 / 4) (\<lambda>t. 1 / 4)) (Destination 0)
       = Some (Stereo (\<lambda>t. (255 * max (- 1) (min 1 (2 * (1 / 4))) - 1) / 768)
            (\<lambda>t. (255 * max (- 1) (min 1 (2 * (1 / 4))) - 1) / 768))"
    and "audio_out (snd (connectNodes clean_config None (armed 0 0 initial_engine))) pointwise
        (new_conns (armed 0 0 initial_engine)
          (snd (connectNodes clean_config None (armed 0 0 initial_engine))))
        (\<lambda>n. None) (12 + 0) (Mono (\<lambda>t. 1 / 4)) (Destination 0)
       = Some (Stereo (\<lambda>t. sqrt 2 / 2 * ((255 * max (- 1) (min 1 (2 * (1 / 4))) - 1) / 768))
            (\<lambda>t. sqrt 2 / 2 * ((255 * max (- 1) (min 1 (2 * (1 / 4))) - 1) / 768)))"
    by blast+
  moreover have "(255 * max (- 1) (min 1 (2 * (1 / 4))) - 1) / 768 = (253 / 1536 :: real)"
    by simp
  ultimately show ?thesis
    using armed_facts p by (simp only: simp_thms)
qed

text \<open>
  The claim as stated asks for twice the input. With the oversampler that leaves no
  trace, for the constant input \<open>1/2\<close> the destination receives the constant \<open>127/384\<close>,
  about a third, on both channels when the input is stereo, and \<open>127/384\<close> times
  \<open>sqrt 2 / 2\<close> when it is mono, where the claim says 1; for silence it receives the
  constant \<open>- 1/768\<close>, where the claim says silence.
\<close>

theorem clean_chain_not_doubling:
  "audio_out (snd (connectNodes clean_config None (armed 0 0 initial_engine))) pointwise
     (new_conns (armed 0 0 initial_engine)
       (snd (connectNodes clean_config None (armed 0 0 initial_engine))))
     (\<lambda>n. None) 12 (Stereo (\<lambda>t. 1 / 2) (\<lambda>t. 1 / 2)) (Destination 0)
     = Some (Stereo (\<lambda>t. 127 / 384) (\<lambda>t. 127 / 384))
   \<and> audio_out (snd (connectNodes clean_config None (armed 0 0 initial_engine))) pointwise
     (new_conns (armed 0 0 initial_engine)
       (snd (connectNodes clean_config None (armed 0 0 initial_engine))))
     (\<lambda>n. None) 12 (Mono (\<lambda>t. 1 / 2)) (Destination 0)
     = Some (Stereo (\<lambda>t. sqrt 2 / 2 * (127 / 384)) (\<lambda>t. sqrt 2 / 2 * (127 / 384)))
   \<and> audio_out (snd (connectNodes clean_config None (armed 0 0 initial_engine))) pointwise
     (new_conns (armed 0 0 initial_engine)
       (snd (connectNodes clean_config None (armed 0 0 initial_engine))))
     (\<lambda>n. None) 12 (Stereo (\<lambda>t. 0) (\<lambda>t. 0)) (Destination 0)
     = Some (Stereo (\<lambda>t. - 1 / 768) (\<lambda>t. - 1 / 768))
   \<and> \<not> \<bar>127 / 384 - 2 * (1 / 2)\<bar> \<le> (1 / 2 :: real)
   \<and> \<not> \<bar>sqrt 2 / 2 * (127 / 384) - 2 * (1 / 2)\<bar> \<le> (1 / 2 :: real)
   \<and> \<not> \<bar>- 1 / 768 - 2 * 0\<bar> \<le> (1 / 1000 :: real)"
proof -
  have "\<not> \<bar>sqrt 2 / 2 * (127 / 384) - 2 * (1 / 2)\<bar> \<le> (1 / 2 :: real)"
    using sqrt2_half by simp
  then show ?thesis
    using clean_chain [OF armed_facts, of pointwise 0 "Stereo (\<lambda>t. 1 / 2) (\<lambda>t. 1 / 2)"]
      clean_chain [OF armed_facts, of pointwise 0 "Mono (\<lambda>t. 1 / 2)"]
      clean_chain [OF armed_facts, of pointwise 0 "Stereo (\<lambda>t. 0) (\<lambda>t. 0)"]
    by (simp add: stereo_pan_centre pointwise_def scale_def del: stereo_pan.simps)
qed


lemma links_no_target: "n \<notin> set xs \<Longrightarrow> filter (\<lambda>(a, b). b = n) (links xs) = []"
proof (induction xs)
  case Nil
  then show ?case by simp
next
  case (Cons x xs)
  then show ?case by (cases xs) auto
qed

lemma inputs_of_reverb:
  fixes c :: config and ctx b s :: nat
  defines "g \<equiv> code_edges c ctx b (Source ctx s)"
  shows "inputs_of g (Node ctx b FinalMixer) =
           (if reverbEnabled c then [Node ctx b ReverbDry, Node ctx b ReverbWet]
            else [Node ctx b Panner])"
    and "reverbEnabled c \<Longrightarrow> inputs_of g (Node ctx b ReverbDry) = [Node ctx b Panner]"
    and "reverbEnabled c \<Longrightarrow> inputs_of g (Node ctx b ReverbWet) = [Node ctx b Reverb]"
    and "inputs_of g (Node ctx b Panner)
           = [Node ctx b (if delayEnabled c then Delay else PostGain)]"
    and "inputs_of g (Destination ctx) =
           (if noiseGateEnabled c then [Node ctx b ScriptProcessor, Node ctx b FinalMixer]
            else [Node ctx b FinalMixer])"
    and "noiseGateEnabled c \<Longrightarrow>
         inputs_of g (Node ctx b ScriptProcessor) = [Node ctx b NoiseGateAnalyser]"
    and "noiseGateEnabled c \<Longrightarrow> inputs_of g (Node ctx b NoiseGateAnalyser) = [Source ctx s]"
proof -
  let ?eqs = "map (\<lambda>i. Node ctx b (Eq i)) [0..<length (eqBands c)]"
  have l: "filter (\<lambda>(a, b'). b' = Node ctx b r) (links (l3 # ?eqs)) = []"
    if "l3 \<noteq> Node ctx b r" and "\<And>i. r \<noteq> Eq i" for l3 r
    by (rule links_no_target) (use that in auto)
  have d: "filter (\<lambda>(a, b'). b' = Destination ctx) (links (Node ctx b r # ?eqs)) = []" for r
    by (rule links_no_target) auto
  show "inputs_of g (Node ctx b FinalMixer) =
           (if reverbEnabled c then [Node ctx b ReverbDry, Node ctx b ReverbWet]
            else [Node ctx b Panner])"
    "reverbEnabled c \<Longrightarrow> inputs_of g (Node ctx b ReverbDry) = [Node ctx b Panner]"
    "reverbEnabled c \<Longrightarrow> inputs_of g (Node ctx b ReverbWet) = [Node ctx b Reverb]"
    "inputs_of g (Node ctx b Panner)
           = [Node ctx b (if delayEnabled c then Delay else PostGain)]"
    "inputs_of g (Destination ctx) =
           (if noiseGateEnabled c then [Node ctx b ScriptProcessor, Node ctx b FinalMixer]
            else [Node ctx b FinalMixer])"
    "noiseGateEnabled c \<Longrightarrow>
         inputs_of g (Node ctx b ScriptProcessor) = [Node ctx b NoiseGateAnalyser]"
    "noiseGateEnabled c \<Longrightarrow> inputs_of g (Node ctx b NoiseGateAnalyser) = [Source ctx s]"
    unfolding g_def inputs_of_def code_edges_def Let_def
    by (simp_all add: l d del: links_simps last.simps)
qed

lemma add_silence [simp]: "add_audio (Mono (\<lambda>t. 0)) a = a"
  by (cases a) simp_all

lemma stereo_pan_stereo: "\<exists>l r. stereo_pan p a = Stereo l r"
  by (cases a) simp_all

lemma mix_zero:
  "add_audio (map_audio (scale 1) (stereo_pan p q)) (map_audio (scale 0) w) = stereo_pan p q"
proof -
  obtain l r where "stereo_pan p q = Stereo l r"
    using stereo_pan_stereo by blast
  then show ?thesis by (cases w) (simp_all add: scale_def)
qed

text \<open>
  The output at the destination of a graph of \<open>connectNodes\<close>, for the audio \<open>q\<close>
  before the panner and \<open>w\<close> after the convolver, in any state of the parameters
  that leaves the final mixer at unit gain.
\<close>

lemma reverb_graph_out:
  fixes c :: config and ctx b s :: nat and q w :: audio and E :: engine
  assumes "gain_of E (Node ctx b FinalMixer) = 1"
  defines "g \<equiv> code_edges c ctx b (Source ctx s)"
  defines "K \<equiv> reverb_known c ctx b q w"
  defines "P \<equiv> stereo_pan (pan_of E (Node ctx b Panner)) q"
  shows "audio_out E os g K (5 + k) x (Destination ctx) =
     Some (if reverbEnabled c then
             add_audio (map_audio (scale (gain_of E (Node ctx b ReverbDry))) P)
               (map_audio (scale (gain_of E (Node ctx b ReverbWet))) w)
           else P)"
proof -
  note i = inputs_of_reverb [of c ctx b s, folded g_def]
  let ?l6 = "Node ctx b (if delayEnabled c then Delay else PostGain)"
  let ?M = "if reverbEnabled c then
             add_audio (map_audio (scale (gain_of E (Node ctx b ReverbDry))) P)
               (map_audio (scale (gain_of E (Node ctx b ReverbWet))) w)
           else P"
  have kn: "K ?l6 = Some q" "K (Node ctx b Reverb) = Some w" "K (Node ctx b Panner) = None"
    "K (Node ctx b ReverbDry) = None" "K (Node ctx b ReverbWet) = None"
    "K (Node ctx b FinalMixer) = None" "K (Destination ctx) = None"
    "K (Node ctx b ScriptProcessor) = None" "K (Node ctx b NoiseGateAnalyser) = None"
    "K (Source ctx s) = None"
    by (simp_all add: K_def reverb_known_def)
  have q: "audio_out E os g K (Suc j) x ?l6 = Some q" for j
    using kn(1) by simp
  have w: "audio_out E os g K (Suc j) x (Node ctx b Reverb) = Some w" for j
    using kn(2) by simp
  have p: "audio_out E os g K (Suc (Suc j)) x (Node ctx b Panner) = Some P" for j
    by (simp add: single_input [where known = K, OF kn(3) i(4)] q node_audio_def P_def
        del: audio_out.simps stereo_pan.simps)
  have m: "audio_out E os g K (Suc (Suc (Suc (Suc j)))) x (Node ctx b FinalMixer) = Some ?M"
    for j
  proof (cases "reverbEnabled c")
    case True
    have dry: "audio_out E os g K (Suc (Suc (Suc j))) x (Node ctx b ReverbDry)
        = Some (map_audio (scale (gain_of E (Node ctx b ReverbDry))) P)"
      by (simp add: single_input [where known = K, OF kn(4) i(2) [OF True]] p node_audio_def
          del: audio_out.simps)
    have wet: "audio_out E os g K (Suc (Suc (Suc j))) x (Node ctx b ReverbWet)
        = Some (map_audio (scale (gain_of E (Node ctx b ReverbWet))) w)"
      by (simp add: single_input [where known = K, OF kn(5) i(3) [OF True]] w node_audio_def
          del: audio_out.simps)
    have "audio_out E os g K (Suc (Suc (Suc (Suc j)))) x (Node ctx b FinalMixer)
        = (case sum_inputs (map (audio_out E os g K (Suc (Suc (Suc j))) x)
              (inputs_of g (Node ctx b FinalMixer))) of
             None \<Rightarrow> None | Some a \<Rightarrow> node_audio E os (Node ctx b FinalMixer) a)"
      using kn(6) by simp
    also have "\<dots> = Some ?M"
      unfolding i(1) using True
      by (simp add: dry wet sum_inputs_def node_audio_def assms(1) del: audio_out.simps)
    finally show ?thesis .
  next
    case False
    then have "inputs_of g (Node ctx b FinalMixer) = [Node ctx b Panner]"
      by (simp add: i(1))
    from single_input [where known = K, OF kn(6) this] False show ?thesis
      by (simp add: p node_audio_def assms(1) del: audio_out.simps)
  qed
  have f: "5 + k = Suc (Suc (Suc (Suc (Suc k))))" by simp
  show ?thesis
  proof (cases "noiseGateEnabled c")
    case False
    then have "inputs_of g (Destination ctx) = [Node ctx b FinalMixer]"
      by (simp add: i(5))
    from single_input [where known = K, OF kn(7) this] show ?thesis
      unfolding f by (simp add: m node_audio_def del: audio_out.simps)
  next
    case True
    have src: "audio_out E os g K (Suc j) x (Source ctx s) = Some x" for j
      using kn(10) by simp
    have nga: "audio_out E os g K (Suc (Suc j)) x (Node ctx b NoiseGateAnalyser) = Some x" for j
      by (simp add: single_input [where known = K, OF kn(9) i(7) [OF True]] src node_audio_def
          del: audio_out.simps)
    have sp: "audio_out E os g K (Suc (Suc (Suc j))) x (Node ctx b ScriptProcessor)
        = Some (Mono (\<lambda>t. 0))" for j
      by (simp add: single_input [where known = K, OF kn(8) i(6) [OF True]] nga node_audio_def
          del: audio_out.simps)
    have "audio_out E os g K (Suc (Suc (Suc (Suc (Suc k))))) x (Destination ctx)
        = (case sum_inputs (map (audio_out E os g K (Suc (Suc (Suc (Suc k)))) x)
              (inputs_of g (Destination ctx))) of
             None \<Rightarrow> None | Some a \<Rightarrow> node_audio E os (Destination ctx) a)"
      using kn(7) by simp
    also have "\<dots> = Some ?M"
      unfolding i(5) using True
      by (simp add: sp m sum_inputs_def node_audio_def del: audio_out.simps)
    finally show ?thesis unfolding f .
  qed
qed


lemma built_reverb_params:
  assumes "reverbEnabled c"
  shows "built_params c ctx b p (Node ctx b ReverbDry, GainValue) = Some (1 - reverb c)"
    and "built_params c ctx b p (Node ctx b ReverbWet, GainValue) = Some (reverb c)"
  using assms by (simp_all add: built_params_def Let_def)

lemma filt_params_other:
  "(\<And>j. n \<noteq> Node ctx b (Eq j)) \<Longrightarrow> filt_params ctx b i bands p (n, q) = p (n, q)"
  by (induction bands arbitrary: i p) (simp_all add: band_params_other)

lemma built_mixer_param:
  "built_params c ctx b p (Node ctx b FinalMixer, GainValue) = p (Node ctx b FinalMixer, GainValue)"
  by (simp add: built_params_def Let_def filt_params_other)

lemma built_pan_param:
  "built_params c ctx b p (Node ctx b Panner, Pan) = Some (panner c)"
  by (simp add: built_params_def Let_def)

lemma reverb_known_flag [simp]:
  "reverb_known (c\<lparr>reverbEnabled := f\<rparr>) ctx b q w = reverb_known c ctx b q w"
  by (simp add: reverb_known_def)

text \<open>The state after \<open>connectNodes\<close>, where the reverb stage is concerned.\<close>

lemma built_reverb_state:
  fixes c :: config
  assumes "audioContextRef e = Some ctx" and "sourceNodeRef e = Some (Source ctx s)"
    and "params e (Node ctx (next_build e) FinalMixer, GainValue) = None"
  defines "b \<equiv> next_build e"
  defines "e' \<equiv> snd (connectNodes c None e)"
  shows "new_conns e e' = code_edges c ctx b (Source ctx s)"
    and "conns e' = conns e @ code_edges c ctx b (Source ctx s)"
    and "gain_of e' (Node ctx b FinalMixer) = 1"
    and "pan_of e' (Node ctx b Panner) = max (- 1) (min 1 (panner c))"
    and "cfg e' = cfg e"
    and "reverbEnabled c \<Longrightarrow> gain_of e' (Node ctx b ReverbDry) = 1 - reverb c"
    and "reverbEnabled c \<Longrightarrow> gain_of e' (Node ctx b ReverbWet) = reverb c"
    and "reverbEnabled c \<Longrightarrow> reverbDryGainRef e' = Some (Node ctx b ReverbDry)"
    and "reverbEnabled c \<Longrightarrow> reverbWetGainRef e' = Some (Node ctx b ReverbWet)"
proof -
  have e': "e' = built c ctx (Source ctx s) e"
    unfolding e'_def using assms(1,2) by (simp add: connectNodes_built)
  have p: "params e' = built_params c ctx b (params e)"
    by (simp add: e' built_def Let_def b_def)
  show "new_conns e e' = code_edges c ctx b (Source ctx s)"
    "conns e' = conns e @ code_edges c ctx b (Source ctx s)"
    "cfg e' = cfg e"
    by (simp_all add: new_conns_def e' b_def built_def Let_def)
  show "gain_of e' (Node ctx b FinalMixer) = 1"
    using assms(3) by (simp add: gain_of_def p built_mixer_param b_def)
  show "pan_of e' (Node ctx b Panner) = max (- 1) (min 1 (panner c))"
    by (simp add: pan_of_def p built_pan_param)
  show "gain_of e' (Node ctx b ReverbDry) = 1 - reverb c"
    "gain_of e' (Node ctx b ReverbWet) = reverb c"
    "reverbDryGainRef e' = Some (Node ctx b ReverbDry)"
    "reverbWetGainRef e' = Some (Node ctx b ReverbWet)" if "reverbEnabled c"
    using that by (simp_all add: gain_of_def p built_reverb_params e' built_def Let_def b_def)
qed

text \<open>The hot update of the mix on a state whose refs hold the two gain nodes.\<close>

lemma eff_reverb_mix_state:
  fixes v :: real
  assumes "reverbDryGainRef E = Some dry" and "reverbWetGainRef E = Some wet" and "dry \<noteq> wet"
  defines "E' \<equiv> eff_reverb_mix (E\<lparr>cfg := (cfg E)\<lparr>reverb := v\<rparr>\<rparr>)"
  shows "gain_of E' dry = 1 - v" and "gain_of E' wet = v"
    and "n \<noteq> dry \<Longrightarrow> n \<noteq> wet \<Longrightarrow> gain_of E' n = gain_of E n"
    and "n \<noteq> dry \<Longrightarrow> n \<noteq> wet \<Longrightarrow> pan_of E' n = pan_of E n"
    and "conns E' = conns E"
    and "reverbDryGainRef E' = Some dry" and "reverbWetGainRef E' = Some wet"
    and "v \<noteq> reverb (cfg E) \<Longrightarrow> apply_change (SetReverbMix v) E = E'"
  using assms(1-3)
  by (simp_all add: E'_def eff_reverb_mix_def gain_of_def pan_of_def setParam_def)

text \<open>
  Claim C6. In the graph built with the reverb on, the dry gain is \<open>1 - mix\<close>, the wet gain
  is \<open>mix\<close>, and the two gain nodes are the inputs of the one final mixer; for the
  audio \<open>q\<close> that feeds the panner and the audio \<open>w\<close> of the convolver, the destination
  receives the panner's output times \<open>1 - mix\<close> plus \<open>w\<close> times \<open>mix\<close>. In the graph
  built with the reverb off the destination receives the panner's output. The hot
  update of the mix to \<open>v\<close> (the effect on \<open>reverb.mix\<close>, which is what a change of the
  mix to a new value runs) writes \<open>1 - v\<close> and \<open>v\<close> into the same two gain nodes and
  leaves the connections alone, so that the destination receives the panner's output
  times \<open>1 - v\<close> plus \<open>w\<close> times \<open>v\<close>. For a mix of 0, built or written by the hot update,
  the output is that of the graph built with the reverb off, whatever the audio.
\<close>

theorem reverb_dry_wet_mix:
  fixes c :: config
  assumes "audioContextRef e = Some ctx" and "sourceNodeRef e = Some (Source ctx s)"
    and "params e (Node ctx (next_build e) FinalMixer, GainValue) = None"
  shows "let b = next_build e;
             on = snd (connectNodes (c\<lparr>reverbEnabled := True\<rparr>) None e);
             off = snd (connectNodes (c\<lparr>reverbEnabled := False\<rparr>) None e);
             hot = eff_reverb_mix (on\<lparr>cfg := (cfg on)\<lparr>reverb := v\<rparr>\<rparr>);
             P = stereo_pan (max (- 1) (min 1 (panner c))) q;
             out = (\<lambda>E. audio_out E os (new_conns e E) (reverb_known c ctx b q w) (5 + k) x
                      (Destination ctx))
         in gain_of on (Node ctx b ReverbDry) = 1 - reverb c
          \<and> gain_of on (Node ctx b ReverbWet) = reverb c
          \<and> inputs_of (new_conns e on) (Node ctx b FinalMixer)
              = [Node ctx b ReverbDry, Node ctx b ReverbWet]
          \<and> out on = Some (add_audio (map_audio (scale (1 - reverb c)) P)
                             (map_audio (scale (reverb c)) w))
          \<and> out off = Some P
          \<and> (reverb c = 0 \<longrightarrow> out on = out off)
          \<and> (v \<noteq> reverb (cfg e) \<longrightarrow> apply_change (SetReverbMix v) on = hot)
          \<and> gain_of hot (Node ctx b ReverbDry) = 1 - v
          \<and> gain_of hot (Node ctx b ReverbWet) = v
          \<and> new_conns e hot = new_conns e on
          \<and> out hot = Some (add_audio (map_audio (scale (1 - v)) P) (map_audio (scale v) w))
          \<and> (v = 0 \<longrightarrow> out hot = out off)"
proof -
  define b where "b = next_build e"
  define on where "on = snd (connectNodes (c\<lparr>reverbEnabled := True\<rparr>) None e)"
  define off where "off = snd (connectNodes (c\<lparr>reverbEnabled := False\<rparr>) None e)"
  define hot where "hot = eff_reverb_mix (on\<lparr>cfg := (cfg on)\<lparr>reverb := v\<rparr>\<rparr>)"
  define P where "P = stereo_pan (max (- 1) (min 1 (panner c))) q"
  define K where "K = reverb_known c ctx b q w"
  let ?dry = "Node ctx b ReverbDry" and ?wet = "Node ctx b ReverbWet"
  note son = built_reverb_state [OF assms, of "c\<lparr>reverbEnabled := True\<rparr>",
      folded b_def on_def, simplified]
  note soff = built_reverb_state [OF assms, of "c\<lparr>reverbEnabled := False\<rparr>",
      folded b_def off_def, simplified]
  have ne: "?dry \<noteq> ?wet" by simp
  note sh = eff_reverb_mix_state [OF son(8,9) ne, where v = v, folded hot_def]
  have gh: "gain_of hot (Node ctx b FinalMixer) = 1"
    "pan_of hot (Node ctx b Panner) = max (- 1) (min 1 (panner c))"
    by (simp_all add: sh(3,4) son)
  have ch: "new_conns e hot = new_conns e on"
    by (simp add: new_conns_def sh(5))
  have o_on: "audio_out on os (new_conns e on) K (5 + k) x (Destination ctx)
      = Some (add_audio (map_audio (scale (1 - reverb c)) P) (map_audio (scale (reverb c)) w))"
    using reverb_graph_out [where E = on and ctx = ctx and b = b
        and c = "c\<lparr>reverbEnabled := True\<rparr>" and os = os and s = s and q = q and w = w
        and k = k and x = x, OF son(3)]
    by (simp add: son K_def P_def del: stereo_pan.simps)
  have o_off: "audio_out off os (new_conns e off) K (5 + k) x (Destination ctx) = Some P"
    using reverb_graph_out [where E = off and ctx = ctx and b = b
        and c = "c\<lparr>reverbEnabled := False\<rparr>" and os = os and s = s and q = q and w = w
        and k = k and x = x, OF soff(3)]
    by (simp add: soff K_def P_def del: stereo_pan.simps)
  have o_hot: "audio_out hot os (new_conns e hot) K (5 + k) x (Destination ctx)
      = Some (add_audio (map_audio (scale (1 - v)) P) (map_audio (scale v) w))"
    using reverb_graph_out [where E = hot and ctx = ctx and b = b
        and c = "c\<lparr>reverbEnabled := True\<rparr>" and os = os and s = s and q = q and w = w
        and k = k and x = x, OF gh(1)]
    by (simp add: ch son(1) gh(2) sh(1,2) K_def P_def del: stereo_pan.simps)
  have i: "inputs_of (new_conns e on) (Node ctx b FinalMixer) = [?dry, ?wet]"
    by (simp add: son(1) inputs_of_reverb)
  have z: "add_audio (map_audio (scale 1) P) (map_audio (scale 0) w) = P"
    unfolding P_def by (rule mix_zero)
  have "reverb c = 0 \<longrightarrow>
      audio_out on os (new_conns e on) K (5 + k) x (Destination ctx)
      = audio_out off os (new_conns e off) K (5 + k) x (Destination ctx)"
    by (simp add: o_on o_off z del: map_audio_scale_one)
  moreover have "v = 0 \<longrightarrow>
      audio_out hot os (new_conns e hot) K (5 + k) x (Destination ctx)
      = audio_out off os (new_conns e off) K (5 + k) x (Destination ctx)"
    by (simp add: o_hot o_off z del: map_audio_scale_one)
  moreover have "v \<noteq> reverb (cfg e) \<longrightarrow> apply_change (SetReverbMix v) on = hot"
    using sh(8) by (simp add: son(5))
  ultimately show ?thesis
    unfolding Let_def b_def [symmetric] on_def [symmetric] off_def [symmetric]
      hot_def [symmetric] P_def [symmetric] K_def [symmetric]
    using son(6,7) i o_on o_off sh(1,2) ch o_hot by blast
qed


theorem reverb_dry_wet_mix_witness:
  "audioContextRef (armed 0 0 initial_engine) = Some 0
   \<and> sourceNodeRef (armed 0 0 initial_engine) = Some (Source 0 0)
   \<and> params (armed 0 0 initial_engine)
        (Node 0 (next_build (armed 0 0 initial_engine)) FinalMixer, GainValue) = None
   \<and> (0::real) \<noteq> reverb (cfg (armed 0 0 initial_engine))
   \<and> gain_of (apply_change (SetReverbMix 0)
        (snd (connectNodes (initial_config\<lparr>reverbEnabled := True\<rparr>) None
          (armed 0 0 initial_engine)))) (Node 0 0 ReverbDry) = 1
   \<and> gain_of (apply_change (SetReverbMix 0)
        (snd (connectNodes (initial_config\<lparr>reverbEnabled := True\<rparr>) None
          (armed 0 0 initial_engine)))) (Node 0 0 ReverbWet) = 0
   \<and> audio_out
        (apply_change (SetReverbMix 0)
          (snd (connectNodes (initial_config\<lparr>reverbEnabled := True\<rparr>) None
            (armed 0 0 initial_engine))))
        pointwise
        (new_conns (armed 0 0 initial_engine)
          (apply_change (SetReverbMix 0)
            (snd (connectNodes (initial_config\<lparr>reverbEnabled := True\<rparr>) None
              (armed 0 0 initial_engine)))))
        (reverb_known initial_config 0 0 (Stereo (\<lambda>t. 1 / 2) (\<lambda>t. 1 / 3)) (Mono (\<lambda>t. 1 / 5)))
        (5 + 0) (Mono (\<lambda>t. 1 / 4)) (Destination 0)
       = Some (Stereo (\<lambda>t. 1 / 2) (\<lambda>t. 1 / 3))
   \<and> audio_out
        (snd (connectNodes (initial_config\<lparr>reverbEnabled := False\<rparr>) None
          (armed 0 0 initial_engine)))
        pointwise
        (new_conns (armed 0 0 initial_engine)
          (snd (connectNodes (initial_config\<lparr>reverbEnabled := False\<rparr>) None
            (armed 0 0 initial_engine))))
        (reverb_known initial_config 0 0 (Stereo (\<lambda>t. 1 / 2) (\<lambda>t. 1 / 3)) (Mono (\<lambda>t. 1 / 5)))
        (5 + 0) (Mono (\<lambda>t. 1 / 4)) (Destination 0)
       = Some (Stereo (\<lambda>t. 1 / 2) (\<lambda>t. 1 / 3))
   \<and> audio_out
        (snd (connectNodes (initial_config\<lparr>reverbEnabled := True\<rparr>) None
          (armed 0 0 initial_engine)))
        pointwise
        (new_conns (armed 0 0 initial_engine)
          (snd (connectNodes (initial_config\<lparr>reverbEnabled := True\<rparr>) None
            (armed 0 0 initial_engine))))
        (reverb_known initial_config 0 0 (Stereo (\<lambda>t. 1 / 2) (\<lambda>t. 1 / 3)) (Mono (\<lambda>t. 1 / 5)))
        (5 + 0) (Mono (\<lambda>t. 1 / 4)) (Destination 0)
       = Some (Stereo (\<lambda>t. 7 / 20) (\<lambda>t. 4 / 15))
   \<and> reverb (initial_config\<lparr>reverb := 0\<rparr>) = 0
   \<and> audio_out
        (snd (connectNodes (initial_config\<lparr>reverb := 0, reverbEnabled := True\<rparr>) None
          (armed 0 0 initial_engine)))
        pointwise
        (new_conns (armed 0 0 initial_engine)
          (snd (connectNodes (initial_config\<lparr>reverb := 0, reverbEnabled := True\<rparr>) None
            (armed 0 0 initial_engine))))
        (reverb_known (initial_config\<lparr>reverb := 0\<rparr>) 0 0
          (Stereo (\<lambda>t. 1 / 2) (\<lambda>t. 1 / 3)) (Mono (\<lambda>t. 1 / 5)))
        (5 + 0) (Mono (\<lambda>t. 1 / 4)) (Destination 0)
     = audio_out
        (snd (connectNodes (initial_config\<lparr>reverb := 0, reverbEnabled := False\<rparr>) None
          (armed 0 0 initial_engine)))
        pointwise
        (new_conns (armed 0 0 initial_engine)
          (snd (connectNodes (initial_config\<lparr>reverb := 0, reverbEnabled := False\<rparr>) None
            (armed 0 0 initial_engine))))
        (reverb_known (initial_config\<lparr>reverb := 0\<rparr>) 0 0
          (Stereo (\<lambda>t. 1 / 2) (\<lambda>t. 1 / 3)) (Mono (\<lambda>t. 1 / 5)))
        (5 + 0) (Mono (\<lambda>t. 1 / 4)) (Destination 0)"
proof -
  let ?A = "armed 0 0 initial_engine"
  let ?q = "Stereo (\<lambda>t. 1 / 2) (\<lambda>t. 1 / 3)" and ?w = "Mono (\<lambda>t. 1 / 5)"
  let ?x = "Mono (\<lambda>t. 1 / 4)"
  have b: "next_build ?A = 0" and r: "(0::real) \<noteq> reverb (cfg ?A)"
    and pn: "max (- 1) (min 1 (panner initial_config)) = 0"
    "max (- 1) (min 1 (panner (initial_config\<lparr>reverb := 0\<rparr>))) = 0"
    and rv: "reverb initial_config = 1 / 2" "reverb (initial_config\<lparr>reverb := 0\<rparr>) = 0"
    by (simp_all add: armed_def initial_engine_def initial_config_def)
  have sp: "stereo_pan 0 ?q = ?q" by simp
  note t1 = reverb_dry_wet_mix [OF armed_facts, where c = initial_config and v = 0 and q = ?q
      and w = ?w and os = pointwise and k = 0 and x = ?x, unfolded Let_def b pn sp rv]
  note t2 = reverb_dry_wet_mix [OF armed_facts, where c = "initial_config\<lparr>reverb := 0\<rparr>"
      and v = 0 and q = ?q and w = ?w and os = pointwise and k = 0 and x = ?x,
      unfolded Let_def b pn sp rv]
  from t1 r have h: "apply_change (SetReverbMix 0)
        (snd (connectNodes (initial_config\<lparr>reverbEnabled := True\<rparr>) None ?A))
      = eff_reverb_mix ((snd (connectNodes (initial_config\<lparr>reverbEnabled := True\<rparr>) None ?A))
          \<lparr>cfg := (cfg (snd (connectNodes (initial_config\<lparr>reverbEnabled := True\<rparr>) None ?A)))
             \<lparr>reverb := 0\<rparr>\<rparr>)"
    by blast
  have m: "add_audio (map_audio (scale (1 - 1 / 2)) ?q) (map_audio (scale (1 / 2)) ?w)
      = Stereo (\<lambda>t. 7 / 20) (\<lambda>t. 4 / 15)"
    by (simp add: scale_def)
  from t2 have e2: "audio_out
        (snd (connectNodes (initial_config\<lparr>reverb := 0, reverbEnabled := True\<rparr>) None ?A))
        pointwise
        (new_conns ?A
          (snd (connectNodes (initial_config\<lparr>reverb := 0, reverbEnabled := True\<rparr>) None ?A)))
        (reverb_known (initial_config\<lparr>reverb := 0\<rparr>) 0 0 ?q ?w) (5 + 0) ?x (Destination 0)
     = audio_out
        (snd (connectNodes (initial_config\<lparr>reverb := 0, reverbEnabled := False\<rparr>) None ?A))
        pointwise
        (new_conns ?A
          (snd (connectNodes (initial_config\<lparr>reverb := 0, reverbEnabled := False\<rparr>) None ?A)))
        (reverb_known (initial_config\<lparr>reverb := 0\<rparr>) 0 0 ?q ?w) (5 + 0) ?x (Destination 0)"
    by blast
  from t1 have g: "gain_of (eff_reverb_mix
        ((snd (connectNodes (initial_config\<lparr>reverbEnabled := True\<rparr>) None ?A))
          \<lparr>cfg := (cfg (snd (connectNodes (initial_config\<lparr>reverbEnabled := True\<rparr>) None ?A)))
             \<lparr>reverb := 0\<rparr>\<rparr>)) (Node 0 0 ReverbDry) = 1 - 0"
    "gain_of (eff_reverb_mix
        ((snd (connectNodes (initial_config\<lparr>reverbEnabled := True\<rparr>) None ?A))
          \<lparr>cfg := (cfg (snd (connectNodes (initial_config\<lparr>reverbEnabled := True\<rparr>) None ?A)))
             \<lparr>reverb := 0\<rparr>\<rparr>)) (Node 0 0 ReverbWet) = 0"
    by blast+
  from t1 have o: "audio_out (eff_reverb_mix
        ((snd (connectNodes (initial_config\<lparr>reverbEnabled := True\<rparr>) None ?A))
          \<lparr>cfg := (cfg (snd (connectNodes (initial_config\<lparr>reverbEnabled := True\<rparr>) None ?A)))
             \<lparr>reverb := 0\<rparr>\<rparr>))
        pointwise
        (new_conns ?A (eff_reverb_mix
        ((snd (connectNodes (initial_config\<lparr>reverbEnabled := True\<rparr>) None ?A))
          \<lparr>cfg := (cfg (snd (connectNodes (initial_config\<lparr>reverbEnabled := True\<rparr>) None ?A)))
             \<lparr>reverb := 0\<rparr>\<rparr>)))
        (reverb_known initial_config 0 0 ?q ?w) (5 + 0) ?x (Destination 0)
      = audio_out
        (snd (connectNodes (initial_config\<lparr>reverbEnabled := False\<rparr>) None ?A))
        pointwise
        (new_conns ?A
          (snd (connectNodes (initial_config\<lparr>reverbEnabled := False\<rparr>) None ?A)))
        (reverb_known initial_config 0 0 ?q ?w) (5 + 0) ?x (Destination 0)"
    and f: "audio_out
        (snd (connectNodes (initial_config\<lparr>reverbEnabled := False\<rparr>) None ?A))
        pointwise
        (new_conns ?A
          (snd (connectNodes (initial_config\<lparr>reverbEnabled := False\<rparr>) None ?A)))
        (reverb_known initial_config 0 0 ?q ?w) (5 + 0) ?x (Destination 0) = Some ?q"
    and n: "audio_out
        (snd (connectNodes (initial_config\<lparr>reverbEnabled := True\<rparr>) None ?A))
        pointwise
        (new_conns ?A
          (snd (connectNodes (initial_config\<lparr>reverbEnabled := True\<rparr>) None ?A)))
        (reverb_known initial_config 0 0 ?q ?w) (5 + 0) ?x (Destination 0)
      = Some (add_audio (map_audio (scale (1 - 1 / 2)) ?q) (map_audio (scale (1 / 2)) ?w))"
    by blast+
  show ?thesis
    unfolding h using armed_facts r g o f n [unfolded m] e2 rv(2)
    by (simp only: simp_thms diff_zero)
qed


end
